theory Spec2Isabelle
  imports Complex_Main "HOL-Library.AList" "HOL-Library.Multiset" "HOL-Library.Char_ord"
    "HOL-Library.List_Lexorder"
begin

section \<open>Values and configuration\<close>

text \<open>
  Request bodies and response payloads are JSON-like JavaScript values. A number is
  modelled by an integer; a string by its list of characters; an object by the list of
  its own enumerable properties in enumeration order. A property whose value is
  \<^verbatim>\<open>undefined\<close> is modelled as an absent property (the two are not told apart by
  \<^verbatim>\<open>JSON.stringify\<close>, by truthiness tests or by \<^verbatim>\<open>===\<close> against a string).
\<close>

datatype json =
    JNull
  | JBool bool
  | JNum int
  | JStr string
  | JArr "json list"
  | JObj "(string \<times> json) list"

text \<open>JavaScript truthiness (\<^verbatim>\<open>!x\<close> is its negation).\<close>

fun truthy :: "json \<Rightarrow> bool" where
  "truthy JNull = False"
| "truthy (JBool b) = b"
| "truthy (JNum n) = (n \<noteq> 0)"
| "truthy (JStr s) = (s \<noteq> [])"
| "truthy (JArr xs) = True"
| "truthy (JObj kvs) = True"

text \<open>
  Property read \<^verbatim>\<open>v.k\<close> on a value that is not null: \<open>None\<close> is
  \<^verbatim>\<open>undefined\<close>. Only objects carry the properties read here.
\<close>

fun getProp :: "json \<Rightarrow> string \<Rightarrow> json option" where
  "getProp (JObj kvs) k = map_of kvs k"
| "getProp v k = None"

text \<open>
  \<^verbatim>\<open>a || d\<close> on an optional number and on an optional string: \<^verbatim>\<open>undefined\<close>,
  \<^verbatim>\<open>0\<close> and \<^verbatim>\<open>''\<close> are falsy.
\<close>

fun nat_or :: "nat option \<Rightarrow> nat \<Rightarrow> nat" where
  "nat_or None d = d"
| "nat_or (Some n) d = (if n = 0 then d else n)"

fun int_or :: "int option \<Rightarrow> int \<Rightarrow> int" where
  "int_or None d = d"
| "int_or (Some n) d = (if n = 0 then d else n)"

text \<open>The same on an optional number that need not be whole, and may be negative.\<close>

fun num_or :: "rat option \<Rightarrow> rat \<Rightarrow> rat" where
  "num_or None d = d"
| "num_or (Some x) d = (if x = 0 then d else x)"

fun str_or :: "string option \<Rightarrow> string \<Rightarrow> string" where
  "str_or None d = d"
| "str_or (Some s) d = (if s = [] then d else s)"

text \<open>
  The configuration held by the client after construction (\<^verbatim>\<open>this.config\<close>). The
  constructor spreads the caller's object over its defaults, so a field the caller
  passes explicitly (also as \<^verbatim>\<open>0\<close>, \<^verbatim>\<open>''\<close> or \<^verbatim>\<open>undefined\<close>) keeps the caller's
  value; the optional fields are therefore options, and the code's own
  \<^verbatim>\<open>|| 0\<close> fallbacks are kept at each use. \<^verbatim>\<open>maxRetries\<close>, \<^verbatim>\<open>retryDelay\<close>,
  \<^verbatim>\<open>timeout\<close> and \<^verbatim>\<open>maxCacheSize\<close> are natural numbers, times and durations are
  integers (milliseconds). \<^verbatim>\<open>poolSize\<close>, which the bulk methods use as the step of a
  loop, is any finite number, as are the batch size and the concurrency of their options.
\<close>

record config =
  schema :: "string option"
  timeout :: "nat option"
  maxRetries :: "nat option"
  retryDelay :: "nat option"
  poolSize :: "rat option"
  apiPath :: "string option"
  enableCache :: bool
  cacheTTL :: "int option"
  maxCacheSize :: "nat option"

text \<open>\<^verbatim>\<open>QueryOptions\<close> (\<^verbatim>\<open>options?.f\<close> of an absent options object is \<open>None\<close>).\<close>

record query_options =
  opt_timeout :: "nat option"
  opt_useCache :: "bool option"
  opt_cacheTTL :: "int option"

text \<open>\<^verbatim>\<open>HarperDBResponse\<close>: the envelope returned by the executor.\<close>

record response =
  message :: json
  data :: json
  executionTime :: int
  cached :: "bool option"

section \<open>Cache store\<close>

text \<open>
  \<^verbatim>\<open>CacheEntry\<close> and \<^verbatim>\<open>queryCache: Map<string, CacheEntry>\<close>. A JavaScript
  \<^verbatim>\<open>Map\<close> iterates in insertion order; \<^verbatim>\<open>set\<close> on a present key replaces the value
  in place and on a new key appends; so the store is an association list in insertion
  order, \<^verbatim>\<open>get\<close> is \<^const>\<open>map_of\<close>, \<^verbatim>\<open>set\<close> is \<^const>\<open>AList.update\<close> and
  \<^verbatim>\<open>delete\<close> is \<^const>\<open>AList.delete\<close>.
\<close>

record cache_entry =
  ce_data :: response
  ce_timestamp :: int
  ce_ttl :: int

type_synonym cache = "(string \<times> cache_entry) list"

text \<open>
  \<^verbatim>\<open>getCached(cacheKey)\<close> at clock reading \<open>now\<close>: the value returned
  (\<open>None\<close> is \<^verbatim>\<open>null\<close>) and the store afterwards.
\<close>

definition getCached :: "config \<Rightarrow> int \<Rightarrow> cache \<Rightarrow> string \<Rightarrow> response option \<times> cache" where
  "getCached cfg now qc cacheKey =
     (if cacheKey = [] \<or> \<not> enableCache cfg then (None, qc)
      else case map_of qc cacheKey of
             None \<Rightarrow> (None, qc)
           | Some entry \<Rightarrow>
               if now - ce_timestamp entry > ce_ttl entry
               then (None, AList.delete cacheKey qc)
               else (Some (ce_data entry), qc))"

text \<open>\<^verbatim>\<open>this.queryCache.keys().next().value\<close>: the oldest-inserted key, if any.\<close>

definition firstKey :: "cache \<Rightarrow> string option" where
  "firstKey qc = (case qc of [] \<Rightarrow> None | (k, e) # rest \<Rightarrow> Some k)"

text \<open>\<^verbatim>\<open>ttl || this.config.cacheTTL || 0\<close>.\<close>

definition effectiveTTL :: "config \<Rightarrow> int option \<Rightarrow> int" where
  "effectiveTTL cfg ttl = int_or ttl (int_or (cacheTTL cfg) 0)"

text \<open>The capacity step of \<^verbatim>\<open>setCache\<close>: at or over capacity, delete the first key.\<close>

definition evictIfFull :: "config \<Rightarrow> cache \<Rightarrow> cache" where
  "evictIfFull cfg qc =
     (if length qc \<ge> nat_or (maxCacheSize cfg) 0
      then (case firstKey qc of
              None \<Rightarrow> qc
            | Some k \<Rightarrow> if k \<noteq> [] then AList.delete k qc else qc)
      else qc)"

text \<open>\<^verbatim>\<open>setCache(cacheKey, data, ttl)\<close> at clock reading \<open>now\<close>.\<close>

definition setCache :: "config \<Rightarrow> int \<Rightarrow> cache \<Rightarrow> string \<Rightarrow> response \<Rightarrow> int option \<Rightarrow> cache" where
  "setCache cfg now qc cacheKey d ttl =
     (if cacheKey = [] \<or> \<not> enableCache cfg then qc
      else AList.update cacheKey
             \<lparr>ce_data = d, ce_timestamp = now, ce_ttl = effectiveTTL cfg ttl\<rparr>
             (evictIfFull cfg qc))"

definition clearCache :: "cache \<Rightarrow> cache" where
  "clearCache qc = []"

text \<open>The body of the interval callback of \<^verbatim>\<open>startCacheCleanup\<close>, run at \<open>now\<close>.\<close>

definition cacheCleanup :: "int \<Rightarrow> cache \<Rightarrow> cache" where
  "cacheCleanup now qc = filter (\<lambda>(k, entry). \<not> (now - ce_timestamp entry > ce_ttl entry)) qc"

text \<open>
  \<^verbatim>\<open>invalidateTableCache(table, schema)\<close>. The key decoder
  \<^verbatim>\<open>JSON.parse(Buffer.from(key, 'base64').toString())\<close> belongs to the platform and is
  a parameter \<open>decode\<close>: \<open>None\<close> where it throws. Everything after the decoding
  sits in the same \<^verbatim>\<open>try\<close>, whose \<^verbatim>\<open>catch\<close> ignores the key: reading
  \<^verbatim>\<open>.body\<close> of \<^verbatim>\<open>null\<close> throws as well and is the second \<open>None\<close> below.
\<close>

definition decodedBody :: "(string \<Rightarrow> json option) \<Rightarrow> string \<Rightarrow> json option" where
  "decodedBody decode key =
     (case decode key of
        None \<Rightarrow> None
      | Some JNull \<Rightarrow> None
      | Some decoded \<Rightarrow>
          (case getProp decoded ''body'' of
             None \<Rightarrow> Some (JObj [])
           | Some b \<Rightarrow> if truthy b then Some b else Some (JObj [])))"

text \<open>\<^verbatim>\<open>body.table === table && (body.schema === schemaName || !body.schema)\<close>.\<close>

definition bodyMatches :: "json \<Rightarrow> string \<Rightarrow> string \<Rightarrow> bool" where
  "bodyMatches body table schemaName =
     (getProp body ''table'' = Some (JStr table) \<and>
      (getProp body ''schema'' = Some (JStr schemaName) \<or>
       (case getProp body ''schema'' of None \<Rightarrow> True | Some s \<Rightarrow> \<not> truthy s)))"

definition keyMatches :: "(string \<Rightarrow> json option) \<Rightarrow> string \<Rightarrow> string \<Rightarrow> string \<Rightarrow> bool" where
  "keyMatches decode table schemaName key =
     (case decodedBody decode key of
        None \<Rightarrow> False
      | Some body \<Rightarrow> bodyMatches body table schemaName)"

text \<open>\<^verbatim>\<open>schema || this.config.schema || ''\<close>.\<close>

definition schemaNameOf :: "config \<Rightarrow> string option \<Rightarrow> string" where
  "schemaNameOf cfg schema_arg = str_or schema_arg (str_or (schema cfg) [])"

definition invalidateTableCache ::
  "(string \<Rightarrow> json option) \<Rightarrow> config \<Rightarrow> cache \<Rightarrow> string \<Rightarrow> string option \<Rightarrow> cache" where
  "invalidateTableCache decode cfg qc table schema_arg =
     foldl (\<lambda>c key. if keyMatches decode table (schemaNameOf cfg schema_arg) key
                     then AList.delete key c else c)
           qc (map fst qc)"

text \<open>
  \<^verbatim>\<open>this.config.maxCacheSize || 0\<close>, the capacity \<^verbatim>\<open>setCache\<close> compares the size with.
\<close>

definition capacity :: "config \<Rightarrow> nat" where
  "capacity cfg = nat_or (maxCacheSize cfg) 0"

text \<open>
  A store as a \<^verbatim>\<open>Map\<close> holds it: one entry per key. No key is empty, since
  \<^verbatim>\<open>setCache\<close>, the only writer, refuses the empty key.
\<close>

definition wf_cache :: "cache \<Rightarrow> bool" where
  "wf_cache qc = (distinct (map fst qc) \<and> [] \<notin> set (map fst qc))"

text \<open>A sequence of \<^verbatim>\<open>setCache\<close> calls \<open>(now, cacheKey, data, ttl)\<close>, in order.\<close>

definition runPuts :: "config \<Rightarrow> cache \<Rightarrow> (int \<times> string \<times> response \<times> int option) list \<Rightarrow> cache" where
  "runPuts cfg qc ops = foldl (\<lambda>c (now, cacheKey, d, ttl). setCache cfg now c cacheKey d ttl) qc ops"

section \<open>Retry policy\<close>

text \<open>
  The error axios rejects with, as far as the client reads it:
  \<^verbatim>\<open>error.response?.status\<close>, \<^verbatim>\<open>error.code\<close>,
  \<^verbatim>\<open>error.response?.data?.error\<close>, \<^verbatim>\<open>error.response?.data?.message\<close> and
  \<^verbatim>\<open>error.message\<close> (the last three read as strings).
\<close>

record transport_error =
  err_status :: "nat option"
  err_code :: "string option"
  err_data_error :: "string option"
  err_data_message :: "string option"
  err_message :: "string option"

text \<open>What one attempt of the transport settles to: an error, or the response payload.\<close>

type_synonym attempt = "transport_error + json"

text \<open>
  The test of the response interceptor, on the retry counter of the request's config:
  \<^verbatim>\<open>__retryCount < (maxRetries || 0) && ((error.response?.status ?? 0) >= 500 || error.code === 'ECONNABORTED')\<close>.
\<close>

definition shouldRetry :: "config \<Rightarrow> nat \<Rightarrow> transport_error \<Rightarrow> bool" where
  "shouldRetry cfg retryCount err =
     (retryCount < nat_or (maxRetries cfg) 0 \<and>
      ((case err_status err of None \<Rightarrow> 0 | Some s \<Rightarrow> s) \<ge> 500 \<or>
       err_code err = Some ''ECONNABORTED''))"

text \<open>
  The delay awaited once the counter has been incremented to \<open>retryCount\<close>:
  \<^verbatim>\<open>(retryDelay || 0) * (config.__retryCount || 1)\<close>.
\<close>

definition retryWait :: "config \<Rightarrow> nat \<Rightarrow> nat" where
  "retryWait cfg retryCount = nat_or (retryDelay cfg) 0 * nat_or (Some retryCount) 1"

text \<open>
  A request through the instance with its interceptors. The counter starts at 0 and
  travels with the request's config; each retry re-enters the instance with the counter
  incremented, so the attempt made with counter \<open>c\<close> is the attempt number \<open>c\<close>
  of the transport, \<open>adapter c\<close>. The result is the list of delays awaited and what
  the caller's promise settles to.
\<close>

function request :: "config \<Rightarrow> (nat \<Rightarrow> attempt) \<Rightarrow> nat \<Rightarrow> nat list \<times> attempt" where
  "request cfg adapter retryCount =
     (case adapter retryCount of
        Inr resp \<Rightarrow> ([], Inr resp)
      | Inl err \<Rightarrow>
          if shouldRetry cfg retryCount err
          then (let r = request cfg adapter (retryCount + 1)
                in (retryWait cfg (retryCount + 1) # fst r, snd r))
          else ([], Inl err))"
  by pat_completeness auto
termination
  by (relation "measure (\<lambda>(cfg, adapter, retryCount). nat_or (maxRetries cfg) 0 - retryCount)")
    (auto simp: shouldRetry_def)

text \<open>
  The failure classes in the words of the specification: a transient failure is a
  response status of the 5xx class or a timeout; a client error is a status of the 4xx
  class. The test of the interceptor has no upper bound on the status, so it also
  holds of a status above the five classes.
\<close>

definition transientFailure :: "transport_error \<Rightarrow> bool" where
  "transientFailure err =
     ((case err_status err of None \<Rightarrow> False | Some s \<Rightarrow> 500 \<le> s \<and> s \<le> 599) \<or>
      err_code err = Some ''ECONNABORTED'')"

definition clientError :: "transport_error \<Rightarrow> bool" where
  "clientError err =
     ((case err_status err of None \<Rightarrow> False | Some s \<Rightarrow> 400 \<le> s \<and> s \<le> 499) \<and>
      err_code err \<noteq> Some ''ECONNABORTED'')"

definition statusAbove599 :: "transport_error \<Rightarrow> bool" where
  "statusAbove599 err = (case err_status err of None \<Rightarrow> False | Some s \<Rightarrow> 600 \<le> s)"

text \<open>
  The number of attempts made for a request when the attempt with counter
  \<open>retryCount\<close> has just failed: the first attempt and one for each retry.
\<close>

definition attemptsSoFar :: "nat \<Rightarrow> nat" where
  "attemptsSoFar retryCount = retryCount + 1"

declare request.simps [simp del]

section \<open>Cache keys\<close>

subsection \<open>Strings of the platform\<close>



definition digitChar :: "nat \<Rightarrow> char" where
  "digitChar d = char_of (48 + d)"

function showNat :: "nat \<Rightarrow> string" where
  "showNat n = (if n < 10 then [digitChar n] else showNat (n div 10) @ [digitChar (n mod 10)])"
  by pat_completeness auto
termination
  by (relation "measure (\<lambda>n. n)") auto

declare showNat.simps [simp del]

definition showInt :: "int \<Rightarrow> string" where
  "showInt i = (if i < 0 then CHR ''-'' # showNat (nat (- i)) else showNat (nat i))"

text \<open>\<^verbatim>\<open>String.prototype.toLowerCase\<close> on the ASCII letters.\<close>

definition lowerChar :: "char \<Rightarrow> char" where
  "lowerChar c = (if 65 \<le> (of_char c :: nat) \<and> (of_char c :: nat) \<le> 90
                  then char_of ((of_char c :: nat) + 32) else c)"

definition toLowerCase :: "string \<Rightarrow> string" where
  "toLowerCase s = map lowerChar s"

subsection \<open>Objects as property lists\<close>

text \<open>
  An ordinary object enumerates its array-index keys first, in ascending numeric order,
  and then its other string keys in the order of their creation. An array index is the
  canonical numeral of a number below \<open>2^32 - 1\<close>.
\<close>

definition isDigit :: "char \<Rightarrow> bool" where
  "isDigit c = (48 \<le> (of_char c :: nat) \<and> (of_char c :: nat) \<le> 57)"

definition numVal :: "string \<Rightarrow> nat" where
  "numVal s = foldl (\<lambda>a c. 10 * a + ((of_char c :: nat) - 48)) 0 s"

definition isArrayIndex :: "string \<Rightarrow> bool" where
  "isArrayIndex s =
     (s \<noteq> [] \<and> list_all isDigit s \<and> (s = ''0'' \<or> hd s \<noteq> CHR ''0'') \<and>
      length s \<le> 10 \<and> numVal s < 4294967295)"

fun insertIndex :: "nat \<Rightarrow> string \<Rightarrow> json \<Rightarrow> (string \<times> json) list \<Rightarrow> (string \<times> json) list" where
  "insertIndex n k v [] = [(k, v)]"
| "insertIndex n k v ((k', v') # rest) =
     (if isArrayIndex k' \<and> numVal k' < n then (k', v') # insertIndex n k v rest
      else (k, v) # (k', v') # rest)"

text \<open>
  The assignment \<^verbatim>\<open>obj[k] = v\<close> on an object made by the literal \<^verbatim>\<open>{}\<close>, all of
  whose properties were made by such assignments of values without methods. For the key
  \<^verbatim>\<open>__proto__\<close> the assignment runs the setter that the object inherits from
  \<^verbatim>\<open>Object.prototype\<close>: it replaces the prototype of the object when \<open>v\<close> is an
  object or \<^verbatim>\<open>null\<close>, does nothing otherwise, and in neither case creates a
  property. The new prototype is an object or an array whose properties are writable data
  properties, so every later assignment still creates or updates a property of the object
  itself; and the prototype is seen neither by \<^verbatim>\<open>Object.keys\<close> nor by
  \<^verbatim>\<open>JSON.stringify\<close>. A property list therefore stands for the own enumerable
  properties, and the assignment of \<^verbatim>\<open>__proto__\<close> leaves it as it is.
\<close>

definition objSet :: "(string \<times> json) list \<Rightarrow> string \<Rightarrow> json \<Rightarrow> (string \<times> json) list" where
  "objSet kvs k v =
     (if k = ''__proto__'' then kvs
      else if k \<in> set (map fst kvs) then AList.update k v kvs
      else if isArrayIndex k then insertIndex (numVal k) k v kvs
      else kvs @ [(k, v)])"

subsection \<open>\<^verbatim>\<open>normalizeBody\<close>\<close>

text \<open>
  \<^verbatim>\<open>Object.keys(body)\<close> and \<^verbatim>\<open>body[key]\<close>: an array is an object whose keys are
  its indices.
\<close>

fun objectKeys :: "json \<Rightarrow> string list" where
  "objectKeys (JObj kvs) = map fst kvs"
| "objectKeys (JArr xs) = map showNat [0 ..< length xs]"
| "objectKeys v = []"

fun objectGet :: "json \<Rightarrow> string \<Rightarrow> json option" where
  "objectGet (JObj kvs) k = map_of kvs k"
| "objectGet (JArr xs) k = (if isArrayIndex k \<and> numVal k < length xs then Some (xs ! numVal k) else None)"
| "objectGet v k = None"

lemma objectGet_size: "objectGet body k = Some v \<Longrightarrow> size v < size body"
proof (cases body)
  case (JArr xs)
  assume "objectGet body k = Some v"
  with JArr have "v \<in> set xs" by (auto split: if_splits)
  then have "size v \<le> size_list size xs" by (simp add: size_list_estimation')
  with JArr show ?thesis by simp
next
  case (JObj kvs)
  assume "objectGet body k = Some v"
  with JObj have "(k, v) \<in> set kvs" by (auto dest: map_of_SomeD)
  then have "size_prod (\<lambda>_. 0) size (k, v) \<le> size_list (size_prod (\<lambda>_. 0) size) kvs"
    by (rule size_list_estimation') simp
  with JObj show ?thesis by simp
qed simp_all

text \<open>
  \<^verbatim>\<open>typeof v === 'object' && v !== null && !Array.isArray(v)\<close>, the test under which
  \<^verbatim>\<open>normalizeBody\<close> descends into a property value.
\<close>

fun isPlainObject :: "json \<Rightarrow> bool" where
  "isPlainObject (JObj kvs) = True"
| "isPlainObject v = False"

text \<open>
  \<^verbatim>\<open>normalizeBody(body)\<close>. The loop runs over
  \<^verbatim>\<open>Object.keys(body).sort()\<close> (the default sort, by code units, which is the
  order of the byte lists on keys that are \<open>bmpString\<close>) and assigns each property
  to the new object; a value that is an array is assigned as it is.
\<close>

function normalizeBody :: "json \<Rightarrow> json" where
  "normalizeBody body =
     (if body = JNull \<or> \<not> (isPlainObject body \<or> (case body of JArr xs \<Rightarrow> True | _ \<Rightarrow> False))
      then body
      else JObj (foldl
        (\<lambda>normalized key.
            case objectGet body key of
              None \<Rightarrow> normalized
            | Some v \<Rightarrow> objSet normalized key (if isPlainObject v then normalizeBody v else v))
        [] (sort (objectKeys body))))"
  by pat_completeness auto
termination
  by (relation "measure size") (auto dest: objectGet_size)

declare normalizeBody.simps [simp del]

subsection \<open>\<^verbatim>\<open>JSON.stringify\<close> and base64\<close>

text \<open>\<^verbatim>\<open>QuoteJSONString\<close>: the escapes of the quote, the backslash and the control characters.\<close>

definition hexDigit :: "nat \<Rightarrow> char" where
  "hexDigit d = (if d < 10 then char_of (48 + d) else char_of (87 + d))"

definition escapeChar :: "char \<Rightarrow> string" where
  "escapeChar c =
     (let n = (of_char c :: nat) in
      if n = 34 then [CHR 0x5C, CHR 0x22]
      else if n = 92 then [CHR 0x5C, CHR 0x5C]
      else if n = 8 then [CHR 0x5C, CHR ''b'']
      else if n = 9 then [CHR 0x5C, CHR ''t'']
      else if n = 10 then [CHR 0x5C, CHR ''n'']
      else if n = 12 then [CHR 0x5C, CHR ''f'']
      else if n = 13 then [CHR 0x5C, CHR ''r'']
      else if n < 32 then [CHR 0x5C, CHR ''u'', CHR ''0'', CHR ''0'', hexDigit (n div 16), hexDigit (n mod 16)]
      else [c])"

definition quote :: "string \<Rightarrow> string" where
  "quote s = CHR 0x22 # concat (map escapeChar s) @ [CHR 0x22]"

fun joinComma :: "string list \<Rightarrow> string" where
  "joinComma [] = []"
| "joinComma [x] = x"
| "joinComma (x # y # ys) = x @ CHR '','' # joinComma (y # ys)"

fun stringify :: "json \<Rightarrow> string" where
  "stringify JNull = ''null''"
| "stringify (JBool b) = (if b then ''true'' else ''false'')"
| "stringify (JNum n) = showInt n"
| "stringify (JStr s) = quote s"
| "stringify (JArr xs) = CHR ''['' # joinComma (map stringify xs) @ [CHR '']'']"
| "stringify (JObj kvs) =
     CHR ''{'' # joinComma (map (\<lambda>(k, v). quote k @ CHR '':'' # stringify v) kvs) @ [CHR ''}'']"

text \<open>\<^verbatim>\<open>Buffer.prototype.toString('base64')\<close>: the standard alphabet, with padding.\<close>

definition b64alphabet :: string where
  "b64alphabet = ''ABCDEFGHIJKLMNOPQRSTUVWXYZabcdefghijklmnopqrstuvwxyz0123456789+/''"

definition b64char :: "nat \<Rightarrow> char" where
  "b64char n = b64alphabet ! n"

fun base64 :: "string \<Rightarrow> string" where
  "base64 [] = []"
| "base64 [a] =
     (let x = (of_char a :: nat)
      in [b64char (x div 4), b64char ((x mod 4) * 16), CHR ''='', CHR ''=''])"
| "base64 [a, b] =
     (let x = (of_char a :: nat); y = (of_char b :: nat)
      in [b64char (x div 4), b64char ((x mod 4) * 16 + y div 16), b64char ((y mod 16) * 4),
          CHR ''=''])"
| "base64 (a # b # c # rest) =
     (let x = (of_char a :: nat); y = (of_char b :: nat); z = (of_char c :: nat)
      in b64char (x div 4) # b64char ((x mod 4) * 16 + y div 16) #
         b64char ((y mod 16) * 4 + z div 64) # b64char (z mod 64) # base64 rest)"

subsection \<open>\<^verbatim>\<open>generateCacheKey\<close>\<close>

definition cacheableOperations :: "string list" where
  "cacheableOperations = [''select'', ''get_by_hash'', ''get_by_hashes'', ''search_by_value'',
     ''sql'', ''describe_table'', ''list_tables'', ''list_schemas'']"

text \<open>
  \<^verbatim>\<open>generateCacheKey(operation, body)\<close>. \<^verbatim>\<open>JSON.stringify\<close> throws on no value of
  type \<^typ>\<open>json\<close>, so the \<^verbatim>\<open>catch\<close> branch has no counterpart.
\<close>

definition generateCacheKey :: "string \<Rightarrow> json \<Rightarrow> string" where
  "generateCacheKey operation body =
     (if toLowerCase operation \<notin> set cacheableOperations then []
      else base64 (stringify (JObj [(''operation'', JStr operation), (''body'', normalizeBody body)])))"

section \<open>Request executor\<close>

text \<open>
  What one call of \<^verbatim>\<open>executeQuery\<close> meets outside the client: the clock reading
  when the call starts (also read by \<^verbatim>\<open>getCached\<close>, in the same synchronous
  step), the clock reading once the awaited \<^verbatim>\<open>post\<close> has settled (read for the
  execution time, and by \<^verbatim>\<open>setCache\<close>), and what the attempts of the transport,
  under the timeout of the call, settle to.
\<close>

record call_env =
  startedAt :: int
  settledAt :: int
  transport :: "nat \<Rightarrow> attempt"

text \<open>
  \<^verbatim>\<open>error.response?.data?.error || error.response?.data?.message || error.message || 'Unknown error'\<close>.
\<close>

definition errorMessage :: "transport_error \<Rightarrow> string" where
  "errorMessage err =
     str_or (err_data_error err) (str_or (err_data_message err) (str_or (err_message err) ''Unknown error''))"

text \<open>The data and the message of the envelope, from the payload of the response.\<close>

definition responseData :: "json \<Rightarrow> json" where
  "responseData rdata =
     (case rdata of
        JArr xs \<Rightarrow> rdata
      | JObj kvs \<Rightarrow> (case map_of kvs ''data'' of Some d \<Rightarrow> d | None \<Rightarrow> rdata)
      | _ \<Rightarrow> rdata)"

definition responseMessage :: "json \<Rightarrow> json" where
  "responseMessage rdata =
     (case getProp rdata ''message'' of
        None \<Rightarrow> JStr ''Success''
      | Some m \<Rightarrow> if truthy m then m else JStr ''Success'')"

text \<open>\<^verbatim>\<open>options?.useCache !== undefined ? options.useCache : (this.config.enableCache || false)\<close>.\<close>

definition useCacheOf :: "config \<Rightarrow> 'a query_options_scheme \<Rightarrow> bool" where
  "useCacheOf cfg options = (case opt_useCache options of Some u \<Rightarrow> u | None \<Rightarrow> enableCache cfg)"

text \<open>\<^verbatim>\<open>options?.cacheTTL || this.config.cacheTTL\<close>.\<close>

definition cacheTTLOf :: "config \<Rightarrow> 'a query_options_scheme \<Rightarrow> int option" where
  "cacheTTLOf cfg options =
     (case opt_cacheTTL options of
        None \<Rightarrow> cacheTTL cfg
      | Some t \<Rightarrow> if t = 0 then cacheTTL cfg else Some t)"

text \<open>
  \<^verbatim>\<open>executeQuery(operation, body, options)\<close>: the error message thrown (\<open>Inl\<close>) or
  the envelope returned, and the store afterwards.
\<close>

definition executeQuery ::
  "config \<Rightarrow> call_env \<Rightarrow> cache \<Rightarrow> string \<Rightarrow> json \<Rightarrow> 'a query_options_scheme \<Rightarrow>
   (string + response) \<times> cache" where
  "executeQuery cfg env qc operation body options =
     (let startTime = startedAt env;
          useCache = useCacheOf cfg options;
          cacheKey = (if useCache then generateCacheKey operation body else []);
          looked = (if cacheKey \<noteq> [] then getCached cfg startTime qc cacheKey else (None, qc))
      in case fst looked of
           Some c \<Rightarrow>
             (Inr (c\<lparr>executionTime := int_or (Some (executionTime c)) 0, cached := Some True\<rparr>),
              snd looked)
         | None \<Rightarrow>
             (case snd (request cfg (transport env) 0) of
                Inl err \<Rightarrow> (Inl (''HarperDB query failed: '' @ errorMessage err), snd looked)
              | Inr rdata \<Rightarrow>
                  (let result = \<lparr>message = responseMessage rdata, data = responseData rdata,
                                 executionTime = settledAt env - startTime, cached = None\<rparr>
                   in (Inr result,
                       if cacheKey \<noteq> [] \<and> useCache
                       then setCache cfg (settledAt env) (snd looked) cacheKey result (cacheTTLOf cfg options)
                       else snd looked))))"

text \<open>
  What a call settles to when the store takes no part in it: the error of the request
  after its retries, or the envelope built from the payload of the response.
\<close>

definition uncachedOutcome :: "config \<Rightarrow> call_env \<Rightarrow> string + response" where
  "uncachedOutcome cfg env =
     (case snd (request cfg (transport env) 0) of
        Inl err \<Rightarrow> Inl (''HarperDB query failed: '' @ errorMessage err)
      | Inr rdata \<Rightarrow> Inr \<lparr>message = responseMessage rdata, data = responseData rdata,
                         executionTime = settledAt env - startedAt env, cached = None\<rparr>)"

section \<open>Bulk writes\<close>

text \<open>
  \<^verbatim>\<open>BulkInsertOptions\<close>, \<^verbatim>\<open>BulkUpsertOptions\<close> and \<^verbatim>\<open>BulkDeleteOptions\<close>, with the
  \<^verbatim>\<open>concurrency\<close> the parallel variants read, and \<^verbatim>\<open>BulkOperationResult\<close>.
  The batch size and the concurrency have the type \<^verbatim>\<open>number\<close>, and nothing but
  \<^verbatim>\<open>||\<close> stands between the caller's value and its use: they are finite numbers,
  whole or not, negative or not. So is the index of an error, which is computed from the
  batch size.
\<close>

record bulk_options = query_options +
  hashAttribute :: "string option"
  batchSize :: "rat option"
  concurrency :: "rat option"

record bulk_result =
  successful :: nat
  failed :: nat
  errors :: "(rat \<times> string) list option"
  bulkTime :: int

text \<open>\<^verbatim>\<open>getSchema()\<close>: \<^verbatim>\<open>this.config.schema || ''\<close>.\<close>

definition getSchema :: "config \<Rightarrow> string" where
  "getSchema cfg = str_or (schema cfg) []"

text \<open>
  The conversion of a number to an integer that lodash and \<^verbatim>\<open>Array.prototype.slice\<close>
  apply to their arguments: the fraction is dropped, towards zero.
\<close>

definition toInteger :: "rat \<Rightarrow> int" where
  "toInteger x = (if x < 0 then - \<lfloor>- x\<rfloor> else \<lfloor>x\<rfloor>)"

text \<open>
  The loop of lodash's \<^verbatim>\<open>chunk\<close> for a size that is a natural number: slices of
  \<open>n\<close> elements, the last one with what remains, and no slice for the size 0.
\<close>

function chunkNat :: "'a list \<Rightarrow> nat \<Rightarrow> 'a list list" where
  "chunkNat xs n = (if n = 0 \<or> xs = [] then [] else take n xs # chunkNat (drop n xs) n)"
  by pat_completeness auto
termination
  by (relation "measure (\<lambda>(xs, n). length xs)") auto

declare chunkNat.simps [simp del]

text \<open>
  lodash's \<^verbatim>\<open>chunk(array, size)\<close>: the size is \<^verbatim>\<open>Math.max(toInteger(size), 0)\<close>, and
  there is no chunk for an empty array or a size below one.
\<close>

definition chunk :: "'a list \<Rightarrow> rat \<Rightarrow> 'a list list" where
  "chunk xs sz = chunkNat xs (nat (max (toInteger sz) 0))"

text \<open>
  \<^verbatim>\<open>Array.prototype.slice(start, end)\<close>: an argument is made an integer; a negative one
  counts from the end of the array, and both are clamped to the array.
\<close>

definition relativeIndex :: "nat \<Rightarrow> rat \<Rightarrow> nat" where
  "relativeIndex len x =
     (if toInteger x < 0 then nat (max (int len + toInteger x) 0) else min (nat (toInteger x)) len)"

definition slice :: "'a list \<Rightarrow> rat \<Rightarrow> rat \<Rightarrow> 'a list" where
  "slice xs a b =
     take (relativeIndex (length xs) b - relativeIndex (length xs) a)
          (drop (relativeIndex (length xs) a) xs)"

text \<open>
  The schema the write methods compute: \<^verbatim>\<open>options?.hashAttribute ? undefined : this.getSchema()\<close>,
  then \<^verbatim>\<open>schema || this.getSchema()\<close> at each use.
\<close>

definition writeSchema :: "config \<Rightarrow> string option \<Rightarrow> string" where
  "writeSchema cfg ha =
     str_or (if str_or ha [] \<noteq> [] then None else Some (getSchema cfg)) (getSchema cfg)"

text \<open>
  The body of a write request: \<open>field\<close> is \<^verbatim>\<open>records\<close> or \<^verbatim>\<open>hash_values\<close>, and
  \<^verbatim>\<open>hash_attribute\<close> is spread in when the option is truthy.
\<close>

definition writeBody :: "config \<Rightarrow> string \<Rightarrow> string \<Rightarrow> json list \<Rightarrow> string option \<Rightarrow> json" where
  "writeBody cfg table field batch ha =
     JObj ([(''schema'', JStr (writeSchema cfg ha)), (''table'', JStr table), (field, JArr batch)] @
           (if str_or ha [] \<noteq> [] then [(''hash_attribute'', JStr (str_or ha []))] else []))"

text \<open>
  The counters of a bulk job, \<^verbatim>\<open>successful\<close>, \<^verbatim>\<open>failed\<close> and \<^verbatim>\<open>errors\<close>, and the
  store of the client. The index of an error is the number that the code computes from
  the batch size.
\<close>

record bulk_state =
  bs_successful :: nat
  bs_failed :: nat
  bs_errors :: "(rat \<times> string) list"
  bs_cache :: cache

text \<open>
  The \<^verbatim>\<open>catch\<close> block of a group: the group's records are counted as failed, and one
  error is pushed for each, with \<^verbatim>\<open>startIdx + idx\<close> and
  \<^verbatim>\<open>error.message || 'Unknown error'\<close>.
\<close>

definition recordFailure :: "rat \<Rightarrow> json list \<Rightarrow> string \<Rightarrow> bulk_state \<Rightarrow> bulk_state" where
  "recordFailure startIdx batch msg st =
     st\<lparr>bs_failed := bs_failed st + length batch,
        bs_errors := bs_errors st @
          map (\<lambda>idx. (startIdx + of_nat idx, str_or (Some msg) ''Unknown error'')) [0 ..< length batch]\<rparr>"

text \<open>
  One iteration of the loop of \<^verbatim>\<open>insertMany\<close>, \<^verbatim>\<open>updateMany\<close> and
  \<^verbatim>\<open>deleteMany\<close> (the three bodies differ in the operation and in the name of the
  field only): the request of the group, then either the count and, for the last group,
  the invalidation, or the \<^verbatim>\<open>catch\<close> block with
  \<^verbatim>\<open>startIdx = batchIndex * batchSize\<close>. The call of group \<open>i\<close> meets the
  environment \<open>envs i\<close>.
\<close>

definition sequentialStep ::
  "(string \<Rightarrow> json option) \<Rightarrow> config \<Rightarrow> (nat \<Rightarrow> call_env) \<Rightarrow> string \<Rightarrow> string \<Rightarrow> string \<Rightarrow>
   'a bulk_options_scheme \<Rightarrow> rat \<Rightarrow> nat \<Rightarrow> bulk_state \<Rightarrow> nat \<times> json list \<Rightarrow> bulk_state" where
  "sequentialStep decode cfg envs operation field table options bsize nbatches st ib =
     (case ib of (batchIndex, batch) \<Rightarrow>
        (case executeQuery cfg (envs batchIndex) (bs_cache st) operation
                (writeBody cfg table field batch (hashAttribute options)) options of
           (Inr r, qc) \<Rightarrow>
             st\<lparr>bs_successful := bs_successful st + length batch,
                bs_cache := (if batchIndex = nbatches - 1
                             then invalidateTableCache decode cfg qc table
                                    (Some (writeSchema cfg (hashAttribute options)))
                             else qc)\<rparr>
         | (Inl msg, qc) \<Rightarrow> recordFailure (of_nat batchIndex * bsize) batch msg (st\<lparr>bs_cache := qc\<rparr>)))"

text \<open>The value returned by every bulk method, with the clock readings of the job.\<close>

definition bulkResult :: "int \<Rightarrow> int \<Rightarrow> bulk_state \<Rightarrow> bulk_result" where
  "bulkResult jobStart jobEnd st =
     \<lparr>successful = bs_successful st, failed = bs_failed st,
      errors = (if length (bs_errors st) > 0 then Some (bs_errors st) else None),
      bulkTime = jobEnd - jobStart\<rparr>"

text \<open>\<^verbatim>\<open>options?.batchSize || 1000\<close>.\<close>

definition batchSizeOf :: "'a bulk_options_scheme \<Rightarrow> rat" where
  "batchSizeOf options = num_or (batchSize options) 1000"

definition sequentialBulk ::
  "(string \<Rightarrow> json option) \<Rightarrow> config \<Rightarrow> (nat \<Rightarrow> call_env) \<Rightarrow> int \<Rightarrow> int \<Rightarrow> cache \<Rightarrow>
   string \<Rightarrow> string \<Rightarrow> string \<Rightarrow> json list \<Rightarrow> 'a bulk_options_scheme \<Rightarrow> bulk_result \<times> cache" where
  "sequentialBulk decode cfg envs jobStart jobEnd qc operation field table items options =
     (let bsize = batchSizeOf options;
          batches = chunk items bsize;
          st = foldl (sequentialStep decode cfg envs operation field table options bsize (length batches))
                 \<lparr>bs_successful = 0, bs_failed = 0, bs_errors = [], bs_cache = qc\<rparr>
                 (zip [0 ..< length batches] batches)
      in (bulkResult jobStart jobEnd st, bs_cache st))"

definition insertMany ::
  "(string \<Rightarrow> json option) \<Rightarrow> config \<Rightarrow> (nat \<Rightarrow> call_env) \<Rightarrow> int \<Rightarrow> int \<Rightarrow> cache \<Rightarrow>
   string \<Rightarrow> json list \<Rightarrow> 'a bulk_options_scheme \<Rightarrow> bulk_result \<times> cache" where
  "insertMany decode cfg envs jobStart jobEnd qc table records options =
     sequentialBulk decode cfg envs jobStart jobEnd qc ''insert'' ''records'' table records options"

definition updateMany ::
  "(string \<Rightarrow> json option) \<Rightarrow> config \<Rightarrow> (nat \<Rightarrow> call_env) \<Rightarrow> int \<Rightarrow> int \<Rightarrow> cache \<Rightarrow>
   string \<Rightarrow> json list \<Rightarrow> 'a bulk_options_scheme \<Rightarrow> bulk_result \<times> cache" where
  "updateMany decode cfg envs jobStart jobEnd qc table records options =
     sequentialBulk decode cfg envs jobStart jobEnd qc ''update'' ''records'' table records options"

definition deleteMany ::
  "(string \<Rightarrow> json option) \<Rightarrow> config \<Rightarrow> (nat \<Rightarrow> call_env) \<Rightarrow> int \<Rightarrow> int \<Rightarrow> cache \<Rightarrow>
   string \<Rightarrow> json list \<Rightarrow> 'a bulk_options_scheme \<Rightarrow> bulk_result \<times> cache" where
  "deleteMany decode cfg envs jobStart jobEnd qc table hashValues options =
     sequentialBulk decode cfg envs jobStart jobEnd qc ''delete'' ''hash_values'' table hashValues options"

text \<open>
  The parallel variants. \<^verbatim>\<open>(options as any)?.concurrency || this.getConfig().poolSize || 10\<close>
  is never zero, and is negative or fractional when the first of its operands that is
  not zero is.
\<close>

definition concurrencyOf :: "config \<Rightarrow> 'a bulk_options_scheme \<Rightarrow> rat" where
  "concurrencyOf cfg options = num_or (concurrency options) (num_or (poolSize cfg) 10)"

text \<open>
  The callback of one group of a wave, run when its request has settled. The wave began
  with the loop variable at \<open>i\<close>, and its first group is the group number
  \<open>start\<close> of the job; the group number \<open>position\<close> of the job is the group
  \<^verbatim>\<open>batchIndex = position - start\<close> of the wave, and
  \<^verbatim>\<open>startIdx = (i + batchIndex) * batchSize\<close>. Neither \<^verbatim>\<open>insert\<close> nor
  \<^verbatim>\<open>upsert\<close> is a cacheable operation, so the request reads and writes nothing in the
  store, at its start or when it settles.
\<close>

definition parallelStep ::
  "config \<Rightarrow> (nat \<Rightarrow> call_env) \<Rightarrow> string \<Rightarrow> string \<Rightarrow> 'a bulk_options_scheme \<Rightarrow> rat \<Rightarrow> rat \<Rightarrow> nat \<Rightarrow>
   bulk_state \<Rightarrow> nat \<times> json list \<Rightarrow> bulk_state" where
  "parallelStep cfg envs operation table options bsize i start st pb =
     (case pb of (position, batch) \<Rightarrow>
        (case executeQuery cfg (envs position) (bs_cache st) operation
                (writeBody cfg table ''records'' batch (hashAttribute options)) options of
           (Inr r, qc) \<Rightarrow> st\<lparr>bs_successful := bs_successful st + length batch, bs_cache := qc\<rparr>
         | (Inl msg, qc) \<Rightarrow>
             recordFailure ((i + of_nat (position - start)) * bsize) batch msg (st\<lparr>bs_cache := qc\<rparr>)))"

text \<open>
  One wave: the groups \<^verbatim>\<open>batches.slice(i, i + concurrency)\<close> are sent together and
  \<^verbatim>\<open>Promise.all\<close> waits for all of them; their callbacks run one at a time, in the
  order in which the requests settle, which is the parameter \<open>settle\<close>.
\<close>

definition waveStep ::
  "config \<Rightarrow> (nat \<Rightarrow> call_env) \<Rightarrow> ((nat \<times> json list) list \<Rightarrow> (nat \<times> json list) list) \<Rightarrow>
   string \<Rightarrow> string \<Rightarrow> 'a bulk_options_scheme \<Rightarrow> rat \<Rightarrow> rat \<Rightarrow> json list list \<Rightarrow> rat \<Rightarrow>
   bulk_state \<Rightarrow> bulk_state" where
  "waveStep cfg envs settle operation table options bsize conc batches i st =
     (let start = relativeIndex (length batches) i;
          batchGroup = slice batches i (i + conc);
          indexed = zip [start ..< start + length batchGroup] batchGroup
      in foldl (parallelStep cfg envs operation table options bsize i start) st (settle indexed))"

text \<open>
  The loop over the waves, \<^verbatim>\<open>for (let i = 0; i < batches.length; i += concurrency)\<close>.
  With a negative step the loop variable stays below the length for ever: the loop does
  not end and the method does not return, which is the value \<open>None\<close>.
\<close>

partial_function (option) waves ::
  "config \<Rightarrow> (nat \<Rightarrow> call_env) \<Rightarrow> ((nat \<times> json list) list \<Rightarrow> (nat \<times> json list) list) \<Rightarrow>
   string \<Rightarrow> string \<Rightarrow> 'a bulk_options_scheme \<Rightarrow> rat \<Rightarrow> rat \<Rightarrow> json list list \<Rightarrow> rat \<Rightarrow>
   bulk_state \<Rightarrow> bulk_state option" where
  "waves cfg envs settle operation table options bsize conc batches i st =
     (if i < of_nat (length batches)
      then waves cfg envs settle operation table options bsize conc batches (i + conc)
             (waveStep cfg envs settle operation table options bsize conc batches i st)
      else Some st)"

definition insertManyParallel ::
  "config \<Rightarrow> (nat \<Rightarrow> call_env) \<Rightarrow> ((nat \<times> json list) list \<Rightarrow> (nat \<times> json list) list) \<Rightarrow>
   int \<Rightarrow> int \<Rightarrow> cache \<Rightarrow> string \<Rightarrow> json list \<Rightarrow> 'a bulk_options_scheme \<Rightarrow>
   (bulk_result \<times> cache) option" where
  "insertManyParallel cfg envs settle jobStart jobEnd qc table records options =
     (let bsize = batchSizeOf options;
          conc = concurrencyOf cfg options;
          batches = chunk records bsize
      in map_option (\<lambda>st. (bulkResult jobStart jobEnd st, bs_cache st))
           (waves cfg envs settle ''insert'' table options bsize conc batches 0
              \<lparr>bs_successful = 0, bs_failed = 0, bs_errors = [], bs_cache = qc\<rparr>))"

definition upsertMany ::
  "(string \<Rightarrow> json option) \<Rightarrow> config \<Rightarrow> (nat \<Rightarrow> call_env) \<Rightarrow>
   ((nat \<times> json list) list \<Rightarrow> (nat \<times> json list) list) \<Rightarrow>
   int \<Rightarrow> int \<Rightarrow> cache \<Rightarrow> string \<Rightarrow> json list \<Rightarrow> 'a bulk_options_scheme \<Rightarrow>
   (bulk_result \<times> cache) option" where
  "upsertMany decode cfg envs settle jobStart jobEnd qc table records options =
     (let bsize = batchSizeOf options;
          conc = concurrencyOf cfg options;
          batches = chunk records bsize
      in map_option (\<lambda>st. (bulkResult jobStart jobEnd st,
                            invalidateTableCache decode cfg (bs_cache st) table
                              (Some (writeSchema cfg (hashAttribute options)))))
           (waves cfg envs settle ''upsert'' table options bsize conc batches 0
              \<lparr>bs_successful = 0, bs_failed = 0, bs_errors = [], bs_cache = qc\<rparr>))"

text \<open>
  A number that is a natural number, and the natural number it is.
\<close>

definition naturalNumber :: "rat \<Rightarrow> bool" where
  "naturalNumber x = (0 \<le> x \<and> of_int \<lfloor>x\<rfloor> = x)"

definition groupSize :: "'a bulk_options_scheme \<Rightarrow> nat" where
  "groupSize options = nat \<lfloor>batchSizeOf options\<rfloor>"

text \<open>
  What the request of group \<open>i\<close> of a job settles to, seen from the job: \<open>None\<close>
  when \<^verbatim>\<open>executeQuery\<close> returns, the message of the error it throws otherwise.
\<close>

definition groupError :: "config \<Rightarrow> (nat \<Rightarrow> call_env) \<Rightarrow> nat \<Rightarrow> string option" where
  "groupError cfg envs i =
     (case snd (request cfg (transport (envs i)) 0) of
        Inl err \<Rightarrow> Some (''HarperDB query failed: '' @ errorMessage err)
      | Inr rdata \<Rightarrow> None)"

text \<open>
  The errors a job is expected to report for \<open>n\<close> input records split into groups of
  \<open>bsize\<close>: one for each record of a failed group, in input order, with the index of
  the record and the message of its group.
\<close>

definition expectedErrors :: "config \<Rightarrow> (nat \<Rightarrow> call_env) \<Rightarrow> nat \<Rightarrow> nat \<Rightarrow> (nat \<times> string) list" where
  "expectedErrors cfg envs bsize n =
     concat (map (\<lambda>j. case groupError cfg envs (j div bsize) of None \<Rightarrow> [] | Some m \<Rightarrow> [(j, m)])
                 [0 ..< n])"

text \<open>The same errors with their indices as numbers.\<close>

definition numbered :: "(nat \<times> string) list \<Rightarrow> (rat \<times> string) list" where
  "numbered es = map (\<lambda>(j, m). (of_nat j, m)) es"

text \<open>The errors list of a result, empty when the field is \<^verbatim>\<open>undefined\<close>.\<close>

definition errorList :: "bulk_result \<Rightarrow> (rat \<times> string) list" where
  "errorList r = (case errors r of None \<Rightarrow> [] | Some es \<Rightarrow> es)"

text \<open>
  The contributions of a list of indexed groups to the three counters: the records of
  the groups that succeed, the records of the groups that fail, and the errors pushed for
  the groups that fail.
\<close>

definition succOf :: "config \<Rightarrow> (nat \<Rightarrow> call_env) \<Rightarrow> (nat \<times> json list) list \<Rightarrow> nat" where
  "succOf cfg envs ibs =
     sum_list (map (\<lambda>(i, b). if groupError cfg envs i = None then length b else 0) ibs)"

definition failOf :: "config \<Rightarrow> (nat \<Rightarrow> call_env) \<Rightarrow> (nat \<times> json list) list \<Rightarrow> nat" where
  "failOf cfg envs ibs =
     sum_list (map (\<lambda>(i, b). if groupError cfg envs i = None then 0 else length b) ibs)"

definition errsOf ::
  "config \<Rightarrow> (nat \<Rightarrow> call_env) \<Rightarrow> nat \<Rightarrow> (nat \<times> json list) list \<Rightarrow> (nat \<times> string) list" where
  "errsOf cfg envs bsize ibs =
     concat (map (\<lambda>(i, b). case groupError cfg envs i of
                              None \<Rightarrow> []
                            | Some m \<Rightarrow> map (\<lambda>idx. (i * bsize + idx, m)) [0 ..< length b]) ibs)"

text \<open>
  The input indices of the records whose group succeeds, and of those whose group
  fails, for \<open>n\<close> records in groups of \<open>bsize\<close>: record \<open>j\<close> is in group
  \<open>j div bsize\<close>.
\<close>

definition okIndices :: "config \<Rightarrow> (nat \<Rightarrow> call_env) \<Rightarrow> nat \<Rightarrow> nat \<Rightarrow> nat list" where
  "okIndices cfg envs bsize n = filter (\<lambda>j. groupError cfg envs (j div bsize) = None) [0 ..< n]"

definition failedIndices :: "config \<Rightarrow> (nat \<Rightarrow> call_env) \<Rightarrow> nat \<Rightarrow> nat \<Rightarrow> nat list" where
  "failedIndices cfg envs bsize n = filter (\<lambda>j. groupError cfg envs (j div bsize) \<noteq> None) [0 ..< n]"

section \<open>Select and parallel operations\<close>

text \<open>
  \<^verbatim>\<open>SelectOptions\<close> and \<^verbatim>\<open>QueryResult\<close>. \<^verbatim>\<open>recordsAffected\<close> is \<open>None\<close> where the
  code leaves it \<^verbatim>\<open>undefined\<close>.
\<close>

record select_options = query_options +
  sel_limit :: "nat option"
  sel_offset :: "nat option"
  sel_where :: "(string \<times> json) list option"
  sel_orderBy :: "string option"
  sel_orderDirection :: "string option"
  sel_sql :: "string option"

record query_result =
  qr_data :: json
  qr_executionTime :: int
  qr_recordsAffected :: "nat option"

text \<open>\<^verbatim>\<open>(response.data as any) || []\<close>.\<close>

definition dataOrEmpty :: "json \<Rightarrow> json" where
  "dataOrEmpty d = (if truthy d then d else JArr [])"

text \<open>\<^verbatim>\<open>Array.isArray(response.data) ? response.data.length : 0\<close>.\<close>

definition arrayLength :: "json \<Rightarrow> nat" where
  "arrayLength d = (case d of JArr xs \<Rightarrow> length xs | _ \<Rightarrow> 0)"

text \<open>
  \<^verbatim>\<open>sql(sqlQuery, options)\<close>, which is also the first branch of \<^verbatim>\<open>select\<close>: the
  error of the executor propagates.
\<close>

definition sql ::
  "config \<Rightarrow> call_env \<Rightarrow> cache \<Rightarrow> string \<Rightarrow> 'a query_options_scheme \<Rightarrow>
   (string + query_result) \<times> cache" where
  "sql cfg env qc sqlQuery options =
     (case executeQuery cfg env qc ''sql'' (JObj [(''sql'', JStr sqlQuery)]) options of
        (Inl msg, qc') \<Rightarrow> (Inl msg, qc')
      | (Inr r, qc') \<Rightarrow>
          (Inr \<lparr>qr_data = dataOrEmpty (data r),
                 qr_executionTime = settledAt env - startedAt env,
                 qr_recordsAffected = Some (arrayLength (data r))\<rparr>, qc'))"

text \<open>
  The statement built by the last branch of \<^verbatim>\<open>select\<close>:
  \<^verbatim>\<open>SELECT * FROM schema.table\<close>, then \<^verbatim>\<open>LIMIT\<close>, \<^verbatim>\<open>OFFSET\<close> and
  \<^verbatim>\<open>ORDER BY\<close>, each when its option is truthy.
\<close>

definition selectStatement :: "config \<Rightarrow> string \<Rightarrow> 'a select_options_scheme \<Rightarrow> string" where
  "selectStatement cfg table options =
     ''SELECT * FROM '' @ getSchema cfg @ ''.'' @ table @
     (if nat_or (sel_limit options) 0 \<noteq> 0 then '' LIMIT '' @ showNat (nat_or (sel_limit options) 0) else []) @
     (if nat_or (sel_offset options) 0 \<noteq> 0 then '' OFFSET '' @ showNat (nat_or (sel_offset options) 0) else []) @
     (if str_or (sel_orderBy options) [] \<noteq> []
      then '' ORDER BY '' @ str_or (sel_orderBy options) [] @ '' '' @
           (if sel_orderDirection options = Some ''desc'' then ''DESC'' else ''ASC'')
      else [])"

text \<open>
  The body of the \<^verbatim>\<open>search_by_value\<close> request of the second branch; a condition
  without keys leaves \<^verbatim>\<open>search_attribute\<close> and \<^verbatim>\<open>search_value\<close> undefined.
\<close>

definition searchBody :: "config \<Rightarrow> string \<Rightarrow> (string \<times> json) list \<Rightarrow> 'a select_options_scheme \<Rightarrow> json" where
  "searchBody cfg table cond options =
     JObj ([(''schema'', JStr (getSchema cfg)), (''table'', JStr table)] @
           (case cond of [] \<Rightarrow> [] | (k, v) # rest \<Rightarrow> [(''search_attribute'', JStr k), (''search_value'', v)]) @
           [(''get_attributes'', JArr [JStr ''*''])] @
           (if nat_or (sel_limit options) 0 \<noteq> 0 then [(''limit'', JNum (int (nat_or (sel_limit options) 0)))] else []))"

text \<open>
  \<^verbatim>\<open>select(table, options)\<close>. The sort of the second branch is the platform's
  \<^verbatim>\<open>Array.prototype.sort\<close> under the comparator built from \<^verbatim>\<open>orderBy\<close> and
  \<^verbatim>\<open>orderDirection\<close>, the parameter \<open>sortBy\<close>; on data that is not an array the
  call of \<^verbatim>\<open>sort\<close> throws. The third branch catches the error of the executor.
\<close>

definition select ::
  "(string \<Rightarrow> string option \<Rightarrow> json list \<Rightarrow> json list) \<Rightarrow> config \<Rightarrow> call_env \<Rightarrow> cache \<Rightarrow>
   string \<Rightarrow> 'a select_options_scheme \<Rightarrow> (string + query_result) \<times> cache" where
  "select sortBy cfg env qc table options =
     (if str_or (sel_sql options) [] \<noteq> [] then sql cfg env qc (str_or (sel_sql options) []) options
      else case sel_where options of
        Some cond \<Rightarrow>
          (case executeQuery cfg env qc ''search_by_value'' (searchBody cfg table cond options) options of
             (Inl msg, qc') \<Rightarrow> (Inl msg, qc')
           | (Inr r, qc') \<Rightarrow>
               (if str_or (sel_orderBy options) [] \<noteq> []
                then (case dataOrEmpty (data r) of
                        JArr xs \<Rightarrow>
                          (Inr \<lparr>qr_data = JArr (sortBy (str_or (sel_orderBy options) [])
                                                     (sel_orderDirection options) xs),
                                 qr_executionTime = settledAt env - startedAt env,
                                 qr_recordsAffected = Some (length xs)\<rparr>, qc')
                      | _ \<Rightarrow> (Inl ''data.sort is not a function'', qc'))
                else (Inr \<lparr>qr_data = dataOrEmpty (data r),
                            qr_executionTime = settledAt env - startedAt env,
                            qr_recordsAffected =
                              (case dataOrEmpty (data r) of
                                 JArr xs \<Rightarrow> Some (length xs)
                               | JStr s \<Rightarrow> Some (length s)
                               | _ \<Rightarrow> None)\<rparr>, qc')))
      | None \<Rightarrow>
          (case executeQuery cfg env qc ''sql'' (JObj [(''sql'', JStr (selectStatement cfg table options))]) options of
             (Inr r, qc') \<Rightarrow>
               (Inr \<lparr>qr_data = dataOrEmpty (data r),
                      qr_executionTime = settledAt env - startedAt env,
                      qr_recordsAffected = Some (arrayLength (data r))\<rparr>, qc')
           | (Inl msg, qc') \<Rightarrow>
               (Inr \<lparr>qr_data = JArr [],
                      qr_executionTime = settledAt env - startedAt env,
                      qr_recordsAffected = Some 0\<rparr>, qc')))"

subsection \<open>Writes of one record\<close>

text \<open>
  \<^verbatim>\<open>insert\<close>, \<^verbatim>\<open>update\<close> and \<^verbatim>\<open>upsert\<close> differ in the operation only: the request
  with the one record, whose error propagates, then the invalidation of the entries of
  the table and a result with one record affected. \<open>ha\<close> is
  \<^verbatim>\<open>options?.hashAttribute\<close>, and \<open>options\<close> the same object as the executor reads it.
\<close>

definition writeOne ::
  "(string \<Rightarrow> json option) \<Rightarrow> config \<Rightarrow> call_env \<Rightarrow> cache \<Rightarrow> string \<Rightarrow> string \<Rightarrow> json \<Rightarrow>
   string option \<Rightarrow> 'a query_options_scheme \<Rightarrow> (string + query_result) \<times> cache" where
  "writeOne decode cfg env qc operation table item ha options =
     (case executeQuery cfg env qc operation (writeBody cfg table ''records'' [item] ha) options of
        (Inl msg, qc') \<Rightarrow> (Inl msg, qc')
      | (Inr r, qc') \<Rightarrow>
          (Inr \<lparr>qr_data = data r,
                 qr_executionTime = settledAt env - startedAt env,
                 qr_recordsAffected = Some 1\<rparr>,
           invalidateTableCache decode cfg qc' table (Some (writeSchema cfg ha))))"

definition insertOne ::
  "(string \<Rightarrow> json option) \<Rightarrow> config \<Rightarrow> call_env \<Rightarrow> cache \<Rightarrow> string \<Rightarrow> json \<Rightarrow>
   string option \<Rightarrow> 'a query_options_scheme \<Rightarrow> (string + query_result) \<times> cache" where
  "insertOne decode cfg env qc table item ha options =
     writeOne decode cfg env qc ''insert'' table item ha options"

definition updateOne ::
  "(string \<Rightarrow> json option) \<Rightarrow> config \<Rightarrow> call_env \<Rightarrow> cache \<Rightarrow> string \<Rightarrow> json \<Rightarrow>
   string option \<Rightarrow> 'a query_options_scheme \<Rightarrow> (string + query_result) \<times> cache" where
  "updateOne decode cfg env qc table item ha options =
     writeOne decode cfg env qc ''update'' table item ha options"

definition upsertOne ::
  "(string \<Rightarrow> json option) \<Rightarrow> config \<Rightarrow> call_env \<Rightarrow> cache \<Rightarrow> string \<Rightarrow> json \<Rightarrow>
   string option \<Rightarrow> 'a query_options_scheme \<Rightarrow> (string + query_result) \<times> cache" where
  "upsertOne decode cfg env qc table item ha options =
     writeOne decode cfg env qc ''upsert'' table item ha options"

text \<open>
  \<^verbatim>\<open>delete(table, hashValue, options)\<close>: the request carries \<^verbatim>\<open>hash_values\<close>, and the
  data of the result is \<^verbatim>\<open>response.data || { deleted_hashes: [hashValue] }\<close>.
\<close>

definition deleteOne ::
  "(string \<Rightarrow> json option) \<Rightarrow> config \<Rightarrow> call_env \<Rightarrow> cache \<Rightarrow> string \<Rightarrow> json \<Rightarrow>
   string option \<Rightarrow> 'a query_options_scheme \<Rightarrow> (string + query_result) \<times> cache" where
  "deleteOne decode cfg env qc table hashValue ha options =
     (case executeQuery cfg env qc ''delete'' (writeBody cfg table ''hash_values'' [hashValue] ha) options of
        (Inl msg, qc') \<Rightarrow> (Inl msg, qc')
      | (Inr r, qc') \<Rightarrow>
          (Inr \<lparr>qr_data = (if truthy (data r) then data r
                            else JObj [(''deleted_hashes'', JArr [hashValue])]),
                 qr_executionTime = settledAt env - startedAt env,
                 qr_recordsAffected = Some 1\<rparr>,
           invalidateTableCache decode cfg qc' table (Some (writeSchema cfg ha))))"

subsection \<open>\<^verbatim>\<open>parallel\<close>\<close>

text \<open>
  \<^verbatim>\<open>ParallelQueryOptions\<close>, an operation descriptor, and \<^verbatim>\<open>ParallelQueryResult\<close>
  (each entry of \<^verbatim>\<open>results\<close> has the execution time 0). The options of a descriptor
  are one object, handed to whichever method its type selects: \<^verbatim>\<open>select\<close> reads the
  fields of \<^verbatim>\<open>SelectOptions\<close> in it, the writes read \<^verbatim>\<open>hashAttribute\<close>, and all
  of them pass it on to the executor.
\<close>

record parallel_options =
  par_concurrency :: "rat option"
  failFast :: "bool option"

record desc_options = select_options +
  do_hashAttribute :: "string option"

record query_desc =
  q_type :: string
  q_table :: string
  q_data :: json
  q_sql :: string
  q_options :: desc_options

record parallel_result =
  pr_results :: "json list"
  pr_executionTime :: int
  pr_successful :: nat
  pr_failed :: nat

text \<open>
  The \<^verbatim>\<open>switch\<close> over the type of a descriptor: the call of the method of the client
  that the type selects, on the store as the call finds it; a descriptor of any other
  type is rejected on the spot.
\<close>

definition queryTypes :: "string list" where
  "queryTypes = [''select'', ''insert'', ''update'', ''upsert'', ''delete'', ''sql'']"

definition dispatch ::
  "(string \<Rightarrow> string option \<Rightarrow> json list \<Rightarrow> json list) \<Rightarrow> (string \<Rightarrow> json option) \<Rightarrow> config \<Rightarrow>
   call_env \<Rightarrow> cache \<Rightarrow> query_desc \<Rightarrow> (string + query_result) \<times> cache" where
  "dispatch sortBy decode cfg env qc q =
     (if q_type q = ''select'' then select sortBy cfg env qc (q_table q) (q_options q)
      else if q_type q = ''insert''
        then insertOne decode cfg env qc (q_table q) (q_data q) (do_hashAttribute (q_options q)) (q_options q)
      else if q_type q = ''update''
        then updateOne decode cfg env qc (q_table q) (q_data q) (do_hashAttribute (q_options q)) (q_options q)
      else if q_type q = ''upsert''
        then upsertOne decode cfg env qc (q_table q) (q_data q) (do_hashAttribute (q_options q)) (q_options q)
      else if q_type q = ''delete''
        then deleteOne decode cfg env qc (q_table q) (q_data q) (do_hashAttribute (q_options q)) (q_options q)
      else if q_type q = ''sql'' then sql cfg env qc (q_sql q) (q_options q)
      else (Inl (''Unknown query type: '' @ q_type q), qc))"

text \<open>
  The calls are made one after the other by \<^verbatim>\<open>queries.map\<close>, and each runs up to
  its first \<^verbatim>\<open>await\<close>, the request of the executor, before the next is made: the
  lookup in the store is in this synchronous part, and what a call does to the store
  once its request has settled comes after all the lookups. \<open>selectRequest\<close> is
  the operation and the body that \<^verbatim>\<open>select\<close> hands to the executor, \<open>descRequest\<close>
  those of the method of a descriptor (for \<^verbatim>\<open>insert\<close>, \<^verbatim>\<open>update\<close> and
  \<^verbatim>\<open>upsert\<close> the operation is the type), and \<open>lookupStore\<close> the store after the
  synchronous part of the executor (a lookup deletes an entry that has expired).
\<close>

definition selectRequest :: "config \<Rightarrow> string \<Rightarrow> 'a select_options_scheme \<Rightarrow> string \<times> json" where
  "selectRequest cfg table options =
     (if str_or (sel_sql options) [] \<noteq> []
      then (''sql'', JObj [(''sql'', JStr (str_or (sel_sql options) []))])
      else case sel_where options of
             Some cond \<Rightarrow> (''search_by_value'', searchBody cfg table cond options)
           | None \<Rightarrow> (''sql'', JObj [(''sql'', JStr (selectStatement cfg table options))]))"

definition descRequest :: "config \<Rightarrow> query_desc \<Rightarrow> string \<times> json" where
  "descRequest cfg q =
     (if q_type q = ''select'' then selectRequest cfg (q_table q) (q_options q)
      else if q_type q = ''delete''
        then (''delete'', writeBody cfg (q_table q) ''hash_values'' [q_data q] (do_hashAttribute (q_options q)))
      else if q_type q = ''sql'' then (''sql'', JObj [(''sql'', JStr (q_sql q))])
      else (q_type q, writeBody cfg (q_table q) ''records'' [q_data q] (do_hashAttribute (q_options q))))"

definition lookupStore ::
  "config \<Rightarrow> call_env \<Rightarrow> cache \<Rightarrow> string \<Rightarrow> json \<Rightarrow> 'a query_options_scheme \<Rightarrow> cache" where
  "lookupStore cfg env qc operation body options =
     (let cacheKey = (if useCacheOf cfg options then generateCacheKey operation body else [])
      in if cacheKey \<noteq> [] then snd (getCached cfg (startedAt env) qc cacheKey) else qc)"

definition started :: "config \<Rightarrow> call_env \<Rightarrow> cache \<Rightarrow> query_desc \<Rightarrow> cache" where
  "started cfg env qc q =
     (if q_type q \<in> set queryTypes
      then lookupStore cfg env qc (fst (descRequest cfg q)) (snd (descRequest cfg q)) (q_options q)
      else qc)"

text \<open>
  What the calls made for the descriptors settle to, an error message or a
  \<^verbatim>\<open>QueryResult\<close> each: the call of the descriptor at position \<open>i\<close> meets the
  environment \<open>envs i\<close> and the store that the lookups of the calls before it have
  left.
\<close>

fun outcomes ::
  "(string \<Rightarrow> string option \<Rightarrow> json list \<Rightarrow> json list) \<Rightarrow> (string \<Rightarrow> json option) \<Rightarrow> config \<Rightarrow>
   (nat \<Rightarrow> call_env) \<Rightarrow> nat \<Rightarrow> cache \<Rightarrow> query_desc list \<Rightarrow> (string + query_result) list" where
  "outcomes sortBy decode cfg envs i qc [] = []"
| "outcomes sortBy decode cfg envs i qc (q # qs) =
     fst (dispatch sortBy decode cfg (envs i) qc q) #
     outcomes sortBy decode cfg envs (Suc i) (started cfg (envs i) qc q) qs"

text \<open>A \<^verbatim>\<open>QueryResult\<close> and the placeholder \<^verbatim>\<open>{ data: null, error }\<close> as values.\<close>

definition resultValue :: "query_result \<Rightarrow> json" where
  "resultValue r =
     JObj [(''data'', qr_data r),
           (''metadata'', JObj ([(''executionTime'', JNum (qr_executionTime r))] @
              (case qr_recordsAffected r of None \<Rightarrow> [] | Some n \<Rightarrow> [(''recordsAffected'', JNum (int n))])))]"

definition placeholder :: "string \<Rightarrow> json" where
  "placeholder msg = JObj [(''data'', JNull), (''error'', JStr msg)]"

text \<open>
  What \<^verbatim>\<open>promise.catch\<close> turns the call of a descriptor into when \<^verbatim>\<open>failFast\<close> is
  off: every promise resolves.
\<close>

definition captured :: "string + query_result \<Rightarrow> json" where
  "captured out = (case out of Inl msg \<Rightarrow> placeholder msg | Inr r \<Rightarrow> resultValue r)"

text \<open>\<^verbatim>\<open>r.data ?? r\<close>: the data of a resolved value, or the value itself.\<close>

definition entryData :: "json \<Rightarrow> json" where
  "entryData r = (case getProp r ''data'' of None \<Rightarrow> r | Some JNull \<Rightarrow> r | Some d \<Rightarrow> d)"

definition resultEntry :: "json \<Rightarrow> json" where
  "resultEntry r = JObj [(''data'', entryData r), (''metadata'', JObj [(''executionTime'', JNum 0)])]"

text \<open>
  \<^verbatim>\<open>parallel(queries, options)\<close>, as far as its result goes (the store after the job,
  which the settlements change in the order in which they occur, is not followed). With
  \<^verbatim>\<open>failFast\<close> the rejections are rethrown and \<^verbatim>\<open>Promise.all\<close> rejects with the
  first of them to occur; \<open>settleOrder\<close> lists the positions of the descriptors in the
  order in which their calls settle. Otherwise \<^verbatim>\<open>Promise.all\<close> resolves with the
  captured values in the order of the input, and the values without an \<^verbatim>\<open>error\<close>
  property are counted as successful. The \<^verbatim>\<open>concurrency\<close> that the method computes
  is not used by it.
\<close>

definition parallel ::
  "(string \<Rightarrow> string option \<Rightarrow> json list \<Rightarrow> json list) \<Rightarrow> (string \<Rightarrow> json option) \<Rightarrow> config \<Rightarrow>
   (nat \<Rightarrow> call_env) \<Rightarrow> nat list \<Rightarrow> int \<Rightarrow> int \<Rightarrow> cache \<Rightarrow> query_desc list \<Rightarrow> parallel_options \<Rightarrow>
   string + parallel_result" where
  "parallel sortBy decode cfg envs settleOrder jobStart jobEnd qc queries options =
     (let outs = outcomes sortBy decode cfg envs 0 qc queries;
          rejected = filter (\<lambda>i. i < length outs \<and> isl (outs ! i)) settleOrder
      in if failFast options = Some True \<and> rejected \<noteq> []
         then Inl (projl (outs ! hd rejected))
         else (let results = map captured outs;
                   successful = length (filter (\<lambda>r. getProp r ''error'' = None) results)
               in Inr \<lparr>pr_results = map resultEntry results,
                       pr_executionTime = jobEnd - jobStart,
                       pr_successful = successful,
                       pr_failed = length results - successful\<rparr>))"

section \<open>Auxiliary notions for the cache key\<close>

subsection \<open>Reading a printed value back\<close>






subsection \<open>Requests that differ in the order of their keys\<close>









section \<open>Concrete values used by the examples\<close>

definition ex_config :: config where
  "ex_config = \<lparr>schema = Some ''dev'', timeout = Some 30000, maxRetries = Some 3,
     retryDelay = Some 1000, poolSize = Some 10, apiPath = Some [], enableCache = True,
     cacheTTL = Some 5000, maxCacheSize = Some 2\<rparr>"

definition ex_response :: response where
  "ex_response = \<lparr>message = JStr ''Success'', data = JArr [], executionTime = 7, cached = None\<rparr>"

definition ex_entry :: cache_entry where
  "ex_entry = \<lparr>ce_data = ex_response, ce_timestamp = 0, ce_ttl = 5000\<rparr>"

text \<open>
  A key decoder for the examples: four keys that decode to a request on a table, one
  that decodes to \<^verbatim>\<open>null\<close>, and every other key undecodable.
\<close>

definition ex_decode :: "string \<Rightarrow> json option" where
  "ex_decode key =
     (if key = ''k-orders-dev'' then
        Some (JObj [(''operation'', JStr ''sql''),
                    (''body'', JObj [(''schema'', JStr ''dev''), (''table'', JStr ''orders'')])])
      else if key = ''k-orders-none'' then
        Some (JObj [(''operation'', JStr ''sql''), (''body'', JObj [(''table'', JStr ''orders'')])])
      else if key = ''k-orders-prod'' then
        Some (JObj [(''operation'', JStr ''sql''),
                    (''body'', JObj [(''schema'', JStr ''prod''), (''table'', JStr ''orders'')])])
      else if key = ''k-users-dev'' then
        Some (JObj [(''operation'', JStr ''sql''),
                    (''body'', JObj [(''schema'', JStr ''dev''), (''table'', JStr ''users'')])])
      else if key = ''k-null'' then Some JNull
      else None)"

definition ex_cache :: cache where
  "ex_cache = [(''k-orders-dev'', ex_entry), (''k-users-dev'', ex_entry), (''k-malformed'', ex_entry),
               (''k-orders-none'', ex_entry), (''k-null'', ex_entry), (''k-orders-prod'', ex_entry)]"

text \<open>Transport errors: a 503, a 400 and a timeout.\<close>

definition ex_err503 :: transport_error where
  "ex_err503 = \<lparr>err_status = Some 503, err_code = Some ''ERR_BAD_RESPONSE'', err_data_error = None,
     err_data_message = None, err_message = Some ''Request failed with status code 503''\<rparr>"

definition ex_err400 :: transport_error where
  "ex_err400 = \<lparr>err_status = Some 400, err_code = Some ''ERR_BAD_REQUEST'',
     err_data_error = Some ''Table does not exist'', err_data_message = None,
     err_message = Some ''Request failed with status code 400''\<rparr>"

definition ex_timeout :: transport_error where
  "ex_timeout = \<lparr>err_status = None, err_code = Some ''ECONNABORTED'', err_data_error = None,
     err_data_message = None, err_message = Some ''timeout of 30000ms exceeded''\<rparr>"

text \<open>A 600, and a configuration with a single retry.\<close>

definition ex_err600 :: transport_error where
  "ex_err600 = \<lparr>err_status = Some 600, err_code = Some ''ERR_BAD_RESPONSE'', err_data_error = None,
     err_data_message = None, err_message = Some ''Request failed with status code 600''\<rparr>"

definition ex_retry_once :: config where
  "ex_retry_once = ex_config\<lparr>maxRetries := Some 1\<rparr>"

text \<open>
  A bulk job whose second group always fails with a 503 while every other group
  succeeds; groups of 1000, waves of two groups.
\<close>

definition ex_envs :: "nat \<Rightarrow> call_env" where
  "ex_envs i = \<lparr>startedAt = 10 * int i, settledAt = 10 * int i + 5,
                 transport = (\<lambda>k. if i = 1 then Inl ex_err503 else Inr (JObj [(''message'', JStr ''ok'')]))\<rparr>"

definition ex_bulk_options :: bulk_options where
  "ex_bulk_options = \<lparr>opt_timeout = None, opt_useCache = None, opt_cacheTTL = None,
     hashAttribute = None, batchSize = Some 1000, concurrency = Some 2\<rparr>"

text \<open>Bulk options with groups of one record.\<close>

definition ex_bulk_options1 :: bulk_options where
  "ex_bulk_options1 = \<lparr>opt_timeout = None, opt_useCache = None, opt_cacheTTL = None,
     hashAttribute = None, batchSize = Some 1, concurrency = Some 2\<rparr>"

text \<open>
  A call whose transport always answers 503, a call answered with two rows, and select
  options that supply nothing.
\<close>

definition ex_env_fail :: call_env where
  "ex_env_fail = \<lparr>startedAt = 100, settledAt = 7100, transport = (\<lambda>k. Inl ex_err503)\<rparr>"

definition ex_env_ok :: call_env where
  "ex_env_ok = \<lparr>startedAt = 100, settledAt = 130,
     transport = (\<lambda>k. Inr (JArr [JObj [(''id'', JNum 1)], JObj [(''id'', JNum 2)]]))\<rparr>"

definition ex_select_options :: select_options where
  "ex_select_options = \<lparr>opt_timeout = None, opt_useCache = None, opt_cacheTTL = None,
     sel_limit = Some 10, sel_offset = None, sel_where = None, sel_orderBy = None,
     sel_orderDirection = None, sel_sql = None\<rparr>"

definition ex_query_options :: query_options where
  "ex_query_options = \<lparr>opt_timeout = None, opt_useCache = None, opt_cacheTTL = None\<rparr>"

text \<open>
  Three descriptors without options, and the environments of their calls: the request
  of the second is answered with a 400, those of the others with no rows. A descriptor of
  a plain select, and one of a type that does not exist.
\<close>

definition ex_desc_options :: desc_options where
  "ex_desc_options = \<lparr>opt_timeout = None, opt_useCache = None, opt_cacheTTL = None,
     sel_limit = None, sel_offset = None, sel_where = None, sel_orderBy = None,
     sel_orderDirection = None, sel_sql = None, do_hashAttribute = None\<rparr>"

definition ex_select_desc :: query_desc where
  "ex_select_desc = \<lparr>q_type = ''select'', q_table = ''users'', q_data = JNull, q_sql = [],
     q_options = ex_desc_options\<rparr>"

definition ex_queries :: "query_desc list" where
  "ex_queries =
     [ex_select_desc,
      \<lparr>q_type = ''insert'', q_table = ''logs'', q_data = JObj [(''message'', JStr ''m'')], q_sql = [],
       q_options = ex_desc_options\<rparr>,
      \<lparr>q_type = ''sql'', q_table = [], q_data = JNull, q_sql = ''SELECT 1'',
       q_options = ex_desc_options\<rparr>]"

definition ex_call_envs :: "nat \<Rightarrow> call_env" where
  "ex_call_envs i = \<lparr>startedAt = 0, settledAt = 3,
     transport = (\<lambda>k. if i = 1 then Inl ex_err400 else Inr (JArr []))\<rparr>"

definition ex_config_nocache :: config where
  "ex_config_nocache = ex_config\<lparr>enableCache := False\<rparr>"

text \<open>A cacheable request, the options that ask for the cache and those that refuse it.\<close>

definition ex_body :: json where
  "ex_body = JObj [(''sql'', JStr ''SELECT 1'')]"

definition ex_use_cache :: query_options where
  "ex_use_cache = \<lparr>opt_timeout = None, opt_useCache = Some True, opt_cacheTTL = None\<rparr>"

definition ex_no_cache :: query_options where
  "ex_no_cache = \<lparr>opt_timeout = None, opt_useCache = Some False, opt_cacheTTL = None\<rparr>"







section \<open>Properties of the cache store\<close>

subsection \<open>Auxiliary facts about the store\<close>

lemma delete_filter_fst: "AList.delete k qc = filter (\<lambda>p. fst p \<noteq> k) qc"
  by (induction qc) auto

lemma map_of_delete_self: "map_of (AList.delete k qc) k = None"
  by (simp add: AList.delete_conv')

lemma length_update_le: "length (AList.update k v al) \<le> Suc (length al)"
  by (induction al) auto

lemma wf_delete: "wf_cache qc \<Longrightarrow> wf_cache (AList.delete k qc)"
  by (auto simp: wf_cache_def delete_filter_fst distinct_map_filter)

lemma wf_update: "wf_cache qc \<Longrightarrow> k \<noteq> [] \<Longrightarrow> wf_cache (AList.update k v qc)"
  by (auto simp: wf_cache_def AList.distinct_update AList.update_keys)

lemma wf_evict: "wf_cache qc \<Longrightarrow> wf_cache (evictIfFull cfg qc)"
  by (auto simp: evictIfFull_def wf_delete split: option.splits)

lemma wf_setCache: "wf_cache qc \<Longrightarrow> wf_cache (setCache cfg now qc k d ttl)"
  by (simp add: setCache_def wf_evict wf_update)

subsection \<open>Expiry\<close>

text \<open>
  Claim C3, as the code has it. With caching enabled and a non-empty key,
  \<^verbatim>\<open>setCache\<close> at time \<open>T\<close> leaves the key bound to an entry with timestamp \<open>T\<close>
  and the effective time to live. A lookup of a key bound to an entry with timestamp
  \<open>T\<close> and time to live \<open>\<Delta>\<close> returns the entry's data and leaves the store
  alone at every time up to and including \<open>T + \<Delta>\<close>; at every later time it
  returns nothing and deletes the entry. A lookup also returns nothing, and leaves the
  store alone, when the key is unbound, when the key is empty and when caching is
  disabled.
\<close>

theorem getCached_ttl:
  "enableCache cfg \<Longrightarrow> cacheKey \<noteq> [] \<Longrightarrow>
     map_of (setCache cfg T qc0 cacheKey d ttl) cacheKey =
       Some \<lparr>ce_data = d, ce_timestamp = T, ce_ttl = effectiveTTL cfg ttl\<rparr> \<and>
     (map_of qc cacheKey = Some entry \<longrightarrow>
        getCached cfg now qc cacheKey =
          (if now \<le> ce_timestamp entry + ce_ttl entry
           then (Some (ce_data entry), qc)
           else (None, AList.delete cacheKey qc)) \<and>
        map_of (AList.delete cacheKey qc) cacheKey = None) \<and>
     (map_of qc cacheKey = None \<longrightarrow> getCached cfg now qc cacheKey = (None, qc)) \<and>
     getCached cfg now qc [] = (None, qc) \<and>
     getCached (cfg\<lparr>enableCache := False\<rparr>) now qc cacheKey = (None, qc)"
  by (auto simp: getCached_def setCache_def AList.update_conv' map_of_delete_self)

text \<open>
  An entry stored at time 100 with a time to live of 5 is returned at 104 and at 105,
  and is absent (and gone from the store) at 106.
\<close>

theorem getCached_ttl_witness:
  "fst (getCached ex_config 104 (setCache ex_config 100 [] ''k'' ex_response (Some 5)) ''k'')
     = Some ex_response \<and>
   fst (getCached ex_config 105 (setCache ex_config 100 [] ''k'' ex_response (Some 5)) ''k'')
     = Some ex_response \<and>
   getCached ex_config 106 (setCache ex_config 100 [] ''k'' ex_response (Some 5)) ''k''
     = (None, [])"
proof -
  let ?qc = "setCache ex_config 100 [] ''k'' ex_response (Some 5)"
  let ?e = "\<lparr>ce_data = ex_response, ce_timestamp = 100, ce_ttl = effectiveTTL ex_config (Some 5)\<rparr>"
  have en: "enableCache ex_config" by (simp add: ex_config_def)
  have ne: "''k'' \<noteq> []" by simp
  have st: "map_of ?qc ''k'' = Some ?e"
    using getCached_ttl [OF en ne, of 100 "[]" ex_response "Some 5"] by blast
  have ttl: "effectiveTTL ex_config (Some 5) = 5" by (simp add: effectiveTTL_def)
  have del: "AList.delete ''k'' ?qc = []"
    by (simp add: setCache_def ex_config_def evictIfFull_def firstKey_def)
  have g: "getCached ex_config now ?qc ''k'' =
          (if now \<le> 100 + 5 then (Some ex_response, ?qc) else (None, []))" for now
    using getCached_ttl [OF en ne, of 100 "[]" ex_response "Some 5" ?qc ?e now] st ttl del
    by simp
  show ?thesis by (simp add: g)
qed

text \<open>
  The claim as written puts the boundary at \<open>T + \<Delta>\<close> itself: a lookup at exactly
  \<open>T + \<Delta>\<close> should find nothing. The test in \<^verbatim>\<open>getCached\<close> is
  \<^verbatim>\<open>now - entry.timestamp > entry.ttl\<close>, so the entry stored at 100 with a time to
  live of 5 is still returned at 105.
\<close>

theorem getCached_boundary_counterexample:
  "fst (getCached ex_config (100 + 5) (setCache ex_config 100 [] ''k'' ex_response (Some 5)) ''k'')
     = Some ex_response"
  by (simp add: getCached_def setCache_def ex_config_def evictIfFull_def firstKey_def
      effectiveTTL_def)

subsection \<open>Capacity\<close>

lemma evict_full:
  "wf_cache ((k0, e0) # rest) \<Longrightarrow> capacity cfg \<le> Suc (length rest) \<Longrightarrow>
   evictIfFull cfg ((k0, e0) # rest) = rest"
  by (force simp: evictIfFull_def firstKey_def wf_cache_def capacity_def delete_filter_fst
      intro!: filter_True)

lemma evict_bound:
  assumes "wf_cache qc" "1 \<le> capacity cfg" "length qc \<le> capacity cfg"
  shows "Suc (length (evictIfFull cfg qc)) \<le> capacity cfg"
proof (cases qc)
  case Nil
  with assms show ?thesis by (simp add: evictIfFull_def firstKey_def capacity_def)
next
  case (Cons p rest)
  obtain k0 e0 where p: "p = (k0, e0)" by (cases p)
  show ?thesis
  proof (cases "capacity cfg \<le> length qc")
    case True
    with assms Cons p have "evictIfFull cfg qc = rest" by (simp add: evict_full)
    with assms Cons show ?thesis by simp
  next
    case False
    then have "evictIfFull cfg qc = qc" by (simp add: evictIfFull_def capacity_def)
    with False show ?thesis by simp
  qed
qed

lemma setCache_bound:
  assumes "wf_cache qc" "1 \<le> capacity cfg" "length qc \<le> capacity cfg"
  shows "length (setCache cfg now qc k d ttl) \<le> capacity cfg"
proof -
  have "length (AList.update k v (evictIfFull cfg qc)) \<le> capacity cfg" for v
    using length_update_le [of k v "evictIfFull cfg qc"] evict_bound [OF assms] by linarith
  with assms(3) show ?thesis by (simp add: setCache_def)
qed

lemma runPuts_inv:
  assumes "1 \<le> capacity cfg"
  shows "wf_cache qc \<Longrightarrow> length qc \<le> capacity cfg \<Longrightarrow>
         wf_cache (runPuts cfg qc ops) \<and> length (runPuts cfg qc ops) \<le> capacity cfg"
proof (induction ops arbitrary: qc)
  case Nil
  then show ?case by (simp add: runPuts_def)
next
  case (Cons op ops)
  obtain now k d ttl where op: "op = (now, k, d, ttl)" by (cases op)
  have "runPuts cfg qc (op # ops) = runPuts cfg (setCache cfg now qc k d ttl) ops"
    by (simp add: runPuts_def op)
  moreover have "wf_cache (setCache cfg now qc k d ttl)"
    using Cons.prems by (simp add: wf_setCache)
  moreover have "length (setCache cfg now qc k d ttl) \<le> capacity cfg"
    using Cons.prems assms by (simp add: setCache_bound)
  ultimately show ?case using Cons.IH by simp
qed

text \<open>
  Claim C7, as the code has it. When the configured capacity is at least one, every
  sequence of \<^verbatim>\<open>setCache\<close> calls on a new client leaves at most that many entries
  in the store. A \<^verbatim>\<open>setCache\<close> (caching enabled, non-empty key) into a store that
  holds exactly as many entries as the capacity removes the first entry of the store, the
  oldest-inserted one, and nothing else, and then sets the key in what remains.
\<close>

theorem setCache_capacity:
  "1 \<le> capacity cfg \<Longrightarrow>
     length (runPuts cfg [] ops) \<le> capacity cfg \<and>
     (enableCache cfg \<longrightarrow> cacheKey \<noteq> [] \<longrightarrow> wf_cache ((k0, e0) # rest) \<longrightarrow>
      length ((k0, e0) # rest) = capacity cfg \<longrightarrow>
        setCache cfg now ((k0, e0) # rest) cacheKey d ttl =
          AList.update cacheKey \<lparr>ce_data = d, ce_timestamp = now, ce_ttl = effectiveTTL cfg ttl\<rparr> rest)"
proof (intro conjI impI)
  assume "1 \<le> capacity cfg"
  then show "length (runPuts cfg [] ops) \<le> capacity cfg"
    using runPuts_inv [of cfg "[]" ops] by (simp add: wf_cache_def)
next
  assume "enableCache cfg" "cacheKey \<noteq> []" "wf_cache ((k0, e0) # rest)"
    "length ((k0, e0) # rest) = capacity cfg"
  then show "setCache cfg now ((k0, e0) # rest) cacheKey d ttl =
          AList.update cacheKey \<lparr>ce_data = d, ce_timestamp = now, ce_ttl = effectiveTTL cfg ttl\<rparr> rest"
    by (simp add: setCache_def evict_full)
qed

text \<open>
  With capacity 2: three puts of three keys leave two entries, and the put of
  \<open>c\<close> into the full store \<open>[a, b]\<close> leaves \<open>[b, c]\<close>.
\<close>

theorem setCache_capacity_witness:
  "length (runPuts ex_config []
      [(1, ''a'', ex_response, None), (2, ''b'', ex_response, None), (3, ''c'', ex_response, None)])
     \<le> 2 \<and>
   setCache ex_config 3 [(''a'', ex_entry), (''b'', ex_entry)] ''c'' ex_response None =
     [(''b'', ex_entry), (''c'', \<lparr>ce_data = ex_response, ce_timestamp = 3, ce_ttl = 5000\<rparr>)]"
proof -
  have cap: "capacity ex_config = 2" by (simp add: capacity_def ex_config_def)
  then have c1: "1 \<le> capacity ex_config" by simp
  have en: "enableCache ex_config" by (simp add: ex_config_def)
  have wf: "wf_cache [(''a'', ex_entry), (''b'', ex_entry)]" by (simp add: wf_cache_def)
  have ttl: "effectiveTTL ex_config None = 5000" by (simp add: effectiveTTL_def ex_config_def)
  show ?thesis
    using setCache_capacity [OF c1, of
        "[(1, ''a'', ex_response, None), (2, ''b'', ex_response, None), (3, ''c'', ex_response, None)]"
        "''c''" "''a''" ex_entry "[(''b'', ex_entry)]" 3 ex_response None]
      cap en wf ttl
    by simp
qed

text \<open>
  The claim as written has no condition on the capacity. A client configured with
  \<^verbatim>\<open>maxCacheSize: 0\<close> keeps that value (the constructor spreads the caller's object
  over its defaults), \<^verbatim>\<open>setCache\<close> finds nothing to evict in the empty store, and
  the store holds one entry, more than the capacity.
\<close>

theorem setCache_capacity_zero_counterexample:
  "capacity (ex_config\<lparr>maxCacheSize := Some 0\<rparr>) = 0 \<and>
   length (runPuts (ex_config\<lparr>maxCacheSize := Some 0\<rparr>) [] [(0, ''k'', ex_response, None)]) = 1"
  by (simp add: capacity_def ex_config_def runPuts_def setCache_def evictIfFull_def firstKey_def)

subsection \<open>Invalidation\<close>

lemma invalidate_fold:
  "foldl (\<lambda>c key. if P key then AList.delete key c else c) qc ks =
     filter (\<lambda>p. \<not> (fst p \<in> set ks \<and> P (fst p))) qc"
proof (induction ks arbitrary: qc)
  case Nil
  show ?case by simp
next
  case (Cons k ks)
  have "filter (\<lambda>p. \<not> (fst p \<in> set ks \<and> P (fst p))) (if P k then AList.delete k qc else qc) =
        filter (\<lambda>p. \<not> (fst p \<in> set (k # ks) \<and> P (fst p))) qc"
    by (auto simp: delete_filter_fst intro!: filter_cong)
  then show ?case by (simp add: Cons.IH)
qed

lemma invalidate_filter:
  "invalidateTableCache decode cfg qc table schema_arg =
     filter (\<lambda>p. \<not> keyMatches decode table (schemaNameOf cfg schema_arg) (fst p)) qc"
  unfolding invalidateTableCache_def invalidate_fold
  by (rule filter_cong) auto



section \<open>Properties of the retry policy\<close>

lemma request_delays:
  "fst (request cfg adapter c) =
     map (\<lambda>n. nat_or (retryDelay cfg) 0 * n) [Suc c ..< Suc (c + length (fst (request cfg adapter c)))]"
proof (induction cfg adapter c rule: request.induct)
  case (1 cfg adapter c)
  show ?case
  proof (cases "adapter c")
    case (Inr resp)
    then show ?thesis by (simp add: request.simps [of cfg adapter c])
  next
    case (Inl err)
    show ?thesis
    proof (cases "shouldRetry cfg c err")
      case False
      with Inl show ?thesis by (simp add: request.simps [of cfg adapter c])
    next
      case True
      let ?r = "request cfg adapter (c + 1)"
      define k where "k = length (fst ?r)"
      have eq: "request cfg adapter c = (retryWait cfg (c + 1) # fst ?r, snd ?r)"
        using Inl True by (simp add: request.simps [of cfg adapter c] Let_def)
      have ih: "fst ?r = map (\<lambda>n. nat_or (retryDelay cfg) 0 * n) [Suc (c + 1) ..< Suc (c + 1 + k)]"
        unfolding k_def by (rule "1.IH" [OF Inl True])
      have len: "length (fst (request cfg adapter c)) = Suc k"
        by (simp add: eq k_def)
      have up: "[Suc c ..< Suc (c + Suc k)] = Suc c # [Suc (c + 1) ..< Suc (c + 1 + k)]"
        using upt_conv_Cons [of "Suc c" "Suc (c + Suc k)"] by (simp del: upt_Suc)
      have rw: "retryWait cfg (c + 1) = nat_or (retryDelay cfg) 0 * Suc c"
        by (simp add: retryWait_def)
      have "map (\<lambda>n. nat_or (retryDelay cfg) 0 * n) [Suc c ..< Suc (c + Suc k)] =
                 retryWait cfg (c + 1) # fst ?r"
        unfolding up rw by (simp only: list.map ih [symmetric])
      then show ?thesis
        unfolding len by (simp add: eq)
    qed
  qed
qed

lemma request_last:
  "snd (request cfg adapter c) = adapter (c + length (fst (request cfg adapter c)))"
proof (induction cfg adapter c rule: request.induct)
  case (1 cfg adapter c)
  show ?case
  proof (cases "adapter c")
    case (Inr resp)
    then show ?thesis by (simp add: request.simps [of cfg adapter c])
  next
    case (Inl err)
    show ?thesis
    proof (cases "shouldRetry cfg c err")
      case False
      with Inl show ?thesis by (simp add: request.simps [of cfg adapter c])
    next
      case True
      then show ?thesis
        using Inl "1.IH" [OF Inl True] by (simp add: request.simps [of cfg adapter c] Let_def)
    qed
  qed
qed

lemma request_budget:
  "c + length (fst (request cfg adapter c)) \<le> max c (nat_or (maxRetries cfg) 0)"
proof (induction cfg adapter c rule: request.induct)
  case (1 cfg adapter c)
  show ?case
  proof (cases "adapter c")
    case (Inr resp)
    then show ?thesis by (simp add: request.simps [of cfg adapter c])
  next
    case (Inl err)
    show ?thesis
    proof (cases "shouldRetry cfg c err")
      case False
      with Inl show ?thesis by (simp add: request.simps [of cfg adapter c])
    next
      case True
      then have "c < nat_or (maxRetries cfg) 0" by (simp add: shouldRetry_def)
      then show ?thesis
        using Inl True "1.IH" [OF Inl True] by (simp add: request.simps [of cfg adapter c] Let_def)
    qed
  qed
qed

lemma shouldRetry_spec:
  "shouldRetry cfg c err \<longleftrightarrow>
     (attemptsSoFar c \<le> nat_or (maxRetries cfg) 0 \<and> (transientFailure err \<or> statusAbove599 err))"
  by (auto simp: shouldRetry_def transientFailure_def statusAbove599_def attemptsSoFar_def
      split: option.splits)

lemma request_exhaust:
  assumes "\<forall>i \<le> nat_or (maxRetries cfg) 0. \<exists>e. adapter i = Inl e \<and> transientFailure e"
  shows "c \<le> nat_or (maxRetries cfg) 0 \<Longrightarrow> c + length (fst (request cfg adapter c)) = nat_or (maxRetries cfg) 0"
  using assms
proof (induction cfg adapter c rule: request.induct)
  case (1 cfg adapter c)
  from "1.prems" obtain err where err: "adapter c = Inl err" "transientFailure err"
    by blast
  show ?case
  proof (cases "c < nat_or (maxRetries cfg) 0")
    case True
    with err have sr: "shouldRetry cfg c err" by (simp add: shouldRetry_spec attemptsSoFar_def)
    from True have "c + 1 \<le> nat_or (maxRetries cfg) 0" by simp
    with "1.IH" [OF err(1) sr] "1.prems"(2)
    have "c + 1 + length (fst (request cfg adapter (c + 1))) = nat_or (maxRetries cfg) 0"
      by blast
    then show ?thesis
      using err sr by (simp add: request.simps [of cfg adapter c] Let_def)
  next
    case False
    with err have "\<not> shouldRetry cfg c err" by (simp add: shouldRetry_spec attemptsSoFar_def)
    with err have "request cfg adapter c = ([], Inl err)"
      by (simp add: request.simps [of cfg adapter c])
    with False "1.prems"(1) show ?thesis by simp
  qed
qed

text \<open>
  Claim C4, as the code has it. The counter compared with \<^verbatim>\<open>maxRetries\<close> is the
  number of retries made so far, one less than the number of attempts. (1) A failed
  attempt is followed by another attempt exactly when the number of attempts so far is at
  most \<^verbatim>\<open>maxRetries\<close> (not: below it) and the failure is transient or has a status
  above 599, and the delay awaited before it is the base delay times the number of the
  retry; otherwise the error is rejected at once. (2) The delays of a request are the base
  delay times 1, 2, ..., one per retry; (3) there are at most \<^verbatim>\<open>maxRetries\<close>
  retries, that is at most \<^verbatim>\<open>maxRetries + 1\<close> attempts; (4) the request settles to
  what its last attempt settled to. (5) A 4xx failure of the first attempt is rejected
  with no delay. (6) When every attempt fails transiently, there are exactly
  \<^verbatim>\<open>maxRetries\<close> retries and the error of the attempt number \<^verbatim>\<open>maxRetries + 1\<close>
  is rejected.
\<close>

theorem request_retry_policy:
  "(adapter c = Inl err \<longrightarrow>
      request cfg adapter c =
        (if attemptsSoFar c \<le> nat_or (maxRetries cfg) 0 \<and> (transientFailure err \<or> statusAbove599 err)
         then (nat_or (retryDelay cfg) 0 * (c + 1) # fst (request cfg adapter (c + 1)),
               snd (request cfg adapter (c + 1)))
         else ([], Inl err))) \<and>
   fst (request cfg adapter 0) =
     map (\<lambda>n. nat_or (retryDelay cfg) 0 * n) [1 ..< Suc (length (fst (request cfg adapter 0)))] \<and>
   length (fst (request cfg adapter 0)) \<le> nat_or (maxRetries cfg) 0 \<and>
   snd (request cfg adapter 0) = adapter (length (fst (request cfg adapter 0))) \<and>
   (adapter 0 = Inl err0 \<longrightarrow> clientError err0 \<longrightarrow> request cfg adapter 0 = ([], Inl err0)) \<and>
   ((\<forall>i \<le> nat_or (maxRetries cfg) 0. \<exists>e. adapter i = Inl e \<and> transientFailure e) \<longrightarrow>
      length (fst (request cfg adapter 0)) = nat_or (maxRetries cfg) 0 \<and>
      snd (request cfg adapter 0) = adapter (nat_or (maxRetries cfg) 0))"
proof (intro conjI impI)
  assume a: "adapter c = Inl err"
  show "request cfg adapter c =
        (if attemptsSoFar c \<le> nat_or (maxRetries cfg) 0 \<and> (transientFailure err \<or> statusAbove599 err)
         then (nat_or (retryDelay cfg) 0 * (c + 1) # fst (request cfg adapter (c + 1)),
               snd (request cfg adapter (c + 1)))
         else ([], Inl err))"
    using a shouldRetry_spec [of cfg c err]
    by (simp add: request.simps [of cfg adapter c] Let_def retryWait_def)
next
  show "fst (request cfg adapter 0) =
     map (\<lambda>n. nat_or (retryDelay cfg) 0 * n) [1 ..< Suc (length (fst (request cfg adapter 0)))]"
    using request_delays [of cfg adapter 0] by simp
next
  show "length (fst (request cfg adapter 0)) \<le> nat_or (maxRetries cfg) 0"
    using request_budget [of 0 cfg adapter] by simp
next
  show "snd (request cfg adapter 0) = adapter (length (fst (request cfg adapter 0)))"
    using request_last [of cfg adapter 0] by simp
next
  assume a: "adapter 0 = Inl err0" and c: "clientError err0"
  from c have "\<not> shouldRetry cfg 0 err0"
    by (auto simp: clientError_def shouldRetry_def split: option.splits)
  with a show "request cfg adapter 0 = ([], Inl err0)"
    by (simp add: request.simps [of cfg adapter 0])
next
  assume all: "\<forall>i \<le> nat_or (maxRetries cfg) 0. \<exists>e. adapter i = Inl e \<and> transientFailure e"
  show "length (fst (request cfg adapter 0)) = nat_or (maxRetries cfg) 0"
    using request_exhaust [OF all, of 0] by simp
  then show "snd (request cfg adapter 0) = adapter (nat_or (maxRetries cfg) 0)"
    using request_last [of cfg adapter 0] by simp
qed

text \<open>
  With three retries and a base delay of 1000: a transport that always answers 503 is
  tried four times, after delays of 1000, 2000 and 3000, and the 503 is rejected; a 400 is
  rejected at once; a timeout followed by a response costs one delay of 1000.
\<close>

theorem request_retry_policy_witness:
  "request ex_config (\<lambda>i. Inl ex_err503) 0 = ([1000, 2000, 3000], Inl ex_err503) \<and>
   request ex_config (\<lambda>i. Inl ex_err400) 0 = ([], Inl ex_err400) \<and>
   request ex_config (\<lambda>i. if i = 0 then Inl ex_timeout else Inr (JArr [])) 0 = ([1000], Inr (JArr []))"
proof -
  have m: "nat_or (maxRetries ex_config) 0 = 3" and d: "nat_or (retryDelay ex_config) 0 = 1000"
    by (simp_all add: ex_config_def)
  have all: "\<forall>i \<le> nat_or (maxRetries ex_config) 0.
      \<exists>e. (\<lambda>i. Inl ex_err503) i = Inl e \<and> transientFailure e"
    by (simp add: transientFailure_def ex_err503_def)
  have c4: "clientError ex_err400"
    by (simp add: clientError_def ex_err400_def)
  let ?r = "request ex_config (\<lambda>i. Inl ex_err503) 0"
  note T = request_retry_policy [of "\<lambda>i. Inl ex_err503" 0 ex_err503 ex_config ex_err503]
  from T all have len: "length (fst ?r) = 3" and res: "snd ?r = Inl ex_err503"
    unfolding m by blast+
  from T have "fst ?r = map (\<lambda>n. nat_or (retryDelay ex_config) 0 * n) [1 ..< Suc (length (fst ?r))]"
    by blast
  then have "fst ?r = map (\<lambda>n. 1000 * n) [1 ..< Suc 3]"
    unfolding len d .
  also have "\<dots> = [1000, 2000, 3000]"
    by (simp add: upt_rec)
  finally have a: "?r = ([1000, 2000, 3000], Inl ex_err503)"
    using res by (simp add: prod_eq_iff)
  have b: "request ex_config (\<lambda>i. Inl ex_err400) 0 = ([], Inl ex_err400)"
    using request_retry_policy [of "\<lambda>i. Inl ex_err400" 0 ex_err400 ex_config ex_err400] c4
    by blast
  have t: "transientFailure ex_timeout"
    by (simp add: transientFailure_def ex_timeout_def)
  have c: "request ex_config (\<lambda>i. if i = 0 then Inl ex_timeout else Inr (JArr [])) 0 = ([1000], Inr (JArr []))"
    using request_retry_policy [of "\<lambda>i. if i = 0 then Inl ex_timeout else Inr (JArr [])" 0
        ex_timeout ex_config ex_timeout] t m d
    by (simp add: request.simps [of _ _ "Suc 0"] attemptsSoFar_def)
  show ?thesis using a b c by simp
qed

text \<open>
  Claim C4 as it is worded fails at the budget. With \<^verbatim>\<open>maxRetries\<close> 1, after the
  first attempt has failed with a 503 the number of attempts so far, 1, is not below the
  maximum; the request is retried all the same, after a delay of 1000, so that two
  attempts are made. And a failure with the status 600, which is in no class, is
  retried too.
\<close>

theorem request_attempts_counterexample:
  "attemptsSoFar 0 = 1 \<and> nat_or (maxRetries ex_retry_once) 0 = 1 \<and> transientFailure ex_err503 \<and>
   request ex_retry_once (\<lambda>i. Inl ex_err503) 0 = ([1000], Inl ex_err503) \<and>
   \<not> transientFailure ex_err600 \<and>
   request ex_retry_once (\<lambda>i. if i = 0 then Inl ex_err600 else Inr (JArr [])) 0 = ([1000], Inr (JArr []))"
  by (simp add: attemptsSoFar_def ex_retry_once_def ex_config_def ex_err503_def ex_err600_def transientFailure_def
      request.simps [of _ _ 0] request.simps [of _ _ "Suc 0"] shouldRetry_def retryWait_def)

section \<open>Properties of the bulk writes\<close>

subsection \<open>Requests of operations that are not cached\<close>

lemma request_constant_failure: "snd (request cfg (\<lambda>k. Inl e) c) = Inl e"
  using request_last [of cfg "\<lambda>k. Inl e" c] by simp

lemma request_immediate_success: "adapter 0 = Inr x \<Longrightarrow> request cfg adapter 0 = ([], Inr x)"
  by (simp add: request.simps [of cfg adapter 0])

lemma write_ops_not_cacheable:
  "generateCacheKey ''insert'' body = []" "generateCacheKey ''update'' body = []"
  "generateCacheKey ''upsert'' body = []" "generateCacheKey ''delete'' body = []"
  by (simp_all add: generateCacheKey_def toLowerCase_def lowerChar_def cacheableOperations_def)

lemma executeQuery_uncached:
  assumes "generateCacheKey operation body = []"
  shows "executeQuery cfg env qc operation body options =
     (case snd (request cfg (transport env) 0) of
        Inl err \<Rightarrow> Inl (''HarperDB query failed: '' @ errorMessage err)
      | Inr rdata \<Rightarrow> Inr \<lparr>message = responseMessage rdata, data = responseData rdata,
                         executionTime = settledAt env - startedAt env, cached = None\<rparr>, qc)"
  using assms by (simp add: executeQuery_def Let_def split: sum.splits)

lemma chunk_Nil [simp]: "chunkNat [] n = []"
  by (simp add: chunkNat.simps)

lemma chunk_step: "0 < n \<Longrightarrow> xs \<noteq> [] \<Longrightarrow> chunkNat xs n = take n xs # chunkNat (drop n xs) n"
  by (subst chunkNat.simps) simp

lemma chunk_index_ranges:
  "0 < n \<Longrightarrow>
   concat (map (\<lambda>(i, b). map (\<lambda>idx. (i * n + idx, i)) [0 ..< length b])
               (zip [k ..< k + length (chunkNat xs n)] (chunkNat xs n))) =
   map (\<lambda>j. (k * n + j, k + j div n)) [0 ..< length xs]"
proof (induction xs n arbitrary: k rule: chunkNat.induct)
  case (1 xs n)
  show ?case
  proof (cases "xs = []")
    case True
    then show ?thesis by simp
  next
    case False
    let ?rest = "chunkNat (drop n xs) n"
    have ch: "chunkNat xs n = take n xs # ?rest"
      using "1.prems" False by (rule chunk_step)
    have ih: "concat (map (\<lambda>(i, b). map (\<lambda>idx. (i * n + idx, i)) [0 ..< length b])
               (zip [Suc k ..< Suc k + length ?rest] ?rest)) =
       map (\<lambda>j. (Suc k * n + j, Suc k + j div n)) [0 ..< length (drop n xs)]"
      using "1.IH" [of "Suc k"] "1.prems" False by simp
    have up: "[k ..< k + length (chunkNat xs n)] = k # [Suc k ..< Suc k + length ?rest]"
      by (simp add: ch upt_conv_Cons del: upt_Suc)
    let ?m = "min n (length xs)"
    have split: "[0 ..< length xs] = [0 ..< ?m] @ map (\<lambda>j. n + j) [0 ..< length xs - n]"
    proof (cases "n \<le> length xs")
      case True
      then have "[0 ..< length xs] = [0 ..< n] @ [n ..< n + (length xs - n)]"
        by (metis le_add_diff_inverse upt_add_eq_append zero_le)
      also have "[n ..< n + (length xs - n)] = map (\<lambda>j. n + j) [0 ..< length xs - n]"
        by (simp add: map_add_upt add.commute)
      finally show ?thesis using True by simp
    next
      case False
      then show ?thesis by simp
    qed
    have first: "map (\<lambda>idx. (k * n + idx, k)) [0 ..< ?m] = map (\<lambda>j. (k * n + j, k + j div n)) [0 ..< ?m]"
      by simp
    have second: "map (\<lambda>j. (Suc k * n + j, Suc k + j div n)) [0 ..< length xs - n] =
                  map (\<lambda>j. (k * n + j, k + j div n)) (map (\<lambda>j. n + j) [0 ..< length xs - n])"
      using "1.prems" by (simp add: add.assoc add.commute div_add_self1 div_add_self2)
    have "concat (map (\<lambda>(i, b). map (\<lambda>idx. (i * n + idx, i)) [0 ..< length b])
               (zip [k ..< k + length (chunkNat xs n)] (chunkNat xs n))) =
          map (\<lambda>idx. (k * n + idx, k)) [0 ..< ?m] @
          concat (map (\<lambda>(i, b). map (\<lambda>idx. (i * n + idx, i)) [0 ..< length b])
               (zip [Suc k ..< Suc k + length ?rest] ?rest))"
      unfolding up by (simp add: ch min.commute)
    also have "\<dots> = map (\<lambda>j. (k * n + j, k + j div n)) [0 ..< ?m] @
          map (\<lambda>j. (k * n + j, k + j div n)) (map (\<lambda>j. n + j) [0 ..< length xs - n])"
      by (simp only: ih first second length_drop)
    also have "\<dots> = map (\<lambda>j. (k * n + j, k + j div n)) [0 ..< length xs]"
      by (simp only: map_append [symmetric] split [symmetric])
    finally show ?thesis .
  qed
qed

lemma groupError_msg: "groupError cfg envs i = Some m \<Longrightarrow> str_or (Some m) ''Unknown error'' = m"
  by (auto simp: groupError_def split: sum.splits)

lemma executeQuery_write:
  assumes "generateCacheKey operation body = []"
  shows "fst (executeQuery cfg (envs i) qc operation body options) =
           (case groupError cfg envs i of
              Some m \<Rightarrow> Inl m
            | None \<Rightarrow> Inr \<lparr>message = responseMessage (projr (snd (request cfg (transport (envs i)) 0))),
                            data = responseData (projr (snd (request cfg (transport (envs i)) 0))),
                            executionTime = settledAt (envs i) - startedAt (envs i), cached = None\<rparr>)"
    and "snd (executeQuery cfg (envs i) qc operation body options) = qc"
  by (simp_all add: executeQuery_uncached [OF assms] groupError_def split: sum.splits)

lemma numbered_append: "numbered (xs @ ys) = numbered xs @ numbered ys"
  by (simp add: numbered_def)

lemma numbered_Nil [simp]: "numbered [] = []"
  by (simp add: numbered_def)

lemma failure_indices:
  "map (\<lambda>idx. (of_nat p * of_nat n + of_nat idx, m)) xs =
   numbered (map (\<lambda>idx. (p * n + idx, m)) xs)"
  by (simp add: numbered_def comp_def)

lemma recordFailure_group:
  assumes "groupError cfg envs p = Some m"
  shows "recordFailure (of_nat p * of_nat n) b m st =
     st\<lparr>bs_failed := bs_failed st + failOf cfg envs [(p, b)],
        bs_errors := bs_errors st @ numbered (errsOf cfg envs n [(p, b)])\<rparr>"
  using assms groupError_msg [OF assms]
  by (simp add: recordFailure_def failOf_def errsOf_def failure_indices)

lemma parallelStep_write:
  assumes "\<And>body. generateCacheKey operation body = []" and "start \<le> p"
  shows "parallelStep cfg envs operation table options (of_nat n) (of_nat start) start st (p, b) =
     st\<lparr>bs_successful := bs_successful st + succOf cfg envs [(p, b)],
        bs_failed := bs_failed st + failOf cfg envs [(p, b)],
        bs_errors := bs_errors st @ numbered (errsOf cfg envs n [(p, b)])\<rparr>"
proof (cases "snd (request cfg (transport (envs p)) 0)")
  case (Inl err)
  define m where "m = ''HarperDB query failed: '' @ errorMessage err"
  have g: "groupError cfg envs p = Some m" using Inl by (simp add: groupError_def m_def)
  have i: "(of_nat start + of_nat (p - start)) * (of_nat n :: rat) = of_nat p * of_nat n"
    using assms(2) by (simp flip: of_nat_add)
  have "parallelStep cfg envs operation table options (of_nat n) (of_nat start) start st (p, b) =
        recordFailure (of_nat p * of_nat n) b m st"
    using Inl by (simp add: parallelStep_def executeQuery_uncached [OF assms(1)] i m_def)
  also have "\<dots> = st\<lparr>bs_failed := bs_failed st + failOf cfg envs [(p, b)],
        bs_errors := bs_errors st @ numbered (errsOf cfg envs n [(p, b)])\<rparr>"
    by (rule recordFailure_group [OF g])
  finally show ?thesis
    using g by (simp add: succOf_def)
next
  case (Inr rdata)
  then show ?thesis
    by (simp add: parallelStep_def executeQuery_uncached [OF assms(1)] succOf_def failOf_def
        errsOf_def groupError_def)
qed

lemma succOf_append: "succOf cfg envs (xs @ ys) = succOf cfg envs xs + succOf cfg envs ys"
  by (simp add: succOf_def)

lemma failOf_append: "failOf cfg envs (xs @ ys) = failOf cfg envs xs + failOf cfg envs ys"
  by (simp add: failOf_def)

lemma errsOf_append: "errsOf cfg envs n (xs @ ys) = errsOf cfg envs n xs @ errsOf cfg envs n ys"
  by (simp add: errsOf_def)

lemma parallel_fold:
  assumes "\<And>body. generateCacheKey operation body = []" and "\<forall>pb \<in> set ibs. start \<le> fst pb"
  shows "foldl (parallelStep cfg envs operation table options (of_nat n) (of_nat start) start) st ibs =
     st\<lparr>bs_successful := bs_successful st + succOf cfg envs ibs,
        bs_failed := bs_failed st + failOf cfg envs ibs,
        bs_errors := bs_errors st @ numbered (errsOf cfg envs n ibs)\<rparr>"
  using assms(2)
proof (induction ibs arbitrary: st)
  case Nil
  show ?case by (simp add: succOf_def failOf_def errsOf_def)
next
  case (Cons ib ibs)
  obtain i b where ib: "ib = (i, b)" by (cases ib)
  have c: "ib # ibs = [(i, b)] @ ibs" by (simp add: ib)
  have le: "start \<le> i" using Cons.prems ib by simp
  have rest: "\<forall>pb \<in> set ibs. start \<le> fst pb" using Cons.prems by simp
  show ?case
    unfolding c succOf_append failOf_append errsOf_append numbered_append
    by (simp add: Cons.IH [OF rest] parallelStep_write [OF assms(1) le] add.assoc)
qed

lemma sequentialStep_write:
  assumes "\<And>body. generateCacheKey operation body = []"
  shows "\<exists>qc'. sequentialStep decode cfg envs operation field table options (of_nat n) nb st (i, b) =
     st\<lparr>bs_successful := bs_successful st + succOf cfg envs [(i, b)],
        bs_failed := bs_failed st + failOf cfg envs [(i, b)],
        bs_errors := bs_errors st @ numbered (errsOf cfg envs n [(i, b)]),
        bs_cache := qc'\<rparr>"
proof (cases "snd (request cfg (transport (envs i)) 0)")
  case (Inl err)
  define m where "m = ''HarperDB query failed: '' @ errorMessage err"
  have g: "groupError cfg envs i = Some m" using Inl by (simp add: groupError_def m_def)
  have "sequentialStep decode cfg envs operation field table options (of_nat n) nb st (i, b) =
        recordFailure (of_nat i * of_nat n) b m st"
    using Inl by (simp add: sequentialStep_def executeQuery_uncached [OF assms] m_def)
  also have "\<dots> = st\<lparr>bs_failed := bs_failed st + failOf cfg envs [(i, b)],
        bs_errors := bs_errors st @ numbered (errsOf cfg envs n [(i, b)])\<rparr>"
    by (rule recordFailure_group [OF g])
  finally have "sequentialStep decode cfg envs operation field table options (of_nat n) nb st (i, b) =
     st\<lparr>bs_successful := bs_successful st + succOf cfg envs [(i, b)],
        bs_failed := bs_failed st + failOf cfg envs [(i, b)],
        bs_errors := bs_errors st @ numbered (errsOf cfg envs n [(i, b)]),
        bs_cache := bs_cache st\<rparr>"
    using g by (simp add: succOf_def)
  then show ?thesis by blast
next
  case (Inr rdata)
  let ?qc = "if i = nb - 1
             then invalidateTableCache decode cfg (bs_cache st) table
                    (Some (writeSchema cfg (hashAttribute options)))
             else bs_cache st"
  from Inr have "sequentialStep decode cfg envs operation field table options (of_nat n) nb st (i, b) =
     st\<lparr>bs_successful := bs_successful st + succOf cfg envs [(i, b)],
        bs_failed := bs_failed st + failOf cfg envs [(i, b)],
        bs_errors := bs_errors st @ numbered (errsOf cfg envs n [(i, b)]),
        bs_cache := ?qc\<rparr>"
    by (simp add: sequentialStep_def executeQuery_uncached [OF assms] succOf_def failOf_def
        errsOf_def groupError_def)
  then show ?thesis by blast
qed

lemma sequential_fold:
  assumes "\<And>body. generateCacheKey operation body = []"
  shows "\<exists>qc'. foldl (sequentialStep decode cfg envs operation field table options (of_nat n) nb) st ibs =
     st\<lparr>bs_successful := bs_successful st + succOf cfg envs ibs,
        bs_failed := bs_failed st + failOf cfg envs ibs,
        bs_errors := bs_errors st @ numbered (errsOf cfg envs n ibs),
        bs_cache := qc'\<rparr>"
proof (induction ibs arbitrary: st)
  case Nil
  show ?case by (rule exI [of _ "bs_cache st"]) (simp add: succOf_def failOf_def errsOf_def)
next
  case (Cons ib ibs)
  obtain i b where ib: "ib = (i, b)" by (cases ib)
  have c: "ib # ibs = [(i, b)] @ ibs" by (simp add: ib)
  obtain qc1 where s1: "sequentialStep decode cfg envs operation field table options (of_nat n) nb st (i, b) =
     st\<lparr>bs_successful := bs_successful st + succOf cfg envs [(i, b)],
        bs_failed := bs_failed st + failOf cfg envs [(i, b)],
        bs_errors := bs_errors st @ numbered (errsOf cfg envs n [(i, b)]),
        bs_cache := qc1\<rparr>"
    using sequentialStep_write [OF assms] by blast
  define st1 where "st1 = sequentialStep decode cfg envs operation field table options (of_nat n) nb st (i, b)"
  obtain qc2 where s2: "foldl (sequentialStep decode cfg envs operation field table options (of_nat n) nb) st1 ibs =
     st1\<lparr>bs_successful := bs_successful st1 + succOf cfg envs ibs,
         bs_failed := bs_failed st1 + failOf cfg envs ibs,
         bs_errors := bs_errors st1 @ numbered (errsOf cfg envs n ibs),
         bs_cache := qc2\<rparr>"
    using Cons.IH by blast
  have "foldl (sequentialStep decode cfg envs operation field table options (of_nat n) nb) st (ib # ibs) =
        foldl (sequentialStep decode cfg envs operation field table options (of_nat n) nb) st1 ibs"
    by (simp add: ib st1_def)
  also note s2
  finally show ?case
    unfolding c succOf_append failOf_append errsOf_append numbered_append
    by (intro exI [of _ qc2]) (simp add: st1_def s1 add.assoc)
qed

subsection \<open>Waves\<close>

lemma sum_list_map_perm:
  fixes f :: "'a \<Rightarrow> nat"
  shows "mset xs = mset ys \<Longrightarrow> sum_list (map f xs) = sum_list (map f ys)"
  by (metis mset_map sum_mset_sum_list)

lemma succOf_perm: "mset xs = mset ys \<Longrightarrow> succOf cfg envs xs = succOf cfg envs ys"
  unfolding succOf_def by (rule sum_list_map_perm)

lemma failOf_perm: "mset xs = mset ys \<Longrightarrow> failOf cfg envs xs = failOf cfg envs ys"
  unfolding failOf_def by (rule sum_list_map_perm)

lemma zip_upt_split:
  assumes "i < length bs" "0 < c"
  shows "zip [i ..< length bs] (drop i bs) =
         zip [i ..< i + length (take c (drop i bs))] (take c (drop i bs)) @
         zip [i + c ..< length bs] (drop (i + c) bs)"
proof -
  let ?g = "take c (drop i bs)"
  have len: "length ?g = min c (length bs - i)" by simp
  have d: "drop i bs = ?g @ drop (i + c) bs"
    by (metis append_take_drop_id drop_drop add.commute)
  have "i + length ?g \<le> length bs" using assms by simp
  then obtain r where r: "length bs = (i + length ?g) + r"
    using le_Suc_ex by blast
  have u: "[i ..< length bs] = [i ..< i + length ?g] @ [i + length ?g ..< length bs]"
    unfolding r by (rule upt_add_eq_append) simp
  have z: "zip [i + length ?g ..< length bs] (drop (i + c) bs) =
           zip [i + c ..< length bs] (drop (i + c) bs)"
  proof (cases "c \<le> length bs - i")
    case True
    then show ?thesis by (simp add: min_def)
  next
    case False
    then show ?thesis by simp
  qed
  have "zip [i ..< length bs] (drop i bs) =
        zip ([i ..< i + length ?g] @ [i + length ?g ..< length bs]) (?g @ drop (i + c) bs)"
    using u d by metis
  also have "\<dots> = zip [i ..< i + length ?g] ?g @ zip [i + length ?g ..< length bs] (drop (i + c) bs)"
    by (rule zip_append) simp
  finally show ?thesis unfolding z .
qed

lemma toInteger_of_nat [simp]: "toInteger (of_nat k) = int k"
  by (simp add: toInteger_def)

lemma toInteger_numeral [simp]: "toInteger (numeral k) = numeral k" "toInteger 1 = 1" "toInteger 0 = 0"
  by (simp_all add: toInteger_def)

lemma relativeIndex_of_nat [simp]: "relativeIndex len (of_nat k) = min k len"
  by (simp add: relativeIndex_def)

lemma slice_of_nat:
  assumes "k \<le> length xs"
  shows "slice xs (of_nat k) (of_nat k + of_nat c) = take c (drop k xs)"
proof -
  have "slice xs (of_nat k) (of_nat (k + c)) = take (min (k + c) (length xs) - k) (drop k xs)"
    using assms unfolding slice_def relativeIndex_of_nat by (simp add: min_absorb1)
  also have "\<dots> = take c (drop k xs)"
  proof (cases "k + c \<le> length xs")
    case True
    then show ?thesis by (simp add: min_absorb1)
  next
    case False
    then show ?thesis by (simp add: min_absorb2)
  qed
  finally show ?thesis by simp
qed

lemma waveStep_of_nat:
  assumes "k < length batches"
  shows "waveStep cfg envs settle operation table options bsize (of_nat c) batches (of_nat k) st =
     foldl (parallelStep cfg envs operation table options bsize (of_nat k) k) st
       (settle (zip [k ..< k + length (take c (drop k batches))] (take c (drop k batches))))"
proof -
  have k: "min k (length batches) = k" using assms by simp
  have s: "slice batches (of_nat k) (of_nat k + of_nat c) = take c (drop k batches)"
    by (rule slice_of_nat) (use assms in simp)
  show ?thesis
    unfolding waveStep_def relativeIndex_of_nat k s by (simp only: Let_def)
qed

lemma settle_positions:
  assumes "\<And>xs. mset (settle xs) = mset xs"
  shows "\<forall>pb \<in> set (settle (zip [k ..< k + length g] g)). k \<le> fst pb"
proof
  fix pb
  assume "pb \<in> set (settle (zip [k ..< k + length g] g))"
  then have "pb \<in> set (zip [k ..< k + length g] g)"
    using assms by (metis set_mset_mset)
  then have "fst pb \<in> set [k ..< k + length g]"
    by (metis prod.collapse set_zip_leftD)
  then show "k \<le> fst pb" by simp
qed

lemma waves_write:
  assumes w: "\<And>body. generateCacheKey operation body = []"
    and p: "\<And>xs. mset (settle xs) = mset xs"
    and c: "0 < c"
  shows "\<exists>order. mset order = mset (zip [k ..< length batches] (drop k batches)) \<and>
     waves cfg envs settle operation table options (of_nat n) (of_nat c) batches (of_nat k) st =
       Some (st\<lparr>bs_successful := bs_successful st + succOf cfg envs order,
                bs_failed := bs_failed st + failOf cfg envs order,
                bs_errors := bs_errors st @ numbered (errsOf cfg envs n order)\<rparr>)"
proof (induction "length batches - k" arbitrary: k st rule: less_induct)
  case less
  show ?case
  proof (cases "k < length batches")
    case False
    then have "\<not> (of_nat k :: rat) < of_nat (length batches)" by simp
    then have "waves cfg envs settle operation table options (of_nat n) (of_nat c) batches (of_nat k) st =
               Some st"
      by (subst waves.simps) (simp only: if_False)
    with False show ?thesis
      by (intro exI [of _ "[]"]) (simp add: succOf_def failOf_def errsOf_def)
  next
    case True
    let ?g = "take c (drop k batches)"
    let ?ix = "zip [k ..< k + length ?g] ?g"
    define ws where "ws = settle ?ix"
    define st1 where "st1 = foldl (parallelStep cfg envs operation table options (of_nat n) (of_nat k) k) st ws"
    have pos: "\<forall>pb \<in> set ws. k \<le> fst pb"
      unfolding ws_def by (rule settle_positions [OF p])
    have st': "st1 = st\<lparr>bs_successful := bs_successful st + succOf cfg envs ws,
          bs_failed := bs_failed st + failOf cfg envs ws,
          bs_errors := bs_errors st @ numbered (errsOf cfg envs n ws)\<rparr>"
      unfolding st1_def by (rule parallel_fold [OF w pos])
    have lt: "(of_nat k :: rat) < of_nat (length batches)" using True by simp
    have step: "waveStep cfg envs settle operation table options (of_nat n) (of_nat c) batches (of_nat k) st = st1"
      unfolding st1_def ws_def by (rule waveStep_of_nat [OF True])
    have next_i: "(of_nat k :: rat) + of_nat c = of_nat (k + c)" by simp
    have unf: "waves cfg envs settle operation table options (of_nat n) (of_nat c) batches (of_nat k) st =
               waves cfg envs settle operation table options (of_nat n) (of_nat c) batches (of_nat (k + c)) st1"
      by (subst waves.simps) (simp only: lt if_True step next_i)
    have dec: "length batches - (k + c) < length batches - k" using True c by simp
    obtain order where o1: "mset order = mset (zip [k + c ..< length batches] (drop (k + c) batches))"
      and o2: "waves cfg envs settle operation table options (of_nat n) (of_nat c) batches (of_nat (k + c)) st1 =
         Some (st1\<lparr>bs_successful := bs_successful st1 + succOf cfg envs order,
            bs_failed := bs_failed st1 + failOf cfg envs order,
            bs_errors := bs_errors st1 @ numbered (errsOf cfg envs n order)\<rparr>)"
      using less [OF dec, of st1] by blast
    have m: "mset (ws @ order) = mset (zip [k ..< length batches] (drop k batches))"
      using zip_upt_split [OF True c] by (simp add: p o1 ws_def)
    have "waves cfg envs settle operation table options (of_nat n) (of_nat c) batches (of_nat k) st =
       Some (st\<lparr>bs_successful := bs_successful st + succOf cfg envs (ws @ order),
          bs_failed := bs_failed st + failOf cfg envs (ws @ order),
          bs_errors := bs_errors st @ numbered (errsOf cfg envs n (ws @ order))\<rparr>)"
      unfolding unf o2 succOf_append failOf_append errsOf_append numbered_append
      by (simp add: st' add.assoc)
    with m show ?thesis by blast
  qed
qed

text \<open>With a negative step the loop over a list of groups that is not empty does not end.\<close>

lemma waves_diverge:
  assumes "conc < 0" "i < of_nat (length batches)"
  shows "waves cfg envs settle operation table options bsize conc batches i st = None"
proof (rule ccontr)
  assume "waves cfg envs settle operation table options bsize conc batches i st \<noteq> None"
  then obtain y where y: "waves cfg envs settle operation table options bsize conc batches i st = Some y"
    by auto
  have "\<not> (conc < 0 \<and> i < of_nat (length batches))"
  proof (rule waves.raw_induct [where P = "\<lambda>cfg envs settle operation table options bsize conc batches i st y.
      \<not> (conc < 0 \<and> i < of_nat (length batches))", OF _ y])
    fix f :: "config \<Rightarrow> (nat \<Rightarrow> call_env) \<Rightarrow> ((nat \<times> json list) list \<Rightarrow> (nat \<times> json list) list) \<Rightarrow>
       string \<Rightarrow> string \<Rightarrow> 'a bulk_options_scheme \<Rightarrow> rat \<Rightarrow> rat \<Rightarrow> json list list \<Rightarrow> rat \<Rightarrow>
       bulk_state \<Rightarrow> bulk_state option"
    fix cfg envs settle operation table options bsize conc batches i st z
    assume ih: "\<And>cfg envs settle operation table options bsize conc batches i st y.
        f cfg envs settle operation table options bsize conc batches i st = Some y \<Longrightarrow>
        \<not> (conc < 0 \<and> i < of_nat (length batches))"
      and e: "(if i < of_nat (length batches)
           then f cfg envs settle operation table options bsize conc batches (i + conc)
                  (waveStep cfg envs settle operation table options bsize conc batches i st)
           else Some st) = Some z"
    show "\<not> (conc < 0 \<and> i < of_nat (length batches))"
    proof
      assume a: "conc < 0 \<and> i < of_nat (length batches)"
      with e have "f cfg envs settle operation table options bsize conc batches (i + conc)
                  (waveStep cfg envs settle operation table options bsize conc batches i st) = Some z"
        by simp
      from ih [OF this] a show False by simp
    qed
  qed
  with assms show False by simp
qed

subsection \<open>Groups and input indices\<close>

lemma errsOf_flat:
  "errsOf cfg envs n ibs =
     concat (map (\<lambda>(j, i). case groupError cfg envs i of None \<Rightarrow> [] | Some m \<Rightarrow> [(j, m)])
       (concat (map (\<lambda>(i, b). map (\<lambda>idx. (i * n + idx, i)) [0 ..< length b]) ibs)))"
proof (induction ibs)
  case Nil
  show ?case by (simp add: errsOf_def)
next
  case (Cons ib ibs)
  obtain i b where ib: "ib = (i, b)" by (cases ib)
  have one: "concat (map (\<lambda>idx. case groupError cfg envs i of None \<Rightarrow> [] | Some m \<Rightarrow> [(i * n + idx, m)]) xs) =
             (case groupError cfg envs i of None \<Rightarrow> [] | Some m \<Rightarrow> map (\<lambda>idx. (i * n + idx, m)) xs)"
    for xs :: "nat list"
    by (induction xs) (auto split: option.splits)
  have "errsOf cfg envs n (ib # ibs) = errsOf cfg envs n [(i, b)] @ errsOf cfg envs n ibs"
    by (simp add: errsOf_def ib)
  then show ?case
    by (simp add: Cons.IH ib comp_def one) (simp add: errsOf_def)
qed

lemma succOf_flat:
  "succOf cfg envs ibs =
     length (filter (\<lambda>(j, i). groupError cfg envs i = None)
       (concat (map (\<lambda>(i, b). map (\<lambda>idx. (i * n + idx, i)) [0 ..< length b]) ibs)))"
proof (induction ibs)
  case Nil
  show ?case by (simp add: succOf_def)
next
  case (Cons ib ibs)
  obtain i b where ib: "ib = (i, b)" by (cases ib)
  have "succOf cfg envs (ib # ibs) = succOf cfg envs [(i, b)] + succOf cfg envs ibs"
    by (simp add: succOf_def ib)
  then show ?case
    by (simp add: Cons.IH ib) (simp add: succOf_def)
qed

lemma failOf_flat:
  "failOf cfg envs ibs =
     length (filter (\<lambda>(j, i). groupError cfg envs i \<noteq> None)
       (concat (map (\<lambda>(i, b). map (\<lambda>idx. (i * n + idx, i)) [0 ..< length b]) ibs)))"
proof (induction ibs)
  case Nil
  show ?case by (simp add: failOf_def)
next
  case (Cons ib ibs)
  obtain i b where ib: "ib = (i, b)" by (cases ib)
  have "failOf cfg envs (ib # ibs) = failOf cfg envs [(i, b)] + failOf cfg envs ibs"
    by (simp add: failOf_def ib)
  then show ?case
    by (simp add: Cons.IH ib) (simp add: failOf_def)
qed

lemma errsOf_chunk:
  assumes "0 < n"
  shows "errsOf cfg envs n (zip [0 ..< length (chunkNat xs n)] (chunkNat xs n)) =
         expectedErrors cfg envs n (length xs)"
  unfolding errsOf_flat expectedErrors_def
  using chunk_index_ranges [OF assms, of 0 xs]
  by (simp add: comp_def)

lemma succOf_chunk:
  assumes "0 < n"
  shows "succOf cfg envs (zip [0 ..< length (chunkNat xs n)] (chunkNat xs n)) =
         length (okIndices cfg envs n (length xs))"
  unfolding succOf_flat [of _ _ _ n] okIndices_def
  using chunk_index_ranges [OF assms, of 0 xs]
  by (simp add: filter_map comp_def)

lemma failOf_chunk:
  assumes "0 < n"
  shows "failOf cfg envs (zip [0 ..< length (chunkNat xs n)] (chunkNat xs n)) =
         length (failedIndices cfg envs n (length xs))"
  unfolding failOf_flat [of _ _ _ n] failedIndices_def
  using chunk_index_ranges [OF assms, of 0 xs]
  by (simp add: filter_map comp_def)

lemma expectedErrors_alt:
  "expectedErrors cfg envs n len =
     map (\<lambda>j. (j, the (groupError cfg envs (j div n)))) (failedIndices cfg envs n len)"
proof -
  have "concat (map (\<lambda>j. case g j of None \<Rightarrow> [] | Some m \<Rightarrow> [(j, m)]) xs) =
        map (\<lambda>j. (j, the (g j))) (filter (\<lambda>j. g j \<noteq> None) xs)"
    for g :: "nat \<Rightarrow> string option" and xs
    by (induction xs) auto
  then show ?thesis
    unfolding expectedErrors_def failedIndices_def .
qed

subsection \<open>A single failing group\<close>

lemma errsOf_filter_group:
  assumes "\<And>i b. (i, b) \<in> set xs \<Longrightarrow> i \<noteq> g \<Longrightarrow> groupError cfg envs i = None"
  shows "errsOf cfg envs n xs = errsOf cfg envs n (filter (\<lambda>ib. fst ib = g) xs)"
  using assms
proof (induction xs)
  case Nil
  show ?case by simp
next
  case (Cons ib xs)
  obtain i b where ib: "ib = (i, b)" by (cases ib)
  have ih: "errsOf cfg envs n xs = errsOf cfg envs n (filter (\<lambda>ib. fst ib = g) xs)"
    by (rule Cons.IH) (use Cons.prems in auto)
  define E where "E = errsOf cfg envs n [(i, b)]"
  have c: "errsOf cfg envs n ((i, b) # ys) = E @ errsOf cfg envs n ys" for ys
    by (simp add: errsOf_def E_def)
  show ?case
  proof (cases "i = g")
    case True
    then have "filter (\<lambda>ib. fst ib = g) (ib # xs) = (i, b) # filter (\<lambda>ib. fst ib = g) xs"
      by (simp add: ib)
    then show ?thesis
      unfolding ib by (simp only: c ih [symmetric])
  next
    case False
    then have "groupError cfg envs i = None" using Cons.prems [of i b] ib by simp
    then have E: "E = []" by (simp add: errsOf_def E_def)
    from False have "filter (\<lambda>ib. fst ib = g) (ib # xs) = filter (\<lambda>ib. fst ib = g) xs"
      by (simp add: ib)
    then show ?thesis
      unfolding ib by (simp only: c E append_Nil ih [symmetric])
  qed
qed

lemma filter_fst_distinct:
  "distinct (map fst xs) \<Longrightarrow> length (filter (\<lambda>ib. fst ib = g) xs) \<le> 1"
proof (induction xs)
  case Nil
  show ?case by simp
next
  case (Cons x xs)
  show ?case
  proof (cases "fst x = g")
    case True
    from Cons.prems have "fst x \<notin> fst ` set xs" by simp
    with True have "\<forall>ib \<in> set xs. fst ib \<noteq> g" by (metis image_eqI)
    then have "filter (\<lambda>ib. fst ib = g) xs = []"
      by (simp add: filter_empty_conv)
    with True show ?thesis by simp
  next
    case False
    with Cons show ?thesis by simp
  qed
qed

lemma mset_eq_short:
  assumes "mset xs = mset ys" "length ys \<le> 1"
  shows "xs = ys"
proof (cases ys)
  case Nil
  with assms show ?thesis by simp
next
  case (Cons y zs)
  with assms have "ys = [y]" by simp
  with assms show ?thesis by (simp add: mset_single_iff_right)
qed

lemma errsOf_single_group:
  assumes m: "mset order = mset all" and d: "distinct (map fst all)"
    and g: "\<And>i. i \<noteq> g \<Longrightarrow> groupError cfg envs i = None"
  shows "errsOf cfg envs n order = errsOf cfg envs n all"
proof -
  have "mset (filter (\<lambda>ib. fst ib = g) order) = mset (filter (\<lambda>ib. fst ib = g) all)"
    using m by simp
  then have "filter (\<lambda>ib. fst ib = g) order = filter (\<lambda>ib. fst ib = g) all"
    using filter_fst_distinct [OF d] by (rule mset_eq_short)
  then show ?thesis
    using errsOf_filter_group [of order g cfg envs n] errsOf_filter_group [of all g cfg envs n] g
    by simp
qed

lemma filter_div_group:
  assumes "0 < n"
  shows "filter (\<lambda>j. j div n = g) [0 ..< len] = [min (g * n) len ..< min (g * n + n) len]"
proof -
  let ?a = "min (g * n) len" and ?b = "min (g * n + n) len"
  have ab: "?a \<le> ?b" and bl: "?b \<le> len" by simp_all
  obtain r1 where r1: "?b = ?a + r1" using ab le_Suc_ex by blast
  obtain r2 where r2: "len = ?b + r2" using bl le_Suc_ex by blast
  have s1: "[0 ..< ?b] = [0 ..< ?a] @ [?a ..< ?b]"
    using upt_add_eq_append [of 0 ?a r1] r1 by simp
  have s2: "[0 ..< len] = [0 ..< ?b] @ [?b ..< len]"
    using upt_add_eq_append [of 0 ?b r2] r2 by simp
  have lo: "j div n < g" if "j < g * n" for j
    using that assms by (simp add: less_mult_imp_div_less)
  have hi: "g < j div n" if "g * n + n \<le> j" for j
  proof -
    have "(g * n + n) div n \<le> j div n" using that by (rule div_le_mono)
    then show ?thesis using assms by simp
  qed
  have mid: "j div n = g" if "g * n \<le> j" "j < g * n + n" for j
    using that by (intro div_nat_eqI) (simp_all add: mult.commute)
  have a: "filter (\<lambda>j. j div n = g) [0 ..< ?a] = []"
    using lo by (fastforce simp: filter_empty_conv)
  have b: "filter (\<lambda>j. j div n = g) [?a ..< ?b] = [?a ..< ?b]"
    by (rule filter_True) (use mid in \<open>auto simp: min_def split: if_splits\<close>)
  have c: "filter (\<lambda>j. j div n = g) [?b ..< len] = []"
    using hi by (fastforce simp: filter_empty_conv min_def split: if_splits)
  show ?thesis
    by (subst s2, subst s1) (simp only: filter_append a b c append_Nil append_Nil2)
qed

lemma failedIndices_one_group:
  assumes "groupError cfg envs g = Some m" "\<And>i. i \<noteq> g \<Longrightarrow> groupError cfg envs i = None" "0 < n"
  shows "failedIndices cfg envs n len = [min (g * n) len ..< min (g * n + n) len]"
proof -
  have f: "(groupError cfg envs i \<noteq> None) = (i = g)" for i
    using assms by (cases "i = g") auto
  show ?thesis
    unfolding failedIndices_def f by (rule filter_div_group [OF assms(3)])
qed

lemma expectedErrors_one_group:
  assumes "groupError cfg envs g = Some m" "\<And>i. i \<noteq> g \<Longrightarrow> groupError cfg envs i = None" "0 < n"
  shows "expectedErrors cfg envs n len = map (\<lambda>j. (j, m)) [min (g * n) len ..< min (g * n + n) len]"
proof -
  have eq: "(j, the (groupError cfg envs (j div n))) = (j, m)"
    if "j \<in> set (failedIndices cfg envs n len)" for j
  proof -
    from that have "groupError cfg envs (j div n) \<noteq> None"
      by (simp add: failedIndices_def)
    then have "j div n = g"
      using assms(2) [of "j div n"] by (cases "j div n = g") simp_all
    then show ?thesis
      using assms(1) by (simp only: option.sel)
  qed
  have "expectedErrors cfg envs n len =
        map (\<lambda>j. (j, the (groupError cfg envs (j div n)))) (failedIndices cfg envs n len)"
    by (rule expectedErrors_alt)
  also have "\<dots> = map (\<lambda>j. (j, m)) (failedIndices cfg envs n len)"
    by (rule map_cong [OF refl eq])
  also have "\<dots> = map (\<lambda>j. (j, m)) [min (g * n) len ..< min (g * n + n) len]"
    by (rule arg_cong [OF failedIndices_one_group [OF assms]])
  finally show ?thesis .
qed

lemma second_group_range: "[min (1 * 1000) 2500 ..< min (1 * 1000 + 1000) (2500::nat)] = [1000 ..< 2000]"
proof -
  have "min (1 * 1000) 2500 = (1000::nat)" "min (1 * 1000 + 1000) 2500 = (2000::nat)"
    by simp_all
  then show ?thesis by (simp only:)
qed

subsection \<open>Results of the bulk methods\<close>

lemma num_or_nonzero: "d \<noteq> 0 \<Longrightarrow> num_or x d \<noteq> 0"
  by (cases x) auto

lemma naturalNumber_of_nat:
  assumes "naturalNumber x"
  shows "x = of_nat (nat \<lfloor>x\<rfloor>)"
proof -
  from assms have x: "0 \<le> x" and e: "of_int \<lfloor>x\<rfloor> = x"
    unfolding naturalNumber_def by blast+
  from x have "0 \<le> \<lfloor>x\<rfloor>" by simp
  then have "of_int \<lfloor>x\<rfloor> = (of_nat (nat \<lfloor>x\<rfloor>) :: rat)" by simp
  with e show ?thesis by (simp only:)
qed

lemma groupSize_natural:
  assumes "naturalNumber (batchSizeOf options)"
  shows "0 < groupSize options" "batchSizeOf options = of_nat (groupSize options)"
    "chunk xs (batchSizeOf options) = chunkNat xs (groupSize options)"
proof -
  show e: "batchSizeOf options = of_nat (groupSize options)"
    unfolding groupSize_def by (rule naturalNumber_of_nat [OF assms])
  have "batchSizeOf options \<noteq> 0"
    unfolding batchSizeOf_def by (rule num_or_nonzero) simp
  with e show "0 < groupSize options" by (cases "groupSize options") auto
  show "chunk xs (batchSizeOf options) = chunkNat xs (groupSize options)"
    by (subst e) (simp add: chunk_def)
qed

lemma indices_total:
  "length (okIndices cfg envs n len) + length (failedIndices cfg envs n len) = len"
  unfolding okIndices_def failedIndices_def
  using sum_length_filter_compl [of "\<lambda>j. groupError cfg envs (j div n) = None" "[0 ..< len]"]
  by simp

lemma bulkResult_errorList: "errorList (bulkResult t0 t1 st) = bs_errors st"
  by (cases "bs_errors st") (simp_all add: errorList_def bulkResult_def)

lemma sequentialBulk_result:
  assumes "\<And>body. generateCacheKey operation body = []" and nat: "naturalNumber (batchSizeOf options)"
  shows "successful (fst (sequentialBulk decode cfg envs t0 t1 qc operation field table items options)) =
           length (okIndices cfg envs (groupSize options) (length items))"
    and "failed (fst (sequentialBulk decode cfg envs t0 t1 qc operation field table items options)) =
           length (failedIndices cfg envs (groupSize options) (length items))"
    and "errorList (fst (sequentialBulk decode cfg envs t0 t1 qc operation field table items options)) =
           numbered (expectedErrors cfg envs (groupSize options) (length items))"
proof -
  let ?n = "groupSize options"
  note gs = groupSize_natural [OF nat]
  let ?all = "zip [0 ..< length (chunkNat items ?n)] (chunkNat items ?n)"
  let ?st0 = "\<lparr>bs_successful = 0, bs_failed = 0, bs_errors = [], bs_cache = qc\<rparr>"
  obtain qc' where f: "foldl (sequentialStep decode cfg envs operation field table options (of_nat ?n)
        (length (chunkNat items ?n))) ?st0 ?all =
     ?st0\<lparr>bs_successful := bs_successful ?st0 + succOf cfg envs ?all,
        bs_failed := bs_failed ?st0 + failOf cfg envs ?all,
        bs_errors := bs_errors ?st0 @ numbered (errsOf cfg envs ?n ?all),
        bs_cache := qc'\<rparr>"
    using sequential_fold [OF assms(1)] by blast
  have "fst (sequentialBulk decode cfg envs t0 t1 qc operation field table items options) =
        bulkResult t0 t1 (foldl (sequentialStep decode cfg envs operation field table options (of_nat ?n)
        (length (chunkNat items ?n))) ?st0 ?all)"
    unfolding sequentialBulk_def Let_def gs(3) by (simp add: gs(2) [symmetric])
  then have r: "fst (sequentialBulk decode cfg envs t0 t1 qc operation field table items options) =
        bulkResult t0 t1 (?st0\<lparr>bs_successful := bs_successful ?st0 + succOf cfg envs ?all,
        bs_failed := bs_failed ?st0 + failOf cfg envs ?all,
        bs_errors := bs_errors ?st0 @ numbered (errsOf cfg envs ?n ?all),
        bs_cache := qc'\<rparr>)"
    unfolding f .
  show "successful (fst (sequentialBulk decode cfg envs t0 t1 qc operation field table items options)) =
           length (okIndices cfg envs ?n (length items))"
    unfolding r by (simp add: bulkResult_def succOf_chunk [OF gs(1)])
  show "failed (fst (sequentialBulk decode cfg envs t0 t1 qc operation field table items options)) =
           length (failedIndices cfg envs ?n (length items))"
    unfolding r by (simp add: bulkResult_def failOf_chunk [OF gs(1)])
  show "errorList (fst (sequentialBulk decode cfg envs t0 t1 qc operation field table items options)) =
           numbered (expectedErrors cfg envs ?n (length items))"
    unfolding r bulkResult_errorList by (simp add: errsOf_chunk [OF gs(1)])
qed

text \<open>
  The loop of the parallel variants for a batch size and a step that are natural numbers:
  it ends, and the counters do not depend on the order in which the requests settle.
\<close>

lemma waves_result:
  assumes w: "\<And>body. generateCacheKey operation body = []"
    and p: "\<And>xs. mset (settle xs) = mset xs"
    and c: "0 < c"
  shows "\<exists>order st. mset order = mset (zip [0 ..< length batches] batches) \<and>
     waves cfg envs settle operation table options (of_nat n) (of_nat c) batches 0
         \<lparr>bs_successful = 0, bs_failed = 0, bs_errors = [], bs_cache = qc\<rparr> = Some st \<and>
     bulkResult t0 t1 st =
       \<lparr>successful = succOf cfg envs order, failed = failOf cfg envs order,
        errors = (if errsOf cfg envs n order = [] then None else Some (numbered (errsOf cfg envs n order))),
        bulkTime = t1 - t0\<rparr> \<and>
     bs_cache st = qc"
proof -
  let ?st0 = "\<lparr>bs_successful = 0, bs_failed = 0, bs_errors = [], bs_cache = qc\<rparr>"
  obtain order where o: "mset order = mset (zip [0 ..< length batches] (drop 0 batches))"
    and e: "waves cfg envs settle operation table options (of_nat n) (of_nat c) batches (of_nat 0) ?st0 =
       Some (?st0\<lparr>bs_successful := bs_successful ?st0 + succOf cfg envs order,
          bs_failed := bs_failed ?st0 + failOf cfg envs order,
          bs_errors := bs_errors ?st0 @ numbered (errsOf cfg envs n order)\<rparr>)"
    using waves_write [OF w p c, of 0 batches cfg envs table options n ?st0] by blast
  have ne: "(numbered es = []) = (es = [])" for es by (simp add: numbered_def)
  show ?thesis
    using o e
    by (intro exI [of _ order] exI [of _ "?st0\<lparr>bs_successful := bs_successful ?st0 + succOf cfg envs order,
          bs_failed := bs_failed ?st0 + failOf cfg envs order,
          bs_errors := bs_errors ?st0 @ numbered (errsOf cfg envs n order)\<rparr>"])
       (simp add: bulkResult_def ne)
qed

lemma errsOf_perm:
  "mset xs = mset ys \<Longrightarrow> mset (errsOf cfg envs n xs) = mset (errsOf cfg envs n ys)"
  unfolding errsOf_def mset_concat
  by (metis (no_types, lifting) mset_map sum_mset_sum_list)

lemma numbered_perm: "mset xs = mset ys \<Longrightarrow> mset (numbered xs) = mset (numbered ys)"
  by (simp add: numbered_def)

lemma errorList_numbered:
  "errorList \<lparr>successful = s, failed = f,
      errors = (if es = [] then None else Some (numbered es)), bulkTime = t\<rparr> = numbered es"
  by (simp add: errorList_def)

lemma parallel_result:
  fixes cfg :: config and envs :: "nat \<Rightarrow> call_env" and qc :: cache and t0 t1 :: int
    and items :: "json list" and table :: string and options :: "'a bulk_options_scheme"
  assumes w: "\<And>body. generateCacheKey operation body = []"
    and p: "\<And>xs. mset (settle xs) = mset xs"
    and nat: "naturalNumber (batchSizeOf options)"
    and c: "naturalNumber (concurrencyOf cfg options)"
  shows "\<exists>st. waves cfg envs settle operation table options (batchSizeOf options)
            (concurrencyOf cfg options) (chunk items (batchSizeOf options)) 0
            \<lparr>bs_successful = 0, bs_failed = 0, bs_errors = [], bs_cache = qc\<rparr> = Some st \<and>
          bs_cache st = qc \<and>
          successful (bulkResult t0 t1 st) = length (okIndices cfg envs (groupSize options) (length items)) \<and>
          failed (bulkResult t0 t1 st) = length (failedIndices cfg envs (groupSize options) (length items)) \<and>
          mset (errorList (bulkResult t0 t1 st)) =
            mset (numbered (expectedErrors cfg envs (groupSize options) (length items))) \<and>
          ((\<forall>i. i \<noteq> g \<longrightarrow> groupError cfg envs i = None) \<longrightarrow>
             errorList (bulkResult t0 t1 st) =
               numbered (expectedErrors cfg envs (groupSize options) (length items)))"
proof -
  let ?n = "groupSize options"
  note gs = groupSize_natural [OF nat]
  let ?c = "nat \<lfloor>concurrencyOf cfg options\<rfloor>"
  have ce: "concurrencyOf cfg options = of_nat ?c" by (rule naturalNumber_of_nat [OF c])
  have "concurrencyOf cfg options \<noteq> 0"
    unfolding concurrencyOf_def by (intro num_or_nonzero) simp
  with ce have cpos: "0 < ?c" by (cases ?c) auto
  let ?all = "zip [0 ..< length (chunkNat items ?n)] (chunkNat items ?n)"
  obtain order st where o: "mset order = mset ?all"
    and ws: "waves cfg envs settle operation table options (of_nat ?n) (of_nat ?c) (chunkNat items ?n) 0
         \<lparr>bs_successful = 0, bs_failed = 0, bs_errors = [], bs_cache = qc\<rparr> = Some st"
    and e: "bulkResult t0 t1 st = \<lparr>successful = succOf cfg envs order, failed = failOf cfg envs order,
        errors = (if errsOf cfg envs ?n order = [] then None else Some (numbered (errsOf cfg envs ?n order))),
        bulkTime = t1 - t0\<rparr>"
    and qc: "bs_cache st = qc"
    using waves_result [OF w p cpos, of "chunkNat items ?n" cfg envs table options ?n qc t0 t1] by blast
  have ws': "waves cfg envs settle operation table options (batchSizeOf options)
            (concurrencyOf cfg options) (chunk items (batchSizeOf options)) 0
            \<lparr>bs_successful = 0, bs_failed = 0, bs_errors = [], bs_cache = qc\<rparr> = Some st"
    unfolding gs(3) using ws by (simp only: gs(2) [symmetric] ce [symmetric])
  have s: "successful (bulkResult t0 t1 st) = length (okIndices cfg envs ?n (length items))"
    using succOf_perm [OF o] by (simp add: e succOf_chunk [OF gs(1)])
  have f: "failed (bulkResult t0 t1 st) = length (failedIndices cfg envs ?n (length items))"
    using failOf_perm [OF o] by (simp add: e failOf_chunk [OF gs(1)])
  have el: "errorList (bulkResult t0 t1 st) = numbered (errsOf cfg envs ?n order)"
    unfolding e by (rule errorList_numbered)
  have m: "mset (errorList (bulkResult t0 t1 st)) =
           mset (numbered (expectedErrors cfg envs ?n (length items)))"
    unfolding el using numbered_perm [OF errsOf_perm [OF o]] by (simp add: errsOf_chunk [OF gs(1)])
  have single: "errorList (bulkResult t0 t1 st) = numbered (expectedErrors cfg envs ?n (length items))"
    if g: "\<forall>i. i \<noteq> g \<longrightarrow> groupError cfg envs i = None"
  proof -
    have d: "distinct (map fst ?all)" by simp
    have "errsOf cfg envs ?n order = errsOf cfg envs ?n ?all"
      using o d by (rule errsOf_single_group [where g = g]) (use g in simp)
    then show ?thesis
      unfolding el by (simp add: errsOf_chunk [OF gs(1)])
  qed
  show ?thesis
    using ws' qc s f m single by (intro exI [of _ st]) blast
qed

subsection \<open>Partial failure\<close>

lemma groupSize_example: "batchSize options = Some 1000 \<Longrightarrow> groupSize options = 1000"
  by (simp add: groupSize_def batchSizeOf_def)

text \<open>
  Claim C8, as the code has it. The batch size \<^verbatim>\<open>options.batchSize || 1000\<close> is taken
  to be a natural number and, for the parallel variants, so is the step
  \<^verbatim>\<open>options.concurrency || poolSize || 10\<close>. \<^verbatim>\<open>insertMany\<close>, \<^verbatim>\<open>updateMany\<close> and
  \<^verbatim>\<open>deleteMany\<close> return a result (each group's request sits in a \<^verbatim>\<open>try\<close> whose
  \<^verbatim>\<open>catch\<close> records the failure): \<^verbatim>\<open>successful\<close> counts the records whose group
  succeeded, \<^verbatim>\<open>failed\<close> those whose group failed, and \<^verbatim>\<open>errors\<close> lists, in input
  order, each record of a failed group with its index in the input and the message of its
  group. \<^verbatim>\<open>insertManyParallel\<close> and \<^verbatim>\<open>upsertMany\<close> return a result as well,
  whatever the order in which the requests of a wave settle, with the same counts, the
  same errors up to their order, and the same list when a single group fails. The two
  counts add up to the number of input records. With 2500 records in groups of 1000, the
  second group failing and the others succeeding: 1500 successful, 1000 failed, and the
  errors are those of the indices 1000 to 1999.
\<close>

theorem bulk_partial_failure:
  fixes options :: "'a bulk_options_scheme"
  assumes "\<forall>xs. mset (settle xs) = mset xs" and "naturalNumber (batchSizeOf options)"
  shows
    "((rs = fst (insertMany decode cfg envs t0 t1 qc table records options) \<or>
       rs = fst (updateMany decode cfg envs t0 t1 qc table records options) \<or>
       rs = fst (deleteMany decode cfg envs t0 t1 qc table records options)) \<longrightarrow>
        successful rs = length (okIndices cfg envs (groupSize options) (length records)) \<and>
        failed rs = length (failedIndices cfg envs (groupSize options) (length records)) \<and>
        errorList rs = numbered (expectedErrors cfg envs (groupSize options) (length records))) \<and>
     (naturalNumber (concurrencyOf cfg options) \<longrightarrow>
        (\<exists>rp qc'. insertManyParallel cfg envs settle t0 t1 qc table records options = Some (rp, qc')) \<and>
        (\<exists>rp qc'. upsertMany decode cfg envs settle t0 t1 qc table records options = Some (rp, qc')) \<and>
        (\<forall>rp qc'.
           insertManyParallel cfg envs settle t0 t1 qc table records options = Some (rp, qc') \<or>
           upsertMany decode cfg envs settle t0 t1 qc table records options = Some (rp, qc') \<longrightarrow>
             successful rp = length (okIndices cfg envs (groupSize options) (length records)) \<and>
             failed rp = length (failedIndices cfg envs (groupSize options) (length records)) \<and>
             mset (errorList rp) =
               mset (numbered (expectedErrors cfg envs (groupSize options) (length records))) \<and>
             ((\<forall>i. i \<noteq> g \<longrightarrow> groupError cfg envs i = None) \<longrightarrow>
                errorList rp = numbered (expectedErrors cfg envs (groupSize options) (length records))))) \<and>
     length (okIndices cfg envs (groupSize options) (length records)) +
       length (failedIndices cfg envs (groupSize options) (length records)) =
       length records \<and>
     expectedErrors cfg envs (groupSize options) (length records) =
       map (\<lambda>j. (j, the (groupError cfg envs (j div groupSize options))))
         (failedIndices cfg envs (groupSize options) (length records)) \<and>
     (length records = 2500 \<and> batchSize options = Some 1000 \<and> groupError cfg envs 1 = Some m \<and>
      (\<forall>i. i \<noteq> 1 \<longrightarrow> groupError cfg envs i = None) \<longrightarrow>
        length (okIndices cfg envs (groupSize options) (length records)) = 1500 \<and>
        length (failedIndices cfg envs (groupSize options) (length records)) = 1000 \<and>
        expectedErrors cfg envs (groupSize options) (length records) =
          map (\<lambda>j. (j, m)) [1000 ..< 2000])"
proof -
  let ?n = "groupSize options"
  let ?ok = "okIndices cfg envs ?n (length records)"
  let ?bad = "failedIndices cfg envs ?n (length records)"
  let ?exp = "expectedErrors cfg envs ?n (length records)"
  have p: "mset (settle xs) = mset xs" for xs using assms(1) by simp
  note nat = assms(2)
  have seq: "successful rs = length ?ok \<and> failed rs = length ?bad \<and> errorList rs = numbered ?exp"
    if "rs = fst (insertMany decode cfg envs t0 t1 qc table records options) \<or>
        rs = fst (updateMany decode cfg envs t0 t1 qc table records options) \<or>
        rs = fst (deleteMany decode cfg envs t0 t1 qc table records options)"
    using that
    by (auto simp: insertMany_def updateMany_def deleteMany_def
        sequentialBulk_result [OF write_ops_not_cacheable(1) nat]
        sequentialBulk_result [OF write_ops_not_cacheable(2) nat]
        sequentialBulk_result [OF write_ops_not_cacheable(4) nat])
  have par: "(\<exists>rp qc'. insertManyParallel cfg envs settle t0 t1 qc table records options = Some (rp, qc')) \<and>
        (\<exists>rp qc'. upsertMany decode cfg envs settle t0 t1 qc table records options = Some (rp, qc')) \<and>
        (\<forall>rp qc'.
           insertManyParallel cfg envs settle t0 t1 qc table records options = Some (rp, qc') \<or>
           upsertMany decode cfg envs settle t0 t1 qc table records options = Some (rp, qc') \<longrightarrow>
             successful rp = length ?ok \<and> failed rp = length ?bad \<and>
             mset (errorList rp) = mset (numbered ?exp) \<and>
             ((\<forall>i. i \<noteq> g \<longrightarrow> groupError cfg envs i = None) \<longrightarrow> errorList rp = numbered ?exp))"
    if c: "naturalNumber (concurrencyOf cfg options)"
  proof -
    let ?st0 = "\<lparr>bs_successful = 0, bs_failed = 0, bs_errors = [], bs_cache = qc\<rparr>"
    obtain sti where i1: "waves cfg envs settle ''insert'' table options (batchSizeOf options)
            (concurrencyOf cfg options) (chunk records (batchSizeOf options)) 0 ?st0 = Some sti"
      and i2: "successful (bulkResult t0 t1 sti) = length ?ok \<and> failed (bulkResult t0 t1 sti) = length ?bad \<and>
          mset (errorList (bulkResult t0 t1 sti)) = mset (numbered ?exp) \<and>
          ((\<forall>i. i \<noteq> g \<longrightarrow> groupError cfg envs i = None) \<longrightarrow> errorList (bulkResult t0 t1 sti) = numbered ?exp)"
      using parallel_result [OF write_ops_not_cacheable(1) p nat c, of envs table records qc t0 t1 g]
      by blast
    obtain stu where u1: "waves cfg envs settle ''upsert'' table options (batchSizeOf options)
            (concurrencyOf cfg options) (chunk records (batchSizeOf options)) 0 ?st0 = Some stu"
      and u2: "successful (bulkResult t0 t1 stu) = length ?ok \<and> failed (bulkResult t0 t1 stu) = length ?bad \<and>
          mset (errorList (bulkResult t0 t1 stu)) = mset (numbered ?exp) \<and>
          ((\<forall>i. i \<noteq> g \<longrightarrow> groupError cfg envs i = None) \<longrightarrow> errorList (bulkResult t0 t1 stu) = numbered ?exp)"
      using parallel_result [OF write_ops_not_cacheable(3) p nat c, of envs table records qc t0 t1 g]
      by blast
    have I: "insertManyParallel cfg envs settle t0 t1 qc table records options =
             Some (bulkResult t0 t1 sti, bs_cache sti)"
      by (simp add: insertManyParallel_def Let_def i1)
    have U: "upsertMany decode cfg envs settle t0 t1 qc table records options =
             Some (bulkResult t0 t1 stu, invalidateTableCache decode cfg (bs_cache stu) table
                              (Some (writeSchema cfg (hashAttribute options))))"
      by (simp add: upsertMany_def Let_def u1)
    show ?thesis
      unfolding I U using i2 u2 by auto
  qed
  have tot: "length ?ok + length ?bad = length records"
    by (rule indices_total)
  have alt: "?exp = map (\<lambda>j. (j, the (groupError cfg envs (j div ?n)))) ?bad"
    by (rule expectedErrors_alt)
  have ex: "length ?ok = 1500 \<and> length ?bad = 1000 \<and> ?exp = map (\<lambda>j. (j, m)) [1000 ..< 2000]"
    if h: "length records = 2500 \<and> batchSize options = Some 1000 \<and> groupError cfg envs 1 = Some m \<and>
       (\<forall>i. i \<noteq> 1 \<longrightarrow> groupError cfg envs i = None)"
  proof -
    from h have n: "?n = 1000" and l: "length records = 2500"
      and g1: "groupError cfg envs 1 = Some m" and g2: "\<And>i. i \<noteq> 1 \<Longrightarrow> groupError cfg envs i = None"
      by (simp_all add: groupSize_example)
    have pos: "0 < (1000::nat)" by simp
    have "failedIndices cfg envs 1000 2500 = [min (1 * 1000) 2500 ..< min (1 * 1000 + 1000) 2500]"
      by (rule failedIndices_one_group [OF g1 _ pos]) (rule g2)
    then have bad: "failedIndices cfg envs 1000 2500 = [1000 ..< 2000]"
      by (simp only: second_group_range)
    have "expectedErrors cfg envs 1000 2500 =
          map (\<lambda>j. (j, m)) [min (1 * 1000) 2500 ..< min (1 * 1000 + 1000) 2500]"
      by (rule expectedErrors_one_group [OF g1 _ pos]) (rule g2)
    then have exp: "expectedErrors cfg envs 1000 2500 = map (\<lambda>j. (j, m)) [1000 ..< 2000]"
      by (simp only: second_group_range)
    have lb: "length (failedIndices cfg envs 1000 2500) = 1000"
      by (simp add: bad del: upt_rec_numeral)
    have "length (okIndices cfg envs 1000 2500) + length (failedIndices cfg envs 1000 2500) = 2500"
      by (rule indices_total)
    with lb have lo: "length (okIndices cfg envs 1000 2500) = 1500" by simp
    show ?thesis
      unfolding n l using lo lb exp by blast
  qed
  show ?thesis
    using seq par tot alt ex by blast
qed

text \<open>
  2500 records in groups of 1000, the request of the second group always answered with a
  503: \<^verbatim>\<open>insertMany\<close>, and \<^verbatim>\<open>insertManyParallel\<close> in waves of two groups whose
  requests settle in reverse order, both report 1500 successful and 1000 failed records
  and the errors of the indices 1000 to 1999.
\<close>

theorem bulk_partial_failure_witness:
  "successful (fst (insertMany ex_decode ex_config ex_envs 0 9 [] ''t'' (replicate 2500 JNull) ex_bulk_options)) = 1500 \<and>
   failed (fst (insertMany ex_decode ex_config ex_envs 0 9 [] ''t'' (replicate 2500 JNull) ex_bulk_options)) = 1000 \<and>
   errorList (fst (insertMany ex_decode ex_config ex_envs 0 9 [] ''t'' (replicate 2500 JNull) ex_bulk_options)) =
     numbered (map (\<lambda>j. (j, ''HarperDB query failed: Request failed with status code 503'')) [1000 ..< 2000]) \<and>
   (\<exists>rp qc'. insertManyParallel ex_config ex_envs rev 0 9 [] ''t'' (replicate 2500 JNull) ex_bulk_options =
        Some (rp, qc') \<and>
      successful rp = 1500 \<and> failed rp = 1000 \<and>
      errorList rp =
        numbered (map (\<lambda>j. (j, ''HarperDB query failed: Request failed with status code 503'')) [1000 ..< 2000]))"
proof -
  let ?m = "''HarperDB query failed: Request failed with status code 503''"
  let ?rs = "fst (insertMany ex_decode ex_config ex_envs 0 9 [] ''t'' (replicate 2500 JNull) ex_bulk_options)"
  have settle: "\<forall>xs :: (nat \<times> json list) list. mset (rev xs) = mset xs" by simp
  have len: "length (replicate 2500 JNull) = 2500" by simp
  have bs: "batchSize ex_bulk_options = Some 1000" by (simp add: ex_bulk_options_def)
  have nat: "naturalNumber (batchSizeOf ex_bulk_options)"
    by (simp add: naturalNumber_def batchSizeOf_def ex_bulk_options_def)
  have conc: "naturalNumber (concurrencyOf ex_config ex_bulk_options)"
    by (simp add: naturalNumber_def concurrencyOf_def ex_bulk_options_def)
  have g1: "groupError ex_config ex_envs 1 = Some ?m"
    by (simp add: groupError_def ex_envs_def request_constant_failure errorMessage_def ex_err503_def)
  have g2: "\<forall>i. i \<noteq> 1 \<longrightarrow> groupError ex_config ex_envs i = None"
    by (simp add: groupError_def ex_envs_def request_immediate_success)
  note T = bulk_partial_failure [OF settle nat, where rs = ?rs and decode = ex_decode
      and cfg = ex_config and envs = ex_envs and ?t0.0 = 0 and ?t1.0 = 9 and qc = "[]" and table = "''t''"
      and records = "replicate 2500 JNull" and g = 1 and m = ?m]
  let ?n = "groupSize ex_bulk_options"
  let ?l = "length (replicate 2500 JNull)"
  let ?exp = "expectedErrors ex_config ex_envs ?n ?l"
  have ex: "length (okIndices ex_config ex_envs ?n ?l) = 1500 \<and>
            length (failedIndices ex_config ex_envs ?n ?l) = 1000 \<and>
            ?exp = map (\<lambda>j. (j, ?m)) [1000 ..< 2000]"
    using T len bs g1 g2 by blast
  have seq: "successful ?rs = length (okIndices ex_config ex_envs ?n ?l) \<and>
             failed ?rs = length (failedIndices ex_config ex_envs ?n ?l) \<and> errorList ?rs = numbered ?exp"
    using T by blast
  from T conc obtain rp qc' where
    r: "insertManyParallel ex_config ex_envs rev 0 9 [] ''t'' (replicate 2500 JNull) ex_bulk_options =
        Some (rp, qc')"
    by blast
  with T conc g2 have par: "successful rp = length (okIndices ex_config ex_envs ?n ?l) \<and>
             failed rp = length (failedIndices ex_config ex_envs ?n ?l) \<and> errorList rp = numbered ?exp"
    by blast
  have "\<exists>rp qc'. insertManyParallel ex_config ex_envs rev 0 9 [] ''t'' (replicate 2500 JNull) ex_bulk_options =
        Some (rp, qc') \<and>
      successful rp = 1500 \<and> failed rp = 1000 \<and> errorList rp = numbered (map (\<lambda>j. (j, ?m)) [1000 ..< 2000])"
    using r par ex by (intro exI [of _ rp] exI [of _ qc']) (simp only: simp_thms)
  then show ?thesis
    using ex seq by (simp only: simp_thms)
qed

text \<open>
  Claim C8 as it is worded fails for a batch size or a concurrency that is not a natural
  number. With the batch size \<open>-1\<close> there is no group: of three records none is
  counted, as successful or as failed. With the concurrency \<open>-1\<close> the loop over the
  waves does not end, and \<^verbatim>\<open>insertManyParallel\<close> returns no result. With the batch
  size \<open>3/2\<close> the groups have one record each, and the record of the second group,
  which fails, is reported with the index \<open>3/2\<close>, which is not its index 1 in the
  input.
\<close>

theorem bulk_sizes_counterexample:
  "insertMany ex_decode ex_config ex_envs 0 9 [] ''t'' [JNull, JNull, JNull]
     (ex_bulk_options\<lparr>batchSize := Some (- 1)\<rparr>) =
     (\<lparr>successful = 0, failed = 0, errors = None, bulkTime = 9\<rparr>, []) \<and>
   insertManyParallel ex_config ex_envs id 0 9 [] ''t'' [JNull]
     (ex_bulk_options\<lparr>concurrency := Some (- 1)\<rparr>) = None \<and>
   fst (insertMany ex_decode ex_config ex_envs 0 9 [] ''t'' [JNull, JNull]
     (ex_bulk_options\<lparr>batchSize := Some (3 / 2)\<rparr>)) =
     \<lparr>successful = 1, failed = 1,
      errors = Some [(3 / 2, ''HarperDB query failed: Request failed with status code 503'')],
      bulkTime = 9\<rparr>"
proof (intro conjI)
  have "chunk [JNull, JNull, JNull] (batchSizeOf (ex_bulk_options\<lparr>batchSize := Some (- 1)\<rparr>)) = []"
    by (simp add: chunk_def batchSizeOf_def toInteger_def chunkNat.simps)
  then show "insertMany ex_decode ex_config ex_envs 0 9 [] ''t'' [JNull, JNull, JNull]
     (ex_bulk_options\<lparr>batchSize := Some (- 1)\<rparr>) =
     (\<lparr>successful = 0, failed = 0, errors = None, bulkTime = 9\<rparr>, [])"
    by (simp add: insertMany_def sequentialBulk_def Let_def bulkResult_def)
next
  let ?o = "ex_bulk_options\<lparr>concurrency := Some (- 1)\<rparr>"
  have c: "concurrencyOf ex_config ?o < 0"
    by (simp add: concurrencyOf_def)
  have b: "chunk [JNull] (batchSizeOf ?o) = [[JNull]]"
    by (simp add: chunk_def batchSizeOf_def ex_bulk_options_def toInteger_def chunkNat.simps [of "[JNull]"])
  have "waves ex_config ex_envs id ''insert'' ''t'' ?o (batchSizeOf ?o) (concurrencyOf ex_config ?o)
          [[JNull]] 0 st = None" for st
    by (rule waves_diverge [OF c]) simp
  then show "insertManyParallel ex_config ex_envs id 0 9 [] ''t'' [JNull] ?o = None"
    by (simp add: insertManyParallel_def Let_def b)
next
  let ?o = "ex_bulk_options\<lparr>batchSize := Some (3 / 2)\<rparr>"
  have f: "\<lfloor>3 / 2 :: rat\<rfloor> = 1" by (rule floor_unique) simp_all
  have bs: "batchSizeOf ?o = 3 / 2" by (simp add: batchSizeOf_def)
  have b: "chunk [JNull, JNull] (3 / 2) = [[JNull], [JNull]]"
    by (simp add: chunk_def toInteger_def f chunkNat.simps [of "[JNull, JNull]"] chunkNat.simps [of "[JNull]"])
  have up2: "[0 ..< 2] = [0, Suc 0]" by (simp add: upt_rec)
  have r0: "snd (request ex_config (transport (ex_envs 0)) 0) = Inr (JObj [(''message'', JStr ''ok'')])"
    by (simp add: ex_envs_def request_immediate_success)
  have r1: "snd (request ex_config (transport (ex_envs (Suc 0))) 0) = Inl ex_err503"
    by (simp add: ex_envs_def request_constant_failure)
  have m: "errorMessage ex_err503 = ''Request failed with status code 503''"
    by (simp add: errorMessage_def ex_err503_def)
  show "fst (insertMany ex_decode ex_config ex_envs 0 9 [] ''t'' [JNull, JNull] ?o) =
     \<lparr>successful = 1, failed = 1,
      errors = Some [(3 / 2, ''HarperDB query failed: Request failed with status code 503'')],
      bulkTime = 9\<rparr>"
    by (simp add: insertMany_def sequentialBulk_def Let_def bs b up2 sequentialStep_def
        executeQuery_uncached [OF write_ops_not_cacheable(1)] r0 r1 m recordFailure_def bulkResult_def
        invalidateTableCache_def)
qed

subsection \<open>Invalidation after a bulk write\<close>

lemma ex_group_ok: "i \<noteq> 1 \<Longrightarrow> snd (request ex_config (transport (ex_envs i)) 0) = Inr (JObj [(''message'', JStr ''ok'')])"
  by (simp add: ex_envs_def request_immediate_success)

lemma ex_group_fail: "snd (request ex_config (transport (ex_envs 1)) 0) = Inl ex_err503"
  by (simp add: ex_envs_def request_constant_failure)

text \<open>
  Claim C2 at a failing input. The store holds an entry whose key decodes to a request on
  table \<open>orders\<close> of schema \<open>dev\<close>. \<^verbatim>\<open>insertManyParallel\<close> of one record into
  \<open>orders\<close> succeeds and leaves the store as it was: the method never invalidates.
  \<^verbatim>\<open>insertMany\<close> of two records in groups of one, the first group succeeding and the
  last one failing, reports one successful record and leaves the store as it was: the
  invalidation sits behind the request of the last group. \<^verbatim>\<open>upsertMany\<close> of the same
  record, the sibling of \<^verbatim>\<open>insertManyParallel\<close>, removes the entries of \<open>orders\<close>.
\<close>

theorem bulk_invalidation_missing:
  "map_option (\<lambda>p. successful (fst p)) (insertManyParallel ex_config ex_envs id 0 9 ex_cache ''orders''
      [JObj [(''id'', JStr ''1'')]] ex_bulk_options) = Some 1 \<and>
   map_option snd (insertManyParallel ex_config ex_envs id 0 9 ex_cache ''orders''
      [JObj [(''id'', JStr ''1'')]] ex_bulk_options) = Some ex_cache \<and>
   successful (fst (insertMany ex_decode ex_config ex_envs 0 9 ex_cache ''orders''
      [JObj [(''id'', JStr ''1'')], JObj [(''id'', JStr ''2'')]] ex_bulk_options1)) = 1 \<and>
   snd (insertMany ex_decode ex_config ex_envs 0 9 ex_cache ''orders''
      [JObj [(''id'', JStr ''1'')], JObj [(''id'', JStr ''2'')]] ex_bulk_options1) = ex_cache \<and>
   keyMatches ex_decode ''orders'' ''dev'' ''k-orders-dev'' \<and>
   map_of ex_cache ''k-orders-dev'' = Some ex_entry \<and>
   map_option snd (upsertMany ex_decode ex_config ex_envs id 0 9 ex_cache ''orders''
      [JObj [(''id'', JStr ''1'')]] ex_bulk_options) =
     Some [(''k-users-dev'', ex_entry), (''k-malformed'', ex_entry), (''k-null'', ex_entry),
           (''k-orders-prod'', ex_entry)]"
proof -
  have ch1: "chunk [x] 1000 = [[x]]" for x :: json
    by (simp add: chunk_def chunkNat.simps [of "[x]"])
  have ch2: "chunk [x, y] 1 = [[x], [y]]" for x y :: json
    by (simp add: chunk_def chunkNat.simps [of "[x, y]"] chunkNat.simps [of "[y]"])
  have up2: "[0 ..< 2] = [0, Suc 0]" by (simp add: upt_rec)
  have b: "batchSizeOf ex_bulk_options = 1000" "batchSizeOf ex_bulk_options1 = 1"
    by (simp_all add: batchSizeOf_def ex_bulk_options_def ex_bulk_options1_def)
  have c: "concurrencyOf ex_config ex_bulk_options = 2"
    by (simp add: concurrencyOf_def ex_bulk_options_def)
  have ws1: "waveStep ex_config ex_envs id operation ''orders'' ex_bulk_options 1000 2 [[x]] 0 st =
            parallelStep ex_config ex_envs operation ''orders'' ex_bulk_options 1000 0 0 st (0, [x])"
    for x operation st
    using waveStep_of_nat [of 0 "[[x]]" ex_config ex_envs id operation "''orders''" ex_bulk_options 1000 2 st]
    by simp
  have w1: "waves ex_config ex_envs id operation ''orders'' ex_bulk_options 1000 2 [[x]] 0 st =
            Some (parallelStep ex_config ex_envs operation ''orders'' ex_bulk_options 1000 0 0 st (0, [x]))"
    for x operation st
    by (subst waves.simps, simp add: ws1, subst waves.simps, simp)
  have P: "parallelStep ex_config ex_envs ''insert'' ''orders'' ex_bulk_options 1000 0 0 st (0, [x]) =
           st\<lparr>bs_successful := bs_successful st + 1\<rparr>" for st x
    by (simp add: parallelStep_def executeQuery_uncached [OF write_ops_not_cacheable(1)] ex_group_ok)
  have U: "parallelStep ex_config ex_envs ''upsert'' ''orders'' ex_bulk_options 1000 0 0 st (0, [x]) =
           st\<lparr>bs_successful := bs_successful st + 1\<rparr>" for st x
    by (simp add: parallelStep_def executeQuery_uncached [OF write_ops_not_cacheable(3)] ex_group_ok)
  have ws: "writeSchema ex_config (hashAttribute ex_bulk_options) = ''dev''"
    by (simp add: writeSchema_def getSchema_def ex_config_def ex_bulk_options_def)
  have inv: "invalidateTableCache ex_decode ex_config ex_cache ''orders'' (Some ''dev'') =
     [(''k-users-dev'', ex_entry), (''k-malformed'', ex_entry), (''k-null'', ex_entry),
      (''k-orders-prod'', ex_entry)]"
    by (simp add: invalidate_filter ex_cache_def keyMatches_def decodedBody_def bodyMatches_def
        ex_decode_def schemaNameOf_def)
  have S0: "sequentialStep ex_decode ex_config ex_envs ''insert'' ''records'' ''orders'' ex_bulk_options1 1 (Suc (Suc 0)) st (0, [x]) =
            st\<lparr>bs_successful := bs_successful st + 1\<rparr>" for st x
    by (simp add: sequentialStep_def executeQuery_uncached [OF write_ops_not_cacheable(1)] ex_group_ok)
  have S1: "sequentialStep ex_decode ex_config ex_envs ''insert'' ''records'' ''orders'' ex_bulk_options1 1 (Suc (Suc 0)) st (Suc 0, [x]) =
            recordFailure 1 [x] (''HarperDB query failed: '' @ errorMessage ex_err503) st" for st x
    using ex_group_fail
    by (simp add: sequentialStep_def executeQuery_uncached [OF write_ops_not_cacheable(1)])
  show ?thesis
    apply (intro conjI)
          apply (simp add: insertManyParallel_def b c ch1 w1 P bulkResult_def)
         apply (simp add: insertManyParallel_def b c ch1 w1 P)
        apply (simp add: insertMany_def sequentialBulk_def b ch2 up2 S0 S1 bulkResult_def recordFailure_def)
       apply (simp add: insertMany_def sequentialBulk_def b ch2 up2 S0 S1 recordFailure_def)
      apply (simp add: keyMatches_def decodedBody_def bodyMatches_def ex_decode_def)
     apply (simp add: ex_cache_def)
    apply (simp add: upsertMany_def b c ch1 w1 U ws inv)
    done
qed

section \<open>Properties of select and of parallel operations\<close>

lemma executeQuery_cache_disabled:
  "\<not> enableCache cfg \<Longrightarrow>
   executeQuery cfg env qc operation body options =
     (case snd (request cfg (transport env) 0) of
        Inl err \<Rightarrow> Inl (''HarperDB query failed: '' @ errorMessage err)
      | Inr rdata \<Rightarrow> Inr \<lparr>message = responseMessage rdata, data = responseData rdata,
                         executionTime = settledAt env - startedAt env, cached = None\<rparr>, qc)"
  by (simp add: executeQuery_def Let_def getCached_def setCache_def split: sum.splits)

text \<open>
  Claim C10. A \<^verbatim>\<open>select\<close> whose options supply neither \<^verbatim>\<open>sql\<close> nor \<^verbatim>\<open>where\<close>
  never throws. When the executor throws, it returns empty data and zero records
  affected; in particular, with caching disabled, whenever the request fails after its
  retries, and the store is left as it was.
\<close>

theorem select_swallows_failure:
  "str_or (sel_sql options) [] = [] \<Longrightarrow> sel_where options = None \<Longrightarrow>
     (\<exists>r. fst (select sortBy cfg env qc table options) = Inr r) \<and>
     (isl (fst (executeQuery cfg env qc ''sql''
                  (JObj [(''sql'', JStr (selectStatement cfg table options))]) options)) \<longrightarrow>
        fst (select sortBy cfg env qc table options) =
          Inr \<lparr>qr_data = JArr [], qr_executionTime = settledAt env - startedAt env,
               qr_recordsAffected = Some 0\<rparr>) \<and>
     (\<not> enableCache cfg \<longrightarrow> isl (snd (request cfg (transport env) 0)) \<longrightarrow>
        select sortBy cfg env qc table options =
          (Inr \<lparr>qr_data = JArr [], qr_executionTime = settledAt env - startedAt env,
                qr_recordsAffected = Some 0\<rparr>, qc))"
proof (intro conjI impI)
  assume a: "str_or (sel_sql options) [] = []" "sel_where options = None"
  obtain res qc' where e: "executeQuery cfg env qc ''sql''
      (JObj [(''sql'', JStr (selectStatement cfg table options))]) options = (res, qc')"
    by (cases "executeQuery cfg env qc ''sql''
      (JObj [(''sql'', JStr (selectStatement cfg table options))]) options")
  show "\<exists>r. fst (select sortBy cfg env qc table options) = Inr r"
    using a e by (cases res) (simp_all add: select_def)
  show "fst (select sortBy cfg env qc table options) =
          Inr \<lparr>qr_data = JArr [], qr_executionTime = settledAt env - startedAt env,
               qr_recordsAffected = Some 0\<rparr>"
    if "isl (fst (executeQuery cfg env qc ''sql''
                  (JObj [(''sql'', JStr (selectStatement cfg table options))]) options))"
    using a e that by (cases res) (simp_all add: select_def)
  show "select sortBy cfg env qc table options =
          (Inr \<lparr>qr_data = JArr [], qr_executionTime = settledAt env - startedAt env,
                qr_recordsAffected = Some 0\<rparr>, qc)"
    if "\<not> enableCache cfg" "isl (snd (request cfg (transport env) 0))"
    using a that
    by (cases "snd (request cfg (transport env) 0)")
      (simp_all add: select_def executeQuery_cache_disabled)
qed

text \<open>
  A select of table \<open>users\<close> with a limit, against a transport that always answers 503:
  an empty result, after the 7000 ms of the call.
\<close>

theorem select_swallows_failure_witness:
  "select (\<lambda>f d xs. xs) (ex_config\<lparr>enableCache := False\<rparr>) ex_env_fail [] ''users'' ex_select_options =
     (Inr \<lparr>qr_data = JArr [], qr_executionTime = 7000, qr_recordsAffected = Some 0\<rparr>, [])"
proof -
  have a: "str_or (sel_sql ex_select_options) [] = []" "sel_where ex_select_options = None"
    by (simp_all add: ex_select_options_def)
  have b: "\<not> enableCache (ex_config\<lparr>enableCache := False\<rparr>)" by simp
  have c: "isl (snd (request (ex_config\<lparr>enableCache := False\<rparr>) (transport ex_env_fail) 0))"
    by (simp add: ex_env_fail_def request_constant_failure)
  have d: "settledAt ex_env_fail - startedAt ex_env_fail = 7000"
    by (simp add: ex_env_fail_def)
  show ?thesis
    using select_swallows_failure [OF a, of "\<lambda>f d xs. xs" "ex_config\<lparr>enableCache := False\<rparr>"
        ex_env_fail "[]" "''users''"] b c d
    by simp
qed

subsection \<open>Failure policy of \<^verbatim>\<open>parallel\<close>\<close>

lemma captured_error: "getProp (captured out) ''error'' = None \<longleftrightarrow> \<not> isl out"
  by (cases out) (simp_all add: captured_def placeholder_def resultValue_def)

lemma count_captured:
  "length (filter (\<lambda>r. getProp r ''error'' = None) (map captured outs)) =
   length (filter (\<lambda>out. \<not> isl out) outs)"
  by (simp add: filter_map comp_def captured_error)

lemma entryData_placeholder: "entryData (placeholder msg) = placeholder msg"
  by (simp add: entryData_def placeholder_def)

lemma entryData_result:
  "entryData (resultValue r) = (if qr_data r = JNull then resultValue r else qr_data r)"
  by (cases "qr_data r") (simp_all add: entryData_def resultValue_def)

lemma outcomes_length: "length (outcomes sortBy decode cfg envs i qc qs) = length qs"
  by (induction qs arbitrary: i qc) simp_all

lemma outcomes_nth:
  "j < length qs \<Longrightarrow>
   \<exists>qc'. outcomes sortBy decode cfg envs i qc qs ! j = fst (dispatch sortBy decode cfg (envs (i + j)) qc' (qs ! j))"
proof (induction qs arbitrary: i qc j)
  case Nil
  then show ?case by simp
next
  case (Cons q qs)
  show ?case
  proof (cases j)
    case 0
    then show ?thesis by (auto intro: exI [of _ qc])
  next
    case (Suc k)
    with Cons.prems have "k < length qs" by simp
    from Cons.IH [OF this, of "Suc i" "started cfg (envs i) qc q"] Suc show ?thesis by simp
  qed
qed

lemma executeQuery_no_cache:
  "\<not> useCacheOf cfg options \<Longrightarrow>
   executeQuery cfg env qc operation body options =
     (case snd (request cfg (transport env) 0) of
        Inl err \<Rightarrow> Inl (''HarperDB query failed: '' @ errorMessage err)
      | Inr rdata \<Rightarrow> Inr \<lparr>message = responseMessage rdata, data = responseData rdata,
                         executionTime = settledAt env - startedAt env, cached = None\<rparr>, qc)"
  by (simp add: executeQuery_def Let_def split: sum.splits)

lemma writeOne_outcome:
  assumes "generateCacheKey operation (writeBody cfg table ''records'' [item] ha) = []"
  shows "fst (writeOne decode cfg env qc operation table item ha options) =
     (case snd (request cfg (transport env) 0) of
        Inl err \<Rightarrow> Inl (''HarperDB query failed: '' @ errorMessage err)
      | Inr rdata \<Rightarrow> Inr \<lparr>qr_data = responseData rdata,
                         qr_executionTime = settledAt env - startedAt env,
                         qr_recordsAffected = Some 1\<rparr>)"
  by (simp add: writeOne_def executeQuery_uncached [OF assms] split: sum.splits)

lemma deleteOne_outcome:
  "fst (deleteOne decode cfg env qc table hashValue ha options) =
     (case snd (request cfg (transport env) 0) of
        Inl err \<Rightarrow> Inl (''HarperDB query failed: '' @ errorMessage err)
      | Inr rdata \<Rightarrow> Inr \<lparr>qr_data = (if truthy (responseData rdata) then responseData rdata
                                     else JObj [(''deleted_hashes'', JArr [hashValue])]),
                         qr_executionTime = settledAt env - startedAt env,
                         qr_recordsAffected = Some 1\<rparr>)"
  by (simp add: deleteOne_def executeQuery_uncached [OF write_ops_not_cacheable(4)] split: sum.splits)

lemma dispatch_write:
  assumes "q_type q \<in> {''insert'', ''update'', ''upsert'', ''delete''}"
  shows "fst (dispatch sortBy decode cfg env qc q) =
     (case snd (request cfg (transport env) 0) of
        Inl err \<Rightarrow> Inl (''HarperDB query failed: '' @ errorMessage err)
      | Inr rdata \<Rightarrow> Inr \<lparr>qr_data = (if q_type q = ''delete'' \<and> \<not> truthy (responseData rdata)
                                     then JObj [(''deleted_hashes'', JArr [q_data q])]
                                     else responseData rdata),
                         qr_executionTime = settledAt env - startedAt env,
                         qr_recordsAffected = Some 1\<rparr>)"
proof -
  consider "q_type q = ''insert''" | "q_type q = ''update''" | "q_type q = ''upsert''" | "q_type q = ''delete''"
    using assms by auto
  then show ?thesis
  proof cases
    case 1
    then show ?thesis
      by (simp add: dispatch_def insertOne_def writeOne_outcome [OF write_ops_not_cacheable(1)]
          split: sum.splits)
  next
    case 2
    then show ?thesis
      by (simp add: dispatch_def updateOne_def writeOne_outcome [OF write_ops_not_cacheable(2)]
          split: sum.splits)
  next
    case 3
    then show ?thesis
      by (simp add: dispatch_def upsertOne_def writeOne_outcome [OF write_ops_not_cacheable(3)]
          split: sum.splits)
  next
    case 4
    then show ?thesis
      by (simp add: dispatch_def deleteOne_outcome split: sum.splits)
  qed
qed

lemma dispatch_sql:
  assumes "q_type q = ''sql''" "\<not> useCacheOf cfg (q_options q)"
  shows "fst (dispatch sortBy decode cfg env qc q) =
     (case snd (request cfg (transport env) 0) of
        Inl err \<Rightarrow> Inl (''HarperDB query failed: '' @ errorMessage err)
      | Inr rdata \<Rightarrow> Inr \<lparr>qr_data = dataOrEmpty (responseData rdata),
                         qr_executionTime = settledAt env - startedAt env,
                         qr_recordsAffected = Some (arrayLength (responseData rdata))\<rparr>)"
  using assms
  by (simp add: dispatch_def sql_def executeQuery_no_cache split: sum.splits)

lemma dispatch_plain_select:
  assumes "q_type q = ''select''" "str_or (sel_sql (q_options q)) [] = []" "sel_where (q_options q) = None"
  shows "\<exists>r. fst (dispatch sortBy decode cfg env qc q) = Inr r"
    and "\<not> useCacheOf cfg (q_options q) \<Longrightarrow> isl (snd (request cfg (transport env) 0)) \<Longrightarrow>
         fst (dispatch sortBy decode cfg env qc q) =
           Inr \<lparr>qr_data = JArr [], qr_executionTime = settledAt env - startedAt env,
                qr_recordsAffected = Some 0\<rparr>"
proof -
  obtain res qc' where e: "executeQuery cfg env qc ''sql''
      (JObj [(''sql'', JStr (selectStatement cfg (q_table q) (q_options q)))]) (q_options q) = (res, qc')"
    by (cases "executeQuery cfg env qc ''sql''
      (JObj [(''sql'', JStr (selectStatement cfg (q_table q) (q_options q)))]) (q_options q)")
  show "\<exists>r. fst (dispatch sortBy decode cfg env qc q) = Inr r"
    using assms e by (cases res) (simp_all add: dispatch_def select_def)
  show "fst (dispatch sortBy decode cfg env qc q) =
           Inr \<lparr>qr_data = JArr [], qr_executionTime = settledAt env - startedAt env,
                qr_recordsAffected = Some 0\<rparr>"
    if "\<not> useCacheOf cfg (q_options q)" "isl (snd (request cfg (transport env) 0))"
    using assms that
    by (cases "snd (request cfg (transport env) 0)")
      (simp_all add: dispatch_def select_def executeQuery_no_cache)
qed

lemma dispatch_unknown:
  "q_type q \<notin> set queryTypes \<Longrightarrow>
   fst (dispatch sortBy decode cfg env qc q) = Inl (''Unknown query type: '' @ q_type q)"
  by (simp add: dispatch_def queryTypes_def)

lemma started_unchanged:
  assumes "\<not> useCacheOf cfg (q_options q) \<or>
           q_type q \<in> {''insert'', ''update'', ''upsert'', ''delete''} \<or> q_type q \<notin> set queryTypes"
  shows "started cfg env qc q = qc"
proof -
  consider "q_type q \<notin> set queryTypes" | "\<not> useCacheOf cfg (q_options q)"
    | "q_type q = ''insert''" | "q_type q = ''update''" | "q_type q = ''upsert''" | "q_type q = ''delete''"
    using assms by auto
  then show ?thesis
  proof cases
    case 1
    then show ?thesis by (simp add: started_def)
  next
    case 2
    then show ?thesis by (simp add: started_def lookupStore_def)
  next
    case 3
    then show ?thesis
      by (simp add: started_def lookupStore_def descRequest_def write_ops_not_cacheable)
  next
    case 4
    then show ?thesis
      by (simp add: started_def lookupStore_def descRequest_def write_ops_not_cacheable)
  next
    case 5
    then show ?thesis
      by (simp add: started_def lookupStore_def descRequest_def write_ops_not_cacheable)
  next
    case 6
    then show ?thesis
      by (simp add: started_def lookupStore_def descRequest_def write_ops_not_cacheable)
  qed
qed

text \<open>
  Claim C9, as the code has it. A failure that \<^verbatim>\<open>parallel\<close> sees is the rejection of
  the call made for a descriptor; \<open>outs\<close> is what the calls settle to, each the
  outcome of the method of its descriptor on some store. (1) With \<^verbatim>\<open>failFast\<close> and at
  least one rejection, \<^verbatim>\<open>parallel\<close> throws the error of the rejection that occurs
  first and returns no result. (2) Without \<^verbatim>\<open>failFast\<close>, or when no call is
  rejected, it returns a result: \<^verbatim>\<open>successful\<close> counts the calls that resolved,
  \<^verbatim>\<open>failed\<close> those that were rejected, there is one entry per descriptor in the order
  of the input, and the entry of a rejected call is the placeholder with its error
  message. (3) Which calls are rejected: that of a descriptor of an unknown type, on the
  spot; that of an \<^verbatim>\<open>insert\<close>, \<^verbatim>\<open>update\<close>, \<^verbatim>\<open>upsert\<close> or \<^verbatim>\<open>delete\<close>
  exactly when its request fails after the retries, with the message of the executor;
  likewise that of an \<^verbatim>\<open>sql\<close> whose options keep the cache out. (4) The call of a
  \<^verbatim>\<open>select\<close> with neither \<^verbatim>\<open>sql\<close> nor \<^verbatim>\<open>where\<close> is never rejected: when its
  request fails it resolves with empty data, is counted as successful, and is not
  thrown under \<^verbatim>\<open>failFast\<close>. (5) The call of a write, of a descriptor of an unknown
  type and of a descriptor whose options keep the cache out leaves the store as it is for
  the calls made after it.
\<close>

theorem parallel_failure_policy:
  "set settleOrder = {0 ..< length queries} \<Longrightarrow>
   outs = outcomes sortBy decode cfg envs 0 qc queries \<Longrightarrow>
   (length outs = length queries \<and>
    (\<forall>i < length queries. \<exists>qc'. outs ! i = fst (dispatch sortBy decode cfg (envs i) qc' (queries ! i)))) \<and>
   (failFast options = Some True \<and> (\<exists>i < length queries. isl (outs ! i)) \<longrightarrow>
      (\<exists>i < length queries. \<exists>msg.
          outs ! i = Inl msg \<and>
          i = hd (filter (\<lambda>i. isl (outs ! i)) settleOrder) \<and>
          parallel sortBy decode cfg envs settleOrder jobStart jobEnd qc queries options = Inl msg)) \<and>
   (failFast options \<noteq> Some True \<or> (\<forall>i < length queries. \<not> isl (outs ! i)) \<longrightarrow>
      (\<exists>r. parallel sortBy decode cfg envs settleOrder jobStart jobEnd qc queries options = Inr r \<and>
           pr_successful r = length (filter (\<lambda>out. \<not> isl out) outs) \<and>
           pr_failed r = length (filter isl outs) \<and>
           pr_successful r + pr_failed r = length queries \<and>
           length (pr_results r) = length queries \<and>
           (\<forall>i < length queries.
              pr_results r ! i =
                (case outs ! i of
                   Inl msg \<Rightarrow> JObj [(''data'', JObj [(''data'', JNull), (''error'', JStr msg)]),
                                     (''metadata'', JObj [(''executionTime'', JNum 0)])]
                 | Inr res \<Rightarrow> resultEntry (resultValue res))))) \<and>
   (q_type q \<notin> set queryTypes \<longrightarrow>
      fst (dispatch sortBy decode cfg env qc' q) = Inl (''Unknown query type: '' @ q_type q)) \<and>
   (q_type q \<in> {''insert'', ''update'', ''upsert'', ''delete''} \<or>
    q_type q = ''sql'' \<and> \<not> useCacheOf cfg (q_options q) \<longrightarrow>
      isl (fst (dispatch sortBy decode cfg env qc' q)) = isl (snd (request cfg (transport env) 0)) \<and>
      (\<forall>err. snd (request cfg (transport env) 0) = Inl err \<longrightarrow>
         fst (dispatch sortBy decode cfg env qc' q) = Inl (''HarperDB query failed: '' @ errorMessage err))) \<and>
   (q_type q = ''select'' \<and> str_or (sel_sql (q_options q)) [] = [] \<and> sel_where (q_options q) = None \<longrightarrow>
      \<not> isl (fst (dispatch sortBy decode cfg env qc' q)) \<and>
      (\<not> useCacheOf cfg (q_options q) \<and> isl (snd (request cfg (transport env) 0)) \<longrightarrow>
         fst (dispatch sortBy decode cfg env qc' q) =
           Inr \<lparr>qr_data = JArr [], qr_executionTime = settledAt env - startedAt env,
                qr_recordsAffected = Some 0\<rparr>)) \<and>
   (\<not> useCacheOf cfg (q_options q) \<or>
    q_type q \<in> {''insert'', ''update'', ''upsert'', ''delete''} \<or> q_type q \<notin> set queryTypes \<longrightarrow>
      started cfg env qc' q = qc')"
proof (intro conjI impI)
  assume so: "set settleOrder = {0 ..< length queries}"
    and outs: "outs = outcomes sortBy decode cfg envs 0 qc queries"
  show len: "length outs = length queries"
    by (simp add: outs outcomes_length)
  show "\<forall>i < length queries. \<exists>qc'. outs ! i = fst (dispatch sortBy decode cfg (envs i) qc' (queries ! i))"
    using outcomes_nth [of _ queries sortBy decode cfg envs 0 qc] by (simp add: outs)
  let ?rej = "filter (\<lambda>i. i < length outs \<and> isl (outs ! i)) settleOrder"
  have rej: "?rej = filter (\<lambda>i. isl (outs ! i)) settleOrder"
    using so len by (intro filter_cong) auto
  have par: "parallel sortBy decode cfg envs settleOrder jobStart jobEnd qc queries options =
     (if failFast options = Some True \<and> ?rej \<noteq> []
      then Inl (projl (outs ! hd ?rej))
      else Inr \<lparr>pr_results = map resultEntry (map captured outs),
                pr_executionTime = jobEnd - jobStart,
                pr_successful = length (filter (\<lambda>r. getProp r ''error'' = None) (map captured outs)),
                pr_failed = length (map captured outs) -
                  length (filter (\<lambda>r. getProp r ''error'' = None) (map captured outs))\<rparr>)"
    unfolding parallel_def outs [symmetric] by (simp only: Let_def)
  {
    assume ff: "failFast options = Some True \<and> (\<exists>i < length queries. isl (outs ! i))"
    then obtain j where j: "j < length queries" "isl (outs ! j)" by blast
    with so len have "j \<in> set ?rej" by simp
    then have ne: "?rej \<noteq> []" by (metis empty_iff empty_set)
    then have "hd ?rej \<in> set ?rej" by (rule hd_in_set)
    then have h: "hd ?rej < length queries" "isl (outs ! hd ?rej)"
      using len by auto
    then obtain msg where m: "outs ! hd ?rej = Inl msg"
      by (cases "outs ! hd ?rej") auto
    have "parallel sortBy decode cfg envs settleOrder jobStart jobEnd qc queries options = Inl msg"
      unfolding par using ff ne m by simp
    with h m rej
    show "\<exists>i < length queries. \<exists>msg.
          outs ! i = Inl msg \<and>
          i = hd (filter (\<lambda>i. isl (outs ! i)) settleOrder) \<and>
          parallel sortBy decode cfg envs settleOrder jobStart jobEnd qc queries options = Inl msg"
      by (intro exI [of _ "hd ?rej"] exI [of _ msg]) simp
  }
  {
    assume nf: "failFast options \<noteq> Some True \<or> (\<forall>i < length queries. \<not> isl (outs ! i))"
    have "failFast options \<noteq> Some True \<or> ?rej = []"
      using nf so len by (auto simp: filter_empty_conv)
    then have p: "parallel sortBy decode cfg envs settleOrder jobStart jobEnd qc queries options =
        Inr \<lparr>pr_results = map resultEntry (map captured outs),
             pr_executionTime = jobEnd - jobStart,
             pr_successful = length (filter (\<lambda>out. \<not> isl out) outs),
             pr_failed = length outs - length (filter (\<lambda>out. \<not> isl out) outs)\<rparr>"
      unfolding par count_captured by auto
    have t: "length (filter (\<lambda>out. \<not> isl out) outs) + length (filter isl outs) = length outs"
      using sum_length_filter_compl [of "\<lambda>out. \<not> isl out" outs] by simp
    have e: "map resultEntry (map captured outs) ! i =
                (case outs ! i of
                   Inl msg \<Rightarrow> JObj [(''data'', JObj [(''data'', JNull), (''error'', JStr msg)]),
                                     (''metadata'', JObj [(''executionTime'', JNum 0)])]
                 | Inr res \<Rightarrow> resultEntry (resultValue res))" if "i < length queries" for i
      using that len
      by (cases "outs ! i")
        (simp_all add: captured_def resultEntry_def entryData_placeholder, simp add: placeholder_def)
    show "\<exists>r. parallel sortBy decode cfg envs settleOrder jobStart jobEnd qc queries options = Inr r \<and>
           pr_successful r = length (filter (\<lambda>out. \<not> isl out) outs) \<and>
           pr_failed r = length (filter isl outs) \<and>
           pr_successful r + pr_failed r = length queries \<and>
           length (pr_results r) = length queries \<and>
           (\<forall>i < length queries.
              pr_results r ! i =
                (case outs ! i of
                   Inl msg \<Rightarrow> JObj [(''data'', JObj [(''data'', JNull), (''error'', JStr msg)]),
                                     (''metadata'', JObj [(''executionTime'', JNum 0)])]
                 | Inr res \<Rightarrow> resultEntry (resultValue res)))"
      unfolding p using t e len by (intro exI [of _ "\<lparr>pr_results = map resultEntry (map captured outs),
             pr_executionTime = jobEnd - jobStart,
             pr_successful = length (filter (\<lambda>out. \<not> isl out) outs),
             pr_failed = length outs - length (filter (\<lambda>out. \<not> isl out) outs)\<rparr>"]) auto
  }
  show "fst (dispatch sortBy decode cfg env qc' q) = Inl (''Unknown query type: '' @ q_type q)"
    if "q_type q \<notin> set queryTypes"
    using that by (rule dispatch_unknown)
  {
    assume w: "q_type q \<in> {''insert'', ''update'', ''upsert'', ''delete''} \<or>
               q_type q = ''sql'' \<and> \<not> useCacheOf cfg (q_options q)"
    have d: "fst (dispatch sortBy decode cfg env qc' q) =
       (case snd (request cfg (transport env) 0) of
          Inl err \<Rightarrow> Inl (''HarperDB query failed: '' @ errorMessage err)
        | Inr rdata \<Rightarrow> Inr (projr (fst (dispatch sortBy decode cfg env qc' q))))"
      using w dispatch_write [of q sortBy decode cfg env qc'] dispatch_sql [of q cfg sortBy decode env qc']
      by (auto split: sum.splits)
    show "isl (fst (dispatch sortBy decode cfg env qc' q)) = isl (snd (request cfg (transport env) 0))"
      by (subst d) (simp split: sum.splits)
    show "\<forall>err. snd (request cfg (transport env) 0) = Inl err \<longrightarrow>
         fst (dispatch sortBy decode cfg env qc' q) = Inl (''HarperDB query failed: '' @ errorMessage err)"
      by (subst d) simp
  }
  {
    assume s: "q_type q = ''select'' \<and> str_or (sel_sql (q_options q)) [] = [] \<and> sel_where (q_options q) = None"
    from s dispatch_plain_select(1) [of q sortBy decode cfg env qc']
    show "\<not> isl (fst (dispatch sortBy decode cfg env qc' q))" by auto
    show "fst (dispatch sortBy decode cfg env qc' q) =
           Inr \<lparr>qr_data = JArr [], qr_executionTime = settledAt env - startedAt env,
                qr_recordsAffected = Some 0\<rparr>"
      if "\<not> useCacheOf cfg (q_options q) \<and> isl (snd (request cfg (transport env) 0))"
      using s that dispatch_plain_select(2) [of q cfg env sortBy decode qc'] by blast
  }
  show "started cfg env qc' q = qc'"
    if "\<not> useCacheOf cfg (q_options q) \<or>
        q_type q \<in> {''insert'', ''update'', ''upsert'', ''delete''} \<or> q_type q \<notin> set queryTypes"
    using that by (rule started_unchanged)
qed

lemma ex_outcomes:
  "outcomes (\<lambda>f d xs. xs) ex_decode ex_config_nocache ex_call_envs 0 [] ex_queries =
     [Inr \<lparr>qr_data = JArr [], qr_executionTime = 3, qr_recordsAffected = Some 0\<rparr>,
      Inl ''HarperDB query failed: Table does not exist'',
      Inr \<lparr>qr_data = JArr [], qr_executionTime = 3, qr_recordsAffected = Some 0\<rparr>]"
proof -
  have nc: "\<not> enableCache ex_config_nocache" by (simp add: ex_config_nocache_def)
  have r: "snd (request ex_config_nocache (transport (ex_call_envs 0)) 0) = Inr (JArr [])"
    "snd (request ex_config_nocache (transport (ex_call_envs (Suc 0))) 0) = Inl ex_err400"
    "snd (request ex_config_nocache (transport (ex_call_envs (Suc (Suc 0)))) 0) = Inr (JArr [])"
    by (simp_all add: ex_call_envs_def request_constant_failure request_immediate_success)
  have t: "settledAt (ex_call_envs i) - startedAt (ex_call_envs i) = 3" for i
    by (simp add: ex_call_envs_def)
  have m: "errorMessage ex_err400 = ''Table does not exist''"
    by (simp add: errorMessage_def ex_err400_def)
  have s: "started ex_config_nocache env qc q = qc" for env qc q
    by (simp add: started_def lookupStore_def useCacheOf_def ex_config_nocache_def
        ex_config_def ex_queries_def ex_select_desc_def ex_desc_options_def Let_def
        split: option.splits)
       (auto simp add: getCached_def)
  show ?thesis
    by (simp add: ex_queries_def ex_select_desc_def ex_desc_options_def s dispatch_def select_def
        sql_def insertOne_def writeOne_def executeQuery_cache_disabled [OF nc] r t m
        responseData_def dataOrEmpty_def arrayLength_def)
qed

text \<open>
  Three operations, the request of the second answered with a 400, settling in the order
  third, first, second, on a client without cache. Without \<^verbatim>\<open>failFast\<close>: two
  successful, one failed, and the second entry is the placeholder with the message. With
  \<^verbatim>\<open>failFast\<close>: the error of the second operation is thrown.
\<close>

theorem parallel_failure_policy_witness:
  "(\<exists>r. parallel (\<lambda>f d xs. xs) ex_decode ex_config_nocache ex_call_envs [2, 0, 1] 0 5 [] ex_queries
          \<lparr>par_concurrency = None, failFast = None\<rparr> = Inr r \<and>
        pr_successful r = 2 \<and> pr_failed r = 1 \<and>
        pr_results r ! 1 =
          JObj [(''data'', JObj [(''data'', JNull),
                                 (''error'', JStr ''HarperDB query failed: Table does not exist'')]),
                (''metadata'', JObj [(''executionTime'', JNum 0)])]) \<and>
   parallel (\<lambda>f d xs. xs) ex_decode ex_config_nocache ex_call_envs [2, 0, 1] 0 5 [] ex_queries
     \<lparr>par_concurrency = None, failFast = Some True\<rparr> =
     Inl ''HarperDB query failed: Table does not exist''"
proof -
  let ?outs = "outcomes (\<lambda>f d xs. xs) ex_decode ex_config_nocache ex_call_envs 0 [] ex_queries"
  have so: "set [2, 0, 1] = {0 ..< length ex_queries}"
    by (auto simp: ex_queries_def)
  have l: "length ex_queries = 3" by (simp add: ex_queries_def)
  have d: "?outs ! 1 = Inl ''HarperDB query failed: Table does not exist''"
    by (simp add: ex_outcomes)
  have f: "length (filter (\<lambda>out. \<not> isl out) ?outs) = 2" "length (filter isl ?outs) = 1"
    by (simp_all add: ex_outcomes)
  have h: "hd (filter (\<lambda>i. isl (?outs ! i)) [2, 0, 1]) = 1"
    by (simp add: ex_outcomes)
  note A = parallel_failure_policy [OF so refl,
      where options = "\<lparr>par_concurrency = None, failFast = None\<rparr>" and jobStart = 0 and jobEnd = 5]
  note B = parallel_failure_policy [OF so refl,
      where options = "\<lparr>par_concurrency = None, failFast = Some True\<rparr>" and jobStart = 0 and jobEnd = 5]
  have nf: "failFast \<lparr>par_concurrency = None, failFast = None\<rparr> \<noteq> Some True \<or>
      (\<forall>i < length ex_queries. \<not> isl (?outs ! i))"
    by simp
  from A [THEN conjunct2, THEN conjunct2, THEN conjunct1, rule_format, OF nf]
  obtain r where r: "parallel (\<lambda>f d xs. xs) ex_decode ex_config_nocache ex_call_envs [2, 0, 1] 0 5 [] ex_queries
          \<lparr>par_concurrency = None, failFast = None\<rparr> = Inr r"
    "pr_successful r = length (filter (\<lambda>out. \<not> isl out) ?outs)"
    "pr_failed r = length (filter isl ?outs)"
    "\<forall>i < length ex_queries. pr_results r ! i =
                (case ?outs ! i of
                   Inl msg \<Rightarrow> JObj [(''data'', JObj [(''data'', JNull), (''error'', JStr msg)]),
                                     (''metadata'', JObj [(''executionTime'', JNum 0)])]
                 | Inr res \<Rightarrow> resultEntry (resultValue res))"
    by blast
  have "1 < length ex_queries" using l by simp
  from r(4) [rule_format, OF this] have e: "pr_results r ! 1 =
          JObj [(''data'', JObj [(''data'', JNull),
                                 (''error'', JStr ''HarperDB query failed: Table does not exist'')]),
                (''metadata'', JObj [(''executionTime'', JNum 0)])]"
    unfolding d by simp
  have p1: "\<exists>r. parallel (\<lambda>f d xs. xs) ex_decode ex_config_nocache ex_call_envs [2, 0, 1] 0 5 [] ex_queries
          \<lparr>par_concurrency = None, failFast = None\<rparr> = Inr r \<and>
        pr_successful r = 2 \<and> pr_failed r = 1 \<and>
        pr_results r ! 1 =
          JObj [(''data'', JObj [(''data'', JNull),
                                 (''error'', JStr ''HarperDB query failed: Table does not exist'')]),
                (''metadata'', JObj [(''executionTime'', JNum 0)])]"
    using r(1,2,3) e unfolding f by (intro exI [of _ r]) simp
  have "\<exists>i < length ex_queries. isl (?outs ! i)"
    using d l by (intro exI [of _ 1]) simp
  then have ff: "failFast \<lparr>par_concurrency = None, failFast = Some True\<rparr> = Some True \<and>
      (\<exists>i < length ex_queries. isl (?outs ! i))"
    by simp
  from B [THEN conjunct2, THEN conjunct1, rule_format, OF ff]
  obtain i msg where "?outs ! i = Inl msg"
    "i = hd (filter (\<lambda>i. isl (?outs ! i)) [2, 0, 1])"
    "parallel (\<lambda>f d xs. xs) ex_decode ex_config_nocache ex_call_envs [2, 0, 1] 0 5 [] ex_queries
       \<lparr>par_concurrency = None, failFast = Some True\<rparr> = Inl msg"
    by blast
  with h d have p2: "parallel (\<lambda>f d xs. xs) ex_decode ex_config_nocache ex_call_envs [2, 0, 1] 0 5 [] ex_queries
     \<lparr>par_concurrency = None, failFast = Some True\<rparr> =
     Inl ''HarperDB query failed: Table does not exist''"
    by simp
  show ?thesis using p1 p2 by blast
qed

text \<open>
  Claim C9 as it is worded fails for a \<^verbatim>\<open>select\<close> with neither \<^verbatim>\<open>sql\<close> nor
  \<^verbatim>\<open>where\<close>, which catches the error of its request: with \<^verbatim>\<open>failFast\<close>, the one
  operation below fails with a 503 after the retries, and \<^verbatim>\<open>parallel\<close> throws
  nothing, returns the empty data as its result and counts the operation as successful.
\<close>

theorem parallel_select_counterexample:
  "isl (snd (request ex_config_nocache (transport ex_env_fail) 0)) \<and>
   parallel (\<lambda>f d xs. xs) ex_decode ex_config_nocache (\<lambda>i. ex_env_fail) [0] 0 5 [] [ex_select_desc]
     \<lparr>par_concurrency = None, failFast = Some True\<rparr> =
     Inr \<lparr>pr_results = [JObj [(''data'', JArr []), (''metadata'', JObj [(''executionTime'', JNum 0)])]],
          pr_executionTime = 5, pr_successful = 1, pr_failed = 0\<rparr>"
proof -
  have nc: "\<not> enableCache ex_config_nocache" by (simp add: ex_config_nocache_def)
  have r: "snd (request ex_config_nocache (transport ex_env_fail) 0) = Inl ex_err503"
    by (simp add: ex_env_fail_def request_constant_failure)
  have t: "settledAt ex_env_fail - startedAt ex_env_fail = 7000"
    by (simp add: ex_env_fail_def)
  have o: "outcomes (\<lambda>f d xs. xs) ex_decode ex_config_nocache (\<lambda>i. ex_env_fail) 0 [] [ex_select_desc] =
      [Inr \<lparr>qr_data = JArr [], qr_executionTime = 7000, qr_recordsAffected = Some 0\<rparr>]"
    by (simp add: ex_select_desc_def ex_desc_options_def dispatch_def select_def
        executeQuery_cache_disabled [OF nc] r t)
  show ?thesis
    unfolding parallel_def o
    by (simp add: r Let_def captured_def resultValue_def resultEntry_def entryData_def)
qed

section \<open>Properties of the executor\<close>

text \<open>
  Claim C1, as the code has it. \<^verbatim>\<open>options.useCache\<close>, when given, replaces the
  configuration flag in the executor's own test; but \<^verbatim>\<open>getCached\<close> and
  \<^verbatim>\<open>setCache\<close> return early whenever the configuration flag is off. So the store
  takes part in a call exactly when the option (or, without it, the flag) asks for it and
  the flag is on: otherwise the call settles to what the transport gives and the store is
  left as it was. When the store takes part and the request is cacheable, a fresh entry is
  returned with \<^verbatim>\<open>cached: true\<close> and without any request, and a response obtained
  for a key without entry is stored under the key with the effective time to live.
\<close>

theorem executeQuery_cache_usage:
  "(opt_useCache options = Some False \<longrightarrow> \<not> useCacheOf cfg options) \<and>
   (opt_useCache options = Some True \<longrightarrow> useCacheOf cfg options) \<and>
   (\<not> (useCacheOf cfg options \<and> enableCache cfg) \<longrightarrow>
      executeQuery cfg env qc operation body options = (uncachedOutcome cfg env, qc)) \<and>
   (useCacheOf cfg options \<and> enableCache cfg \<and> generateCacheKey operation body \<noteq> [] \<longrightarrow>
      (map_of qc (generateCacheKey operation body) = Some entry \<and>
       startedAt env \<le> ce_timestamp entry + ce_ttl entry \<longrightarrow>
         executeQuery cfg env qc operation body options =
           (Inr ((ce_data entry)\<lparr>executionTime := int_or (Some (executionTime (ce_data entry))) 0,
                                 cached := Some True\<rparr>), qc)) \<and>
      (map_of qc (generateCacheKey operation body) = None \<and>
       snd (request cfg (transport env) 0) = Inr rdata \<longrightarrow>
         fst (executeQuery cfg env qc operation body options) = uncachedOutcome cfg env \<and>
         map_of (snd (executeQuery cfg env qc operation body options)) (generateCacheKey operation body) =
           Some \<lparr>ce_data = projr (uncachedOutcome cfg env), ce_timestamp = settledAt env,
                 ce_ttl = effectiveTTL cfg (cacheTTLOf cfg options)\<rparr>))"
proof (intro conjI impI)
  show "\<not> useCacheOf cfg options" if "opt_useCache options = Some False"
    using that by (simp add: useCacheOf_def)
  show "useCacheOf cfg options" if "opt_useCache options = Some True"
    using that by (simp add: useCacheOf_def)
  show "executeQuery cfg env qc operation body options = (uncachedOutcome cfg env, qc)"
    if "\<not> (useCacheOf cfg options \<and> enableCache cfg)"
    using that
    by (auto simp: executeQuery_def Let_def getCached_def setCache_def uncachedOutcome_def
        split: sum.splits)
  assume u: "useCacheOf cfg options \<and> enableCache cfg \<and> generateCacheKey operation body \<noteq> []"
  show "executeQuery cfg env qc operation body options =
           (Inr ((ce_data entry)\<lparr>executionTime := int_or (Some (executionTime (ce_data entry))) 0,
                                 cached := Some True\<rparr>), qc)"
    if "map_of qc (generateCacheKey operation body) = Some entry \<and>
       startedAt env \<le> ce_timestamp entry + ce_ttl entry"
    using u that by (simp add: executeQuery_def Let_def getCached_def)
  assume m: "map_of qc (generateCacheKey operation body) = None \<and>
       snd (request cfg (transport env) 0) = Inr rdata"
  show "fst (executeQuery cfg env qc operation body options) = uncachedOutcome cfg env"
    using u m by (simp add: executeQuery_def Let_def getCached_def uncachedOutcome_def)
  show "map_of (snd (executeQuery cfg env qc operation body options)) (generateCacheKey operation body) =
           Some \<lparr>ce_data = projr (uncachedOutcome cfg env), ce_timestamp = settledAt env,
                 ce_ttl = effectiveTTL cfg (cacheTTLOf cfg options)\<rparr>"
    using u m
    by (simp add: executeQuery_def Let_def getCached_def uncachedOutcome_def setCache_def
        AList.update_conv')
qed

lemma ex_key: "generateCacheKey ''sql'' ex_body = ''eyJvcGVyYXRpb24iOiJzcWwiLCJib2R5Ijp7InNxbCI6IlNFTEVDVCAxIn19''"
  unfolding ex_body_def by code_simp

lemma ex_ok_request:
  "request cfg (transport ex_env_ok) 0 = ([], Inr (JArr [JObj [(''id'', JNum 1)], JObj [(''id'', JNum 2)]]))"
  by (simp add: ex_env_ok_def request_immediate_success)

text \<open>
  With the flag on: \<^verbatim>\<open>useCache: true\<close> serves the stored entry; \<^verbatim>\<open>useCache: false\<close>
  sends the request and returns its rows although the entry is fresh;
  \<^verbatim>\<open>useCache: true\<close> on an empty store stores the response.
\<close>

theorem executeQuery_cache_usage_witness:
  "executeQuery ex_config ex_env_ok [(generateCacheKey ''sql'' ex_body, ex_entry)] ''sql'' ex_body ex_use_cache =
     (Inr (ex_response\<lparr>cached := Some True\<rparr>), [(generateCacheKey ''sql'' ex_body, ex_entry)]) \<and>
   executeQuery ex_config ex_env_ok [(generateCacheKey ''sql'' ex_body, ex_entry)] ''sql'' ex_body ex_no_cache =
     (Inr \<lparr>message = JStr ''Success'', data = JArr [JObj [(''id'', JNum 1)], JObj [(''id'', JNum 2)]],
           executionTime = 30, cached = None\<rparr>,
      [(generateCacheKey ''sql'' ex_body, ex_entry)]) \<and>
   map_of (snd (executeQuery ex_config ex_env_ok [] ''sql'' ex_body ex_use_cache)) (generateCacheKey ''sql'' ex_body) =
     Some \<lparr>ce_data = \<lparr>message = JStr ''Success'', data = JArr [JObj [(''id'', JNum 1)], JObj [(''id'', JNum 2)]],
                       executionTime = 30, cached = None\<rparr>,
           ce_timestamp = 130, ce_ttl = 5000\<rparr>"
proof -
  let ?k = "generateCacheKey ''sql'' ex_body"
  let ?res = "\<lparr>message = JStr ''Success'', data = JArr [JObj [(''id'', JNum 1)], JObj [(''id'', JNum 2)]],
                executionTime = 30, cached = None\<rparr>"
  have k: "?k \<noteq> []" by (simp add: ex_key)
  have en: "enableCache ex_config" by (simp add: ex_config_def)
  have u1: "opt_useCache ex_use_cache = Some True" and u0: "opt_useCache ex_no_cache = Some False"
    by (simp_all add: ex_use_cache_def ex_no_cache_def)
  have out: "uncachedOutcome ex_config ex_env_ok = Inr ?res"
    by (simp add: uncachedOutcome_def ex_ok_request responseMessage_def responseData_def)
      (simp add: ex_env_ok_def)
  note A = executeQuery_cache_usage [of ex_use_cache ex_config ex_env_ok "[(?k, ex_entry)]" "''sql''"
      ex_body ex_entry]
  note B = executeQuery_cache_usage [of ex_no_cache ex_config ex_env_ok "[(?k, ex_entry)]" "''sql''"
      ex_body ex_entry]
  note C = executeQuery_cache_usage [of ex_use_cache ex_config ex_env_ok "[]" "''sql''"
      ex_body ex_entry "JArr [JObj [(''id'', JNum 1)], JObj [(''id'', JNum 2)]]"]
  have fresh: "startedAt ex_env_ok \<le> ce_timestamp ex_entry + ce_ttl ex_entry"
    by (simp add: ex_env_ok_def ex_entry_def)
  have a: "executeQuery ex_config ex_env_ok [(?k, ex_entry)] ''sql'' ex_body ex_use_cache =
     (Inr (ex_response\<lparr>cached := Some True\<rparr>), [(?k, ex_entry)])"
    using A u1 en k fresh by (simp add: ex_entry_def ex_response_def)
  have b: "executeQuery ex_config ex_env_ok [(?k, ex_entry)] ''sql'' ex_body ex_no_cache = (Inr ?res, [(?k, ex_entry)])"
    using B u0 out by simp
  have c: "map_of (snd (executeQuery ex_config ex_env_ok [] ''sql'' ex_body ex_use_cache)) ?k =
     Some \<lparr>ce_data = ?res, ce_timestamp = 130, ce_ttl = 5000\<rparr>"
    using C u1 en k out ex_ok_request [of ex_config]
    by (simp add: effectiveTTL_def cacheTTLOf_def ex_use_cache_def ex_config_def ex_env_ok_def)
  show ?thesis using a b c by blast
qed

text \<open>
  The claim as written has \<^verbatim>\<open>useCache: true\<close> override a flag that is off. With the
  flag off and \<^verbatim>\<open>useCache: true\<close>, a cacheable request whose key has a fresh entry is
  sent to the transport and answered with its rows, not with the entry; and on an empty
  store nothing is stored.
\<close>

theorem executeQuery_useCache_counterexample:
  "executeQuery (ex_config\<lparr>enableCache := False\<rparr>) ex_env_ok
      [(generateCacheKey ''sql'' ex_body, ex_entry)] ''sql'' ex_body ex_use_cache =
     (Inr \<lparr>message = JStr ''Success'', data = JArr [JObj [(''id'', JNum 1)], JObj [(''id'', JNum 2)]],
           executionTime = 30, cached = None\<rparr>,
      [(generateCacheKey ''sql'' ex_body, ex_entry)]) \<and>
   snd (executeQuery (ex_config\<lparr>enableCache := False\<rparr>) ex_env_ok [] ''sql'' ex_body ex_use_cache) = [] \<and>
   generateCacheKey ''sql'' ex_body \<noteq> [] \<and>
   startedAt ex_env_ok \<le> ce_timestamp ex_entry + ce_ttl ex_entry"
  by (simp add: executeQuery_cache_disabled ex_ok_request responseMessage_def responseData_def
      ex_key, simp add: ex_env_ok_def ex_entry_def)

section \<open>Properties of the cache key\<close>

subsection \<open>Numerals are read back\<close>










subsection \<open>Quoted strings are read back\<close>








subsection \<open>\<^verbatim>\<open>JSON.stringify\<close> is injective\<close>














subsection \<open>The base64 encoding is injective\<close>


















subsection \<open>The normal form of a body\<close>


























subsection \<open>The key of a request\<close>










end
